theory Spec2Isabelle
  imports Complex_Main "HOL-Library.AList" "HOL-Library.Char_ord" "HOL-Library.List_Lexorder"
    "HOL-Library.Sublist" "HOL-Library.Multiset"
begin

section \<open>JavaScript values\<close>

text \<open>
  The tracker keeps plain JavaScript data: whatever \<^verbatim>\<open>JSON.parse\<close> produced from the
  local store or from an import file, and the object literals that \<^verbatim>\<open>addEntry\<close> and
  \<^verbatim>\<open>saveGoal\<close> build. Values are therefore modelled untyped, as the validators see them.

  Numbers are the finite reals together with \<^verbatim>\<open>NaN\<close> and the two infinities. A finite
  number stands for the double of that value; the arithmetic operations round their exact
  result to the nearest double (see the section on statistics). There is one zero: the
  sign of \<^verbatim>\<open>-0\<close> is not modelled.
\<close>

datatype jsnum = NaN | NegInf | Fin real | PosInf

datatype jsval =
    JUndefined
  | JNull
  | JBool bool
  | JNum jsnum
  | JStr string
  | JArr "jsval list"
  | JObj "(string \<times> jsval) list"

datatype exn = TypeError

text \<open>\<^verbatim>\<open>!!v\<close>: the falsy values are undefined, null, false, 0, NaN and the empty string.\<close>

fun truthy :: "jsval \<Rightarrow> bool" where
  "truthy JUndefined = False"
| "truthy JNull = False"
| "truthy (JBool b) = b"
| "truthy (JNum n) = (n \<noteq> NaN \<and> n \<noteq> Fin 0)"
| "truthy (JStr s) = (s \<noteq> [])"
| "truthy (JArr xs) = True"
| "truthy (JObj kvs) = True"

fun typeof :: "jsval \<Rightarrow> string" where
  "typeof JUndefined = ''undefined''"
| "typeof JNull = ''object''"
| "typeof (JBool b) = ''boolean''"
| "typeof (JNum n) = ''number''"
| "typeof (JStr s) = ''string''"
| "typeof (JArr xs) = ''object''"
| "typeof (JObj kvs) = ''object''"

fun isArray :: "jsval \<Rightarrow> bool" where
  "isArray (JArr xs) = True"
| "isArray v = False"

text \<open>
  Property lookup \<^verbatim>\<open>v.name\<close>. Reading a property of undefined or null throws a TypeError.
  In an object the last binding of a name wins, as in an object literal and in
  \<^verbatim>\<open>JSON.parse\<close>. The names the tracker reads are never array indices, \<^verbatim>\<open>length\<close> or
  methods, so on arrays and primitives the lookup yields undefined.
\<close>

fun getProp :: "jsval \<Rightarrow> string \<Rightarrow> exn + jsval" where
  "getProp JUndefined name = Inl TypeError"
| "getProp JNull name = Inl TypeError"
| "getProp (JObj kvs) name =
     (case map_of (rev kvs) name of None \<Rightarrow> Inr JUndefined | Some v \<Rightarrow> Inr v)"
| "getProp v name = Inr JUndefined"

definition bindE :: "exn + 'a \<Rightarrow> ('a \<Rightarrow> exn + 'b) \<Rightarrow> exn + 'b" where
  "bindE m f = (case m of Inl e \<Rightarrow> Inl e | Inr x \<Rightarrow> f x)"

text \<open>\<^verbatim>\<open>try { ... } catch (error) { return false; }\<close> around a validator's body.\<close>

definition catchFalse :: "exn + bool \<Rightarrow> bool" where
  "catchFalse m = (case m of Inl e \<Rightarrow> False | Inr b \<Rightarrow> b)"

subsection \<open>Comparison of numbers\<close>

fun num_lt :: "jsnum \<Rightarrow> jsnum \<Rightarrow> bool" where
  "num_lt NaN y = False"
| "num_lt x NaN = False"
| "num_lt x NegInf = False"
| "num_lt NegInf y = True"
| "num_lt PosInf y = False"
| "num_lt (Fin a) PosInf = True"
| "num_lt (Fin a) (Fin b) = (a < b)"

definition num_le :: "jsnum \<Rightarrow> jsnum \<Rightarrow> bool" where
  "num_le x y = (num_lt x y \<or> (x = y \<and> x \<noteq> NaN))"

text \<open>
  The relational operators are only ever reached with a number on the left (the
  \<^verbatim>\<open>typeof\<close> test before them short-circuits otherwise) and the literal 0 on the right.
\<close>

fun js_lt0 :: "jsval \<Rightarrow> bool" where
  "js_lt0 (JNum n) = num_lt n (Fin 0)"
| "js_lt0 v = False"

fun js_le0 :: "jsval \<Rightarrow> bool" where
  "js_le0 (JNum n) = num_le n (Fin 0)"
| "js_le0 v = False"

section \<open>Validators\<close>

text \<open>
  \<^verbatim>\<open>new Date(v)\<close> is the platform's: for a string it parses with rules that differ between
  engines, for an object it converts to a primitive first, which throws when neither
  \<^verbatim>\<open>valueOf\<close> nor \<^verbatim>\<open>toString\<close> is callable. It is a parameter \<open>newDate\<close>: an exception, or
  the time value in milliseconds since the epoch, \<open>None\<close> standing for an Invalid Date (time
  value NaN).
\<close>

type_synonym date_ctor = "jsval \<Rightarrow> exn + int option"

definition isValidDate :: "date_ctor \<Rightarrow> jsval \<Rightarrow> bool" where
  "isValidDate newDate dateString =
     (case newDate dateString of
        Inl e \<Rightarrow> False
      | Inr date \<Rightarrow> date \<noteq> None)"

definition validateEntry_body :: "date_ctor \<Rightarrow> jsval \<Rightarrow> exn + bool" where
  "validateEntry_body newDate entry =
     (if \<not> truthy entry \<or> typeof entry \<noteq> ''object'' then Inr False
      else bindE (getProp entry ''id'') (\<lambda>id.
        if \<not> truthy id \<or> typeof id \<noteq> ''number'' then Inr False
        else bindE (getProp entry ''amount'') (\<lambda>amount.
          if \<not> truthy amount \<or> typeof amount \<noteq> ''number'' \<or> js_le0 amount then Inr False
          else bindE (getProp entry ''method'') (\<lambda>method.
            if \<not> truthy method \<or> typeof method \<noteq> ''string'' then Inr False
            else bindE (getProp entry ''notes'') (\<lambda>notes.
              if truthy notes \<and> typeof notes \<noteq> ''string'' then Inr False
              else bindE (getProp entry ''mood'') (\<lambda>mood.
                if truthy mood \<and> typeof mood \<noteq> ''string'' then Inr False
                else bindE (getProp entry ''timestamp'') (\<lambda>timestamp.
                  if \<not> truthy timestamp \<or> \<not> isValidDate newDate timestamp then Inr False
                  else Inr True)))))))"

definition validateEntry :: "date_ctor \<Rightarrow> jsval \<Rightarrow> bool" where
  "validateEntry newDate entry = catchFalse (validateEntry_body newDate entry)"

text \<open>
  Total property read, for places where the receiver is known to be an object (after the
  validators' first guard, and for the fields of validated entries).
\<close>

definition field :: "jsval \<Rightarrow> string \<Rightarrow> jsval" where
  "field v name = (case getProp v name of Inl e \<Rightarrow> JUndefined | Inr x \<Rightarrow> x)"

definition goalTypes :: "jsval list" where
  "goalTypes = [JStr ''reduce'', JStr ''maintain'', JStr ''quit'', JStr ''stash'']"

definition validateGoals_body :: "jsval \<Rightarrow> exn + bool" where
  "validateGoals_body goals =
     (if \<not> truthy goals \<or> typeof goals \<noteq> ''object'' then Inr False
      else bindE (getProp goals ''weeklyAmount'') (\<lambda>weeklyAmount.
        if typeof weeklyAmount \<noteq> ''number'' \<or> js_lt0 weeklyAmount then Inr False
        else bindE (getProp goals ''goalType'') (\<lambda>goalType.
          if \<not> truthy goalType \<or> goalType \<notin> set goalTypes then Inr False
          else bindE (getProp goals ''stashAmount'') (\<lambda>stashAmount.
            if stashAmount \<noteq> JUndefined
               \<and> (typeof stashAmount \<noteq> ''number'' \<or> js_lt0 stashAmount) then Inr False
            else Inr True))))"

definition validateGoals :: "jsval \<Rightarrow> bool" where
  "validateGoals goals = catchFalse (validateGoals_body goals)"

definition validateSettings_body :: "jsval \<Rightarrow> exn + bool" where
  "validateSettings_body settings =
     (if \<not> truthy settings \<or> typeof settings \<noteq> ''object'' then Inr False
      else bindE (getProp settings ''pricePerGram'') (\<lambda>pricePerGram.
        if typeof pricePerGram \<noteq> ''number'' \<or> js_lt0 pricePerGram then Inr False
        else bindE (getProp settings ''currency'') (\<lambda>currency.
          if \<not> truthy currency \<or> typeof currency \<noteq> ''string'' then Inr False
          else Inr True)))"

definition validateSettings :: "jsval \<Rightarrow> bool" where
  "validateSettings settings = catchFalse (validateSettings_body settings)"

text \<open>
  \<^verbatim>\<open>for (const entry of data.entries)\<close> runs after \<^verbatim>\<open>Array.isArray\<close> has passed; the loop
  returns false at the first entry that fails.
\<close>

fun elements :: "jsval \<Rightarrow> jsval list" where
  "elements (JArr xs) = xs"
| "elements v = []"

fun allEntriesValid :: "date_ctor \<Rightarrow> jsval list \<Rightarrow> bool" where
  "allEntriesValid newDate [] = True"
| "allEntriesValid newDate (entry # rest) =
     (if \<not> validateEntry newDate entry then False else allEntriesValid newDate rest)"

definition validateImportData_body :: "date_ctor \<Rightarrow> jsval \<Rightarrow> exn + bool" where
  "validateImportData_body newDate data =
     (if \<not> truthy data \<or> typeof data \<noteq> ''object'' then Inr False
      else bindE (getProp data ''entries'') (\<lambda>entries.
        if \<not> isArray entries then Inr False
        else bindE (getProp data ''goals'') (\<lambda>goals.
          if \<not> validateGoals goals then Inr False
          else bindE (getProp data ''settings'') (\<lambda>settings.
            if \<not> validateSettings settings then Inr False
            else Inr (allEntriesValid newDate (elements entries))))))"

definition validateImportData :: "date_ctor \<Rightarrow> jsval \<Rightarrow> bool" where
  "validateImportData newDate data = catchFalse (validateImportData_body newDate data)"

definition validateExportData_body :: "date_ctor \<Rightarrow> jsval \<Rightarrow> exn + bool" where
  "validateExportData_body newDate data =
     (if \<not> truthy data \<or> typeof data \<noteq> ''object'' then Inr False
      else bindE (getProp data ''entries'') (\<lambda>entries.
        if \<not> isArray entries then Inr False
        else bindE (getProp data ''goals'') (\<lambda>goals.
          if \<not> validateGoals goals then Inr False
          else bindE (getProp data ''settings'') (\<lambda>settings.
            if \<not> validateSettings settings then Inr False
            else bindE (getProp data ''exportDate'') (\<lambda>exportDate.
              if \<not> truthy exportDate \<or> \<not> isValidDate newDate exportDate then Inr False
              else Inr True)))))"

definition validateExportData :: "date_ctor \<Rightarrow> jsval \<Rightarrow> bool" where
  "validateExportData newDate data = catchFalse (validateExportData_body newDate data)"

section \<open>JSON documents\<close>

text \<open>
  The text that \<^verbatim>\<open>JSON.stringify\<close> writes and \<^verbatim>\<open>JSON.parse\<close> reads is modelled by its
  syntax tree. \<^verbatim>\<open>JSON.stringify\<close> has no notation for undefined, NaN or the infinities: a
  property whose value is undefined is left out, an undefined array element and every
  non-finite number is written as \<^verbatim>\<open>null\<close>.
\<close>

datatype json =
    JsonNull
  | JsonBool bool
  | JsonNumber real
  | JsonString string
  | JsonArray "json list"
  | JsonObject "(string \<times> json) list"

fun stringify :: "jsval \<Rightarrow> json option"
  and stringifyElements :: "jsval list \<Rightarrow> json list"
  and stringifyProperties :: "(string \<times> jsval) list \<Rightarrow> (string \<times> json) list"
where
  "stringify JUndefined = None"
| "stringify JNull = Some JsonNull"
| "stringify (JBool b) = Some (JsonBool b)"
| "stringify (JNum (Fin r)) = Some (JsonNumber r)"
| "stringify (JNum NaN) = Some JsonNull"
| "stringify (JNum NegInf) = Some JsonNull"
| "stringify (JNum PosInf) = Some JsonNull"
| "stringify (JStr s) = Some (JsonString s)"
| "stringify (JArr xs) = Some (JsonArray (stringifyElements xs))"
| "stringify (JObj kvs) = Some (JsonObject (stringifyProperties kvs))"
| "stringifyElements [] = []"
| "stringifyElements (x # xs) =
     (case stringify x of None \<Rightarrow> JsonNull | Some j \<Rightarrow> j) # stringifyElements xs"
| "stringifyProperties [] = []"
| "stringifyProperties (kv # kvs) =
     (case stringify (snd kv) of
        None \<Rightarrow> stringifyProperties kvs
      | Some j \<Rightarrow> (fst kv, j) # stringifyProperties kvs)"

fun parse :: "json \<Rightarrow> jsval"
  and parseElements :: "json list \<Rightarrow> jsval list"
  and parseProperties :: "(string \<times> json) list \<Rightarrow> (string \<times> jsval) list"
where
  "parse JsonNull = JNull"
| "parse (JsonBool b) = JBool b"
| "parse (JsonNumber r) = JNum (Fin r)"
| "parse (JsonString s) = JStr s"
| "parse (JsonArray js) = JArr (parseElements js)"
| "parse (JsonObject kjs) = JObj (parseProperties kjs)"
| "parseElements [] = []"
| "parseElements (j # js) = parse j # parseElements js"
| "parseProperties [] = []"
| "parseProperties (kj # kjs) = (fst kj, parse (snd kj)) # parseProperties kjs"

text \<open>The values that \<^verbatim>\<open>JSON.stringify\<close> writes without loss.\<close>

fun jsonRepresentable :: "jsval \<Rightarrow> bool"
  and jsonRepresentableAll :: "jsval list \<Rightarrow> bool"
  and jsonRepresentableProps :: "(string \<times> jsval) list \<Rightarrow> bool"
where
  "jsonRepresentable JUndefined = False"
| "jsonRepresentable JNull = True"
| "jsonRepresentable (JBool b) = True"
| "jsonRepresentable (JNum (Fin r)) = True"
| "jsonRepresentable (JNum NaN) = False"
| "jsonRepresentable (JNum NegInf) = False"
| "jsonRepresentable (JNum PosInf) = False"
| "jsonRepresentable (JStr s) = True"
| "jsonRepresentable (JArr xs) = jsonRepresentableAll xs"
| "jsonRepresentable (JObj kvs) = jsonRepresentableProps kvs"
| "jsonRepresentableAll [] = True"
| "jsonRepresentableAll (x # xs) = (jsonRepresentable x \<and> jsonRepresentableAll xs)"
| "jsonRepresentableProps [] = True"
| "jsonRepresentableProps (kv # kvs) = (jsonRepresentable (snd kv) \<and> jsonRepresentableProps kvs)"

section \<open>The platform\<close>

text \<open>
  What the code takes from the browser, as parameters of the model:
  \<^item> \<open>newDate\<close>: the \<^verbatim>\<open>Date\<close> constructor, as above;
  \<^item> \<open>toISOString\<close>: \<^verbatim>\<open>new Date(t).toISOString()\<close> for a time value \<open>t\<close>;
  \<^item> \<open>tzOffset\<close>: local time is taken to be UTC plus a fixed number of milliseconds
    (no daylight-saving transitions);
  \<^item> \<open>toText\<close>: the string that a template literal \<^verbatim>\<open>${v}\<close> inserts for a value;
  \<^item> \<open>toLocaleTimeString\<close>: the locale's rendering of a time of day (\<open>None\<close> for an
    Invalid Date);
  \<^item> \<open>inheritedText\<close>: for a name that every object inherits from \<^verbatim>\<open>Object.prototype\<close>
    (such as \<^verbatim>\<open>constructor\<close> or \<^verbatim>\<open>toString\<close>), the string that a template literal
    inserts for the inherited member; \<open>None\<close> for every other name.
  Time values are unbounded integers; the limit of \<open>8.64e15\<close> ms of a JavaScript date is not
  modelled.
\<close>

record platform =
  newDate :: date_ctor
  toISOString :: "int \<Rightarrow> string"
  tzOffset :: int
  toText :: "jsval \<Rightarrow> string"
  toLocaleTimeString :: "int option \<Rightarrow> string"
  inheritedText :: "string \<Rightarrow> string option"

text \<open>
  \<^verbatim>\<open>new Date(entry.timestamp)\<close> as the statistics use it: its time value, \<open>None\<close> for NaN.
  Every entry in memory has passed \<^verbatim>\<open>validateEntry\<close>, so the constructor has returned a
  valid date for it before; where it would throw, the model also yields \<open>None\<close>.
\<close>

definition entryTime :: "platform \<Rightarrow> jsval \<Rightarrow> int option" where
  "entryTime pf entry =
     (case newDate pf (field entry ''timestamp'') of
        Inl e \<Rightarrow> None
      | Inr date \<Rightarrow> date)"

text \<open>Comparison of two dates by their time values; false as soon as one of them is NaN.\<close>

fun date_gt :: "int option \<Rightarrow> int option \<Rightarrow> bool" where
  "date_gt (Some a) (Some b) = (a > b)"
| "date_gt x y = False"

fun date_ge :: "int option \<Rightarrow> int option \<Rightarrow> bool" where
  "date_ge (Some a) (Some b) = (a \<ge> b)"
| "date_ge x y = False"

fun date_le :: "int option \<Rightarrow> int option \<Rightarrow> bool" where
  "date_le (Some a) (Some b) = (a \<le> b)"
| "date_le x y = False"

text \<open>Decimal digits of a number, for \<^verbatim>\<open>'weedTrackerBackup_' + Date.now()\<close> and for \<^verbatim>\<open>toFixed\<close>.\<close>

fun showNat :: "nat \<Rightarrow> string" where
  "showNat n =
     (if n < 10 then [''0123456789'' ! n]
      else showNat (n div 10) @ [''0123456789'' ! (n mod 10)])"

declare showNat.simps [simp del]

definition showInt :: "int \<Rightarrow> string" where
  "showInt i = (if i < 0 then ''-'' @ showNat (nat (- i)) else showNat (nat i))"

section \<open>Application state and local storage\<close>

text \<open>
  \<^verbatim>\<open>localStorage\<close> maps keys to texts. A text is modelled by the JSON document it spells,
  \<open>None\<close> when it is not JSON (then \<^verbatim>\<open>JSON.parse\<close> throws). Writes are taken to succeed:
  a full or disabled store is not modelled.
\<close>

type_synonym storage = "(string \<times> json option) list"

definition getItem :: "string \<Rightarrow> storage \<Rightarrow> json option option" where
  "getItem key store = map_of store key"

definition setItem :: "string \<Rightarrow> json option \<Rightarrow> storage \<Rightarrow> storage" where
  "setItem key text store = AList.update key text store"

definition removeItem :: "string \<Rightarrow> storage \<Rightarrow> storage" where
  "removeItem key store = AList.delete key store"

record tracker =
  entries :: "jsval list"
  goals :: jsval
  settings :: jsval
  localStorage :: storage

text \<open>
  \<^verbatim>\<open>JSON.stringify(v)\<close> of the arrays and objects that are saved; it yields undefined only
  for undefined itself, which is never saved.
\<close>

definition stringifyText :: "jsval \<Rightarrow> json option" where
  "stringifyText v = stringify v"

text \<open>\<^verbatim>\<open>isLocalStorageAvailable\<close> writes a test key and removes it again.\<close>

definition isLocalStorageAvailable :: "storage \<Rightarrow> storage" where
  "isLocalStorageAvailable store =
     removeItem ''__localStorage_test__''
       (setItem ''__localStorage_test__'' (Some (JsonString ''__localStorage_test__'')) store)"

definition saveEntries :: "tracker \<Rightarrow> tracker" where
  "saveEntries t =
     t\<lparr>localStorage :=
         setItem ''weedTrackerEntries'' (stringifyText (JArr (entries t)))
           (isLocalStorageAvailable (localStorage t))\<rparr>"

definition saveGoals :: "tracker \<Rightarrow> tracker" where
  "saveGoals t =
     t\<lparr>localStorage := setItem ''weedTrackerGoals'' (stringifyText (goals t)) (localStorage t)\<rparr>"

definition saveSettings :: "tracker \<Rightarrow> tracker" where
  "saveSettings t =
     t\<lparr>localStorage :=
         setItem ''weedTrackerSettings'' (stringifyText (settings t)) (localStorage t)\<rparr>"

subsection \<open>Sorting by consumption time\<close>

text \<open>
  \<^verbatim>\<open>(a, b) => new Date(b.timestamp) - new Date(a.timestamp)\<close>. A NaN result counts as 0 in
  \<^verbatim>\<open>Array.prototype.sort\<close>.
\<close>

definition byTimestampDesc :: "platform \<Rightarrow> jsval \<Rightarrow> jsval \<Rightarrow> int" where
  "byTimestampDesc pf a b =
     (case (entryTime pf b, entryTime pf a) of
        (Some tb, Some ta) \<Rightarrow> tb - ta
      | _ \<Rightarrow> 0)"

text \<open>
  \<^verbatim>\<open>Array.prototype.sort\<close> is a stable sort (ECMAScript 2019). With a consistent comparator
  every stable sort gives the same result; it is modelled by insertion from the right.
\<close>

fun insertSorted :: "('a \<Rightarrow> 'a \<Rightarrow> int) \<Rightarrow> 'a \<Rightarrow> 'a list \<Rightarrow> 'a list" where
  "insertSorted cmp x [] = [x]"
| "insertSorted cmp x (y # ys) =
     (if cmp x y \<le> 0 then x # y # ys else y # insertSorted cmp x ys)"

definition sortWith :: "('a \<Rightarrow> 'a \<Rightarrow> int) \<Rightarrow> 'a list \<Rightarrow> 'a list" where
  "sortWith cmp xs = foldr (insertSorted cmp) xs []"

subsection \<open>Loading, adding and deleting entries\<close>

definition loadEntries :: "platform \<Rightarrow> storage \<Rightarrow> jsval list" where
  "loadEntries pf store =
     (case getItem ''weedTrackerEntries'' (isLocalStorageAvailable store) of
        None \<Rightarrow> []
      | Some None \<Rightarrow> []
      | Some (Some saved) \<Rightarrow>
          (let parsed = parse saved in
           if \<not> isArray parsed then []
           else
             let validEntries = filter (validateEntry (newDate pf)) (elements parsed)
             in sortWith (byTimestampDesc pf) validEntries))"

definition isSpace :: "char \<Rightarrow> bool" where
  "isSpace c = (c \<in> set [CHR '' '', CHR 0x09, CHR 0x0A, CHR 0x0B, CHR 0x0C, CHR 0x0D])"

definition trim :: "string \<Rightarrow> string" where
  "trim s = rev (dropWhile isSpace (rev (dropWhile isSpace s)))"

definition sanitizeInput :: "string \<Rightarrow> nat \<Rightarrow> string" where
  "sanitizeInput input maxLength =
     trim (take maxLength (filter (\<lambda>c. c \<noteq> CHR ''<'' \<and> c \<noteq> CHR ''>'') input))"

definition methods :: "string list" where
  "methods = [''joint'', ''bong'', ''pipe'', ''cigarette'', ''vape'', ''edible'', ''other'']"

definition moods :: "string list" where
  "moods = [''great'', ''good'', ''neutral'', ''bad'', ''terrible'']"

text \<open>
  The form's values: \<open>amount\<close> is the result of \<^verbatim>\<open>parseFloat\<close>, the others are the input
  strings. \<open>now\<close> is the clock at the moment of the call. Every early return leaves the
  tracker as it is.
\<close>

record form =
  amountInput :: jsnum
  methodInput :: string
  notesInput :: string
  moodInput :: string
  timeInput :: string

definition addEntry :: "platform \<Rightarrow> form \<Rightarrow> int \<Rightarrow> tracker \<Rightarrow> tracker" where
  "addEntry pf f now t =
     (let amount = amountInput f;
          method = methodInput f;
          notes = sanitizeInput (trim (notesInput f)) 1000;
          mood = moodInput f;
          timestamp = timeInput f
      in
        if \<not> truthy (JNum amount) \<or> num_le amount (Fin 0) \<or> num_lt (Fin 1000) amount then t
        else if method = [] \<or> method \<notin> set methods then t
        else if timestamp = [] \<or> \<not> isValidDate (newDate pf) (JStr timestamp) then t
        else if mood \<noteq> [] \<and> mood \<notin> set moods then t
        else
          let entry = JObj
                [(''id'', JNum (Fin (of_int now))),
                 (''amount'', JNum amount),
                 (''method'', JStr method),
                 (''notes'', JStr notes),
                 (''mood'', JStr mood),
                 (''timestamp'', JStr timestamp),
                 (''createdAt'', JStr (toISOString pf now))]
          in
            if \<not> validateEntry (newDate pf) entry then t
            else saveEntries
                   (t\<lparr>entries := sortWith (byTimestampDesc pf) (entries t @ [entry])\<rparr>))"

definition deleteEntry :: "jsval \<Rightarrow> tracker \<Rightarrow> tracker" where
  "deleteEntry id' t =
     (if \<not> truthy id' \<or> typeof id' \<noteq> ''number'' then t
      else
        let initialLength = length (entries t);
            t' = t\<lparr>entries := filter (\<lambda>entry. field entry ''id'' \<noteq> id') (entries t)\<rparr>
        in if length (entries t') = initialLength then t' else saveEntries t')"

section \<open>Export and import\<close>

text \<open>
  \<^verbatim>\<open>exportData\<close> yields the document that is offered for download, \<open>None\<close> when the
  validation before the export fails.
\<close>

definition exportData :: "platform \<Rightarrow> int \<Rightarrow> tracker \<Rightarrow> json option" where
  "exportData pf now t =
     (let data = JObj
            [(''entries'', JArr (entries t)),
             (''goals'', goals t),
             (''settings'', settings t),
             (''exportDate'', JStr (toISOString pf now))]
      in if \<not> validateExportData (newDate pf) data then None
         else stringify data)"

text \<open>
  The object spread \<^verbatim>\<open>{ ...v }\<close> copies the own properties of an object; of undefined,
  null, a number or a boolean it copies nothing. Spreading an array or a string (index
  keys) is not modelled: goals and settings that passed their validators are objects.
\<close>

fun spreadObject :: "jsval \<Rightarrow> jsval" where
  "spreadObject (JObj kvs) = JObj kvs"
| "spreadObject v = JObj []"

definition backupPrefix :: string where
  "backupPrefix = ''weedTrackerBackup_''"

text \<open>
  \<^verbatim>\<open>localStorage.key(i)\<close> enumerates the keys in an order the platform chooses; the keys
  are sorted before use. The default \<^verbatim>\<open>sort()\<close> compares strings by code units.
\<close>

definition backupKeysOf :: "storage \<Rightarrow> string list" where
  "backupKeysOf store = filter (\<lambda>key. key \<noteq> [] \<and> prefix backupPrefix key) (map fst store)"

definition cleanupOldBackups :: "tracker \<Rightarrow> tracker" where
  "cleanupOldBackups t =
     (let backupKeys = backupKeysOf (localStorage t);
          sortedKeys = rev (sort backupKeys)
      in t\<lparr>localStorage := fold removeItem (drop 5 sortedKeys) (localStorage t)\<rparr>)"

text \<open>
  \<^verbatim>\<open>performImport\<close>; the two clock reads for \<^verbatim>\<open>backupDate\<close> and for the key are taken at
  the same \<open>now\<close>.
\<close>

definition performImport :: "platform \<Rightarrow> jsval \<Rightarrow> int \<Rightarrow> tracker \<Rightarrow> tracker" where
  "performImport pf importedData now t =
     (let backupData = JObj
            [(''entries'', JArr (entries t)),
             (''goals'', spreadObject (goals t)),
             (''settings'', spreadObject (settings t)),
             (''backupDate'', JStr (toISOString pf now))];
          backupKey = backupPrefix @ showInt now;
          t1 = t\<lparr>localStorage := setItem backupKey (stringifyText backupData) (localStorage t)\<rparr>;
          t2 = t1\<lparr>entries := elements (field importedData ''entries''),
                   goals := spreadObject (field importedData ''goals''),
                   settings := spreadObject (field importedData ''settings'')\<rparr>;
          t3 = saveSettings (saveGoals (saveEntries t2))
      in cleanupOldBackups t3)"

text \<open>
  The handler of the file reader in \<^verbatim>\<open>importData\<close>: \<open>fileText\<close> is the content of the
  chosen file (\<open>None\<close> when it is not JSON), \<open>confirmed\<close> tells whether the user accepts
  the confirmation dialog of \<^verbatim>\<open>showImportConfirmation\<close>.
\<close>

definition importData :: "platform \<Rightarrow> json option \<Rightarrow> bool \<Rightarrow> int \<Rightarrow> tracker \<Rightarrow> tracker" where
  "importData pf fileText confirmed now t =
     (case fileText of
        None \<Rightarrow> t
      | Some text \<Rightarrow>
          (let importedData = parse text in
           if \<not> validateImportData (newDate pf) importedData then t
           else if confirmed then performImport pf importedData now t
           else t))"

section \<open>Statistics\<close>

subsection \<open>Double precision\<close>

text \<open>
  The finite JavaScript numbers are the doubles: the reals \<open>m * 2^q\<close> with integers
  \<open>\<bar>m\<bar> < 2^53\<close> and \<open>-1074 \<le> q \<le> 971\<close>. An arithmetic operation yields the double nearest
  to its exact result, of two nearest ones the one with the even \<open>m\<close>, and an infinity
  when the rounded value reaches \<open>2^1024\<close>.

  \<open>ulpExp x\<close> is the exponent \<open>q\<close> of the doubles around \<open>x\<close>: the least \<open>q\<close> from \<open>-1074\<close>
  on with \<open>\<bar>x\<bar> < 2^(q + 53)\<close>, and 971 when there is none below.
\<close>

fun scaleExp :: "nat \<Rightarrow> real \<Rightarrow> int \<Rightarrow> int" where
  "scaleExp 0 a q = q"
| "scaleExp (Suc fuel) a q = (if a < 2 powi (q + 53) then q else scaleExp fuel a (q + 1))"

definition ulpExp :: "real \<Rightarrow> int" where
  "ulpExp x = scaleExp 2045 \<bar>x\<bar> (- 1074)"

text \<open>The nearest integer, the even one of two.\<close>

definition roundEven :: "real \<Rightarrow> int" where
  "roundEven y =
     (let n = \<lfloor>y\<rfloor>; d = y - of_int n
      in if d < 1 / 2 then n else if 1 / 2 < d then n + 1 else if even n then n else n + 1)"

definition roundDouble :: "real \<Rightarrow> jsnum" where
  "roundDouble x =
     (let q = ulpExp x;
          r = of_int (roundEven (x / 2 powi q)) * 2 powi q
      in if 2 ^ 1024 \<le> \<bar>r\<bar> then (if r < 0 then NegInf else PosInf) else Fin r)"

text \<open>The double that a decimal literal of the source or of a JSON text denotes.\<close>

definition double :: "real \<Rightarrow> real" where
  "double x = (case roundDouble x of Fin r \<Rightarrow> r | _ \<Rightarrow> 0)"

subsection \<open>Arithmetic on numbers\<close>

fun num_neg :: "jsnum \<Rightarrow> jsnum" where
  "num_neg NaN = NaN"
| "num_neg NegInf = PosInf"
| "num_neg PosInf = NegInf"
| "num_neg (Fin a) = Fin (- a)"

fun num_add :: "jsnum \<Rightarrow> jsnum \<Rightarrow> jsnum" where
  "num_add NaN y = NaN"
| "num_add x NaN = NaN"
| "num_add (Fin a) (Fin b) = roundDouble (a + b)"
| "num_add PosInf NegInf = NaN"
| "num_add NegInf PosInf = NaN"
| "num_add PosInf y = PosInf"
| "num_add x PosInf = PosInf"
| "num_add NegInf y = NegInf"
| "num_add x NegInf = NegInf"

definition num_sub :: "jsnum \<Rightarrow> jsnum \<Rightarrow> jsnum" where
  "num_sub x y = num_add x (num_neg y)"

text \<open>Sign of a number that is not NaN; zero has the sign of \<^verbatim>\<open>+0\<close>.\<close>

fun num_sgn :: "jsnum \<Rightarrow> int" where
  "num_sgn NaN = 0"
| "num_sgn NegInf = - 1"
| "num_sgn PosInf = 1"
| "num_sgn (Fin a) = (if a < 0 then - 1 else if a = 0 then 0 else 1)"

definition num_signed_inf :: "int \<Rightarrow> jsnum" where
  "num_signed_inf s = (if s = 0 then NaN else if s < 0 then NegInf else PosInf)"

fun num_mul :: "jsnum \<Rightarrow> jsnum \<Rightarrow> jsnum" where
  "num_mul NaN y = NaN"
| "num_mul x NaN = NaN"
| "num_mul (Fin a) (Fin b) = roundDouble (a * b)"
| "num_mul x y = num_signed_inf (num_sgn x * num_sgn y)"

text \<open>Division; a zero divisor is \<^verbatim>\<open>+0\<close> (the model has no negative zero).\<close>

fun num_div :: "jsnum \<Rightarrow> jsnum \<Rightarrow> jsnum" where
  "num_div NaN y = NaN"
| "num_div x NaN = NaN"
| "num_div (Fin a) (Fin b) =
     (if b = 0 then num_signed_inf (num_sgn (Fin a)) else roundDouble (a / b))"
| "num_div (Fin a) y = Fin 0"
| "num_div x (Fin b) = num_signed_inf (num_sgn x * (if b < 0 then - 1 else 1))"
| "num_div x y = NaN"

definition num_min :: "jsnum \<Rightarrow> jsnum \<Rightarrow> jsnum" where
  "num_min x y = (if x = NaN \<or> y = NaN then NaN else if num_lt y x then y else x)"

fun num_abs :: "jsnum \<Rightarrow> jsnum" where
  "num_abs NaN = NaN"
| "num_abs NegInf = PosInf"
| "num_abs PosInf = PosInf"
| "num_abs (Fin a) = Fin \<bar>a\<bar>"

text \<open>\<^verbatim>\<open>Math.floor\<close>\<close>

fun num_floor :: "jsnum \<Rightarrow> jsnum" where
  "num_floor (Fin a) = Fin (of_int \<lfloor>a\<rfloor>)"
| "num_floor x = x"

text \<open>
  A number read from a field in an arithmetic expression. The fields used this way
  (\<^verbatim>\<open>amount\<close>, \<^verbatim>\<open>pricePerGram\<close>, \<^verbatim>\<open>stashAmount\<close>) hold numbers once the validators have
  passed; the conversions that JavaScript applies to other values are not modelled.
\<close>

fun numberOf :: "jsval \<Rightarrow> jsnum" where
  "numberOf (JNum n) = n"
| "numberOf v = NaN"

subsection \<open>\<^verbatim>\<open>Number.prototype.toFixed\<close>\<close>

text \<open>
  \<^verbatim>\<open>x.toFixed(f)\<close> takes the integer \<open>n\<close> for which \<open>n / 10^f\<close> is closest to \<open>x\<close>, the
  larger one of two, and writes it with \<open>f\<close> decimals; a negative \<open>x\<close> is written as a
  minus sign before the text for \<open>- x\<close>. From \<open>10^21\<close> on the result is the text that a
  template literal gives for the number (in exponent notation).
\<close>

definition roundHalfUp :: "real \<Rightarrow> int" where
  "roundHalfUp x = \<lfloor>x + 1 / 2\<rfloor>"

definition showFixed :: "nat \<Rightarrow> nat \<Rightarrow> string" where
  "showFixed f n =
     (let m = showNat n;
          k = length m;
          padded = (if k \<le> f then replicate (f + 1 - k) (CHR ''0'') @ m else m)
      in if f = 0 then padded
         else take (length padded - f) padded @ ''.'' @ drop (length padded - f) padded)"

fun toFixed :: "platform \<Rightarrow> nat \<Rightarrow> jsnum \<Rightarrow> string" where
  "toFixed pf f NaN = ''NaN''"
| "toFixed pf f PosInf = ''Infinity''"
| "toFixed pf f NegInf = ''-Infinity''"
| "toFixed pf f (Fin x) =
     (if 10 ^ 21 \<le> \<bar>x\<bar> then toText pf (JNum (Fin x))
      else if x < 0 then ''-'' @ showFixed f (nat (roundHalfUp (- x * 10 ^ f)))
      else showFixed f (nat (roundHalfUp (x * 10 ^ f))))"

subsection \<open>The last 24 hours\<close>

text \<open>\<^verbatim>\<open>entries.reduce((sum, entry) => sum + entry.amount, 0)\<close>\<close>

definition sumAmounts :: "jsval list \<Rightarrow> jsnum" where
  "sumAmounts es = foldl (\<lambda>sum entry. num_add sum (numberOf (field entry ''amount''))) (Fin 0) es"

record todayStats =
  last24HoursCount :: nat
  last24HoursAmount :: jsnum
  last24HoursCost :: string

definition updateTodayStats :: "platform \<Rightarrow> int \<Rightarrow> tracker \<Rightarrow> todayStats" where
  "updateTodayStats pf now t =
     (let twentyFourHoursAgo = now - 24 * 60 * 60 * 1000;
          last24HoursEntries = filter (\<lambda>entry.
              let entryTime = entryTime pf entry
              in date_ge entryTime (Some twentyFourHoursAgo) \<and> date_le entryTime (Some now))
            (entries t);
          amount = sumAmounts last24HoursEntries
      in \<lparr>last24HoursCount = length last24HoursEntries,
          last24HoursAmount = amount,
          last24HoursCost = toFixed pf 2 (num_mul amount (numberOf (field (settings t) ''pricePerGram'')))\<rparr>)"

subsection \<open>Stash progress\<close>

text \<open>
  The result is what is written to the page: the width of the progress bar as a
  percentage (the code appends \<^verbatim>\<open>'%'\<close>) and the goal text.
\<close>

record progress =
  goalProgress :: jsnum
  goalText :: string

definition updateStashProgress :: "platform \<Rightarrow> int \<Rightarrow> tracker \<Rightarrow> progress" where
  "updateStashProgress pf now t =
     (let stashAmount = field (goals t) ''stashAmount'' in
      if \<not> truthy stashAmount \<or> js_le0 stashAmount then
        \<lparr>goalProgress = Fin 0, goalText = ''Set a stash goal to track your weed supply''\<rparr>
      else
        let stashStartDate =
              (if truthy (field (goals t) ''stashStartDate'')
               then (case newDate pf (field (goals t) ''stashStartDate'') of
                       Inl e \<Rightarrow> None | Inr date \<Rightarrow> date)
               else Some now);
            entriesSinceStash = filter (\<lambda>entry. date_ge (entryTime pf entry) stashStartDate)
                                  (entries t);
            totalUsed = sumAmounts entriesSinceStash;
            remainingStash = num_sub (numberOf stashAmount) totalUsed;
            progress = num_min (num_mul (num_div totalUsed (numberOf stashAmount)) (Fin 100))
                         (Fin 100)
        in \<lparr>goalProgress = progress,
            goalText =
              (if num_lt (Fin 0) remainingStash
               then toFixed pf 1 remainingStash @ ''g left in stash''
               else ''Stash depleted by '' @ toFixed pf 1 (num_abs remainingStash) @ ''g'')\<rparr>)"

subsection \<open>Goal progress\<close>

definition updateGoalProgress :: "platform \<Rightarrow> int \<Rightarrow> tracker \<Rightarrow> progress" where
  "updateGoalProgress pf now t =
     (if field (goals t) ''goalType'' = JStr ''stash'' then updateStashProgress pf now t
      else
        let weeklyAmount = field (goals t) ''weeklyAmount'' in
        if \<not> truthy weeklyAmount \<or> js_le0 weeklyAmount then
          \<lparr>goalProgress = Fin 0, goalText = ''Set a weekly goal to track progress''\<rparr>
        else
          let sevenDaysAgo = now - 7 * 24 * 60 * 60 * 1000;
              weekEntries = filter (\<lambda>entry.
                  date_ge (entryTime pf entry) (Some sevenDaysAgo)
                  \<and> date_le (entryTime pf entry) (Some now))
                (entries t);
              weekAmount = sumAmounts weekEntries;
              progress = num_min (num_mul (num_div weekAmount (numberOf weeklyAmount)) (Fin 100))
                           (Fin 100);
              remaining = num_sub (numberOf weeklyAmount) weekAmount
          in \<lparr>goalProgress = progress,
              goalText =
                (if num_lt (Fin 0) remaining
                 then toFixed pf 1 remaining @ ''g remaining this week''
                 else ''Goal exceeded by '' @ toFixed pf 1 (num_abs remaining) @ ''g'')\<rparr>)"

subsection \<open>Streak\<close>

text \<open>
  \<^verbatim>\<open>d.setHours(0, 0, 0, 0)\<close>: the time value of the local midnight that starts the day of
  \<open>t\<close>. \<^verbatim>\<open>d.setDate(d.getDate() - 1)\<close> on a midnight gives the midnight before, 24 hours
  earlier.
\<close>

definition setHoursZero :: "platform \<Rightarrow> int \<Rightarrow> int" where
  "setHoursZero pf t = t - (t + tzOffset pf) mod (24 * 60 * 60 * 1000)"

definition onDay :: "platform \<Rightarrow> int \<Rightarrow> jsval \<Rightarrow> bool" where
  "onDay pf midnight entry =
     (case entryTime pf entry of
        None \<Rightarrow> False
      | Some entryDate \<Rightarrow> setHoursZero pf entryDate = midnight)"

text \<open>
  The \<^verbatim>\<open>while (true)\<close> loop of \<^verbatim>\<open>calculateStreak\<close>. It ends because every round needs
  an entry on the current day, and moves to a day that this entry is not on.
\<close>

function streakLoop :: "platform \<Rightarrow> jsval list \<Rightarrow> int \<Rightarrow> nat \<Rightarrow> nat" where
  "streakLoop pf es currentDate streakCount =
     (let dateEntries = filter (onDay pf currentDate) es
      in if length dateEntries > 0
         then streakLoop pf es (currentDate - 24 * 60 * 60 * 1000) (streakCount + 1)
         else streakCount)"
  by pat_completeness auto
termination
proof (relation "measure (\<lambda>(pf, es, currentDate, streakCount).
    length (filter (\<lambda>entry. case entryTime pf entry of None \<Rightarrow> False
                              | Some d \<Rightarrow> setHoursZero pf d \<le> currentDate) es))")
  show "wf (measure (\<lambda>(pf, es, currentDate, streakCount).
    length (filter (\<lambda>entry. case entryTime pf entry of None \<Rightarrow> False
                              | Some d \<Rightarrow> setHoursZero pf d \<le> currentDate) es)))"
    by simp
next
  fix pf :: platform and es :: "jsval list" and currentDate :: int and streakCount :: nat
    and dateEntries :: "jsval list"
  assume de: "dateEntries = filter (onDay pf currentDate) es" and pos: "0 < length dateEntries"
  let ?upto = "\<lambda>c entry. case entryTime pf entry of None \<Rightarrow> False
                              | Some d \<Rightarrow> setHoursZero pf d \<le> c"
  from de pos have "filter (onDay pf currentDate) es \<noteq> []"
    by auto
  then obtain e where e: "e \<in> set es" "onDay pf currentDate e"
    by (auto simp: filter_empty_conv)
  have sub: "filter (?upto (currentDate - 24 * 60 * 60 * 1000)) es
             = filter (?upto (currentDate - 24 * 60 * 60 * 1000)) (filter (?upto currentDate) es)"
    by (auto simp: filter_filter split: option.splits intro!: filter_cong)
  have e_in: "e \<in> set (filter (?upto currentDate) es)"
    using e by (auto simp: onDay_def split: option.splits)
  have e_out: "\<not> ?upto (currentDate - 24 * 60 * 60 * 1000) e"
    using e by (auto simp: onDay_def split: option.splits)
  have "length (filter (?upto (currentDate - 24 * 60 * 60 * 1000)) (filter (?upto currentDate) es))
        < length (filter (?upto currentDate) es)"
    using e_in e_out by (rule length_filter_less)
  then have "length (filter (?upto (currentDate - 24 * 60 * 60 * 1000)) es)
        < length (filter (?upto currentDate) es)"
    by (simp only: sub [symmetric])
  then show "((pf, es, currentDate - 24 * 60 * 60 * 1000, streakCount + 1),
                  (pf, es, currentDate, streakCount))
                 \<in> measure (\<lambda>(pf, es, currentDate, streakCount).
                     length (filter (\<lambda>entry. case entryTime pf entry of None \<Rightarrow> False
                              | Some d \<Rightarrow> setHoursZero pf d \<le> currentDate) es))"
    by (simp only: in_measure prod.case)
qed

declare streakLoop.simps [simp del]

record streak =
  count :: nat
  type :: string

definition calculateStreak :: "platform \<Rightarrow> int \<Rightarrow> tracker \<Rightarrow> streak" where
  "calculateStreak pf now t =
     (if length (entries t) = 0 then \<lparr>count = 0, type = ''No streak yet''\<rparr>
      else
        let today = setHoursZero pf now;
            todayEntries = filter (onDay pf today) (entries t);
            hasEntryToday = (length todayEntries > 0);
            streakCount = streakLoop pf (entries t) today 0
        in if streakCount = 0 then \<lparr>count = 0, type = ''No streak yet''\<rparr>
           else if hasEntryToday
             then \<lparr>count = streakCount, type = ''day streak (including today)''\<rparr>
           else \<lparr>count = streakCount, type = ''day streak (last entry yesterday)''\<rparr>)"

subsection \<open>Time since the last entry\<close>

definition methodMap :: "(string \<times> string) list" where
  "methodMap =
     [(''joint'', ''Joint''), (''bong'', ''Bong''), (''pipe'', ''Pipe''),
      (''cigarette'', ''Cigarette''), (''vape'', ''Vape''), (''edible'', ''Edible''),
      (''other'', ''Other'')]"

text \<open>
  \<^verbatim>\<open>methodMap[method] || method\<close>, as the text that the template literal inserts. The
  lookup finds the object's own names first and then the names that it inherits from
  \<^verbatim>\<open>Object.prototype\<close>, whose members are all truthy.
\<close>

definition getMethodLabel :: "platform \<Rightarrow> jsval \<Rightarrow> string" where
  "getMethodLabel pf method =
     (case method of
        JStr m \<Rightarrow>
          (case map_of methodMap m of
             Some label \<Rightarrow> label
           | None \<Rightarrow> (case inheritedText pf m of Some text \<Rightarrow> text | None \<Rightarrow> m))
      | _ \<Rightarrow> toText pf method)"

text \<open>The \<^verbatim>\<open>for ... of\<close> loop that looks for the latest timestamp.\<close>

fun scanMostRecent :: "platform \<Rightarrow> jsval \<Rightarrow> int option \<Rightarrow> jsval list \<Rightarrow> jsval \<times> int option" where
  "scanMostRecent pf mostRecentEntry mostRecentTime [] = (mostRecentEntry, mostRecentTime)"
| "scanMostRecent pf mostRecentEntry mostRecentTime (entry # rest) =
     (if date_gt (entryTime pf entry) mostRecentTime
      then scanMostRecent pf entry (entryTime pf entry) rest
      else scanMostRecent pf mostRecentEntry mostRecentTime rest)"

text \<open>
  \<^verbatim>\<open>getTime()\<close> of a date, NaN for an Invalid Date; and the double that the literal
  \<^verbatim>\<open>30.44\<close> of the source denotes (\<^verbatim>\<open>365.25\<close> is a double itself).
\<close>

definition getTime :: "int option \<Rightarrow> jsnum" where
  "getTime date = (case date of None \<Rightarrow> NaN | Some t \<Rightarrow> Fin (of_int t))"

definition daysPerMonth :: real where
  "daysPerMonth = 8568098291072369 / 281474976710656"

record timeSince =
  sinceValue :: jsnum
  sinceUnit :: string
  sinceText :: string

definition calculateTimeSinceLastJoint :: "platform \<Rightarrow> int \<Rightarrow> tracker \<Rightarrow> timeSince" where
  "calculateTimeSinceLastJoint pf now t =
     (case entries t of
        [] \<Rightarrow> \<lparr>sinceValue = Fin 0, sinceUnit = ''hours'', sinceText = ''No usage yet''\<rparr>
      | first # others \<Rightarrow>
          (let found = scanMostRecent pf first (entryTime pf first) (entries t);
               mostRecentEntry = fst found;
               mostRecentTime = snd found;
               timeDiff = num_sub (getTime (Some now)) (getTime mostRecentTime);
               minutes = num_floor (num_div timeDiff (Fin (1000 * 60)));
               hours = num_floor (num_div timeDiff (Fin (1000 * 60 * 60)));
               days = num_floor (num_div timeDiff (Fin (1000 * 60 * 60 * 24)));
               months = num_floor (num_div days (Fin daysPerMonth));
               years = num_floor (num_div days (Fin 365.25));
               timeOfDay = toLocaleTimeString pf mostRecentTime;
               lastUsage = ''Last usage: '' @ toText pf (field mostRecentEntry ''amount'') @ ''g ''
                           @ getMethodLabel pf (field mostRecentEntry ''method'')
                           @ '' at '' @ timeOfDay
           in if num_lt (Fin 0) years then
                \<lparr>sinceValue = num_min years (Fin 99), sinceUnit = ''years'',
                 sinceText = lastUsage\<rparr>
              else if num_lt (Fin 0) months then
                \<lparr>sinceValue = num_min months (Fin 99), sinceUnit = ''months'',
                 sinceText = lastUsage\<rparr>
              else if num_lt (Fin 0) days then
                \<lparr>sinceValue = num_min days (Fin 99), sinceUnit = ''days'',
                 sinceText = lastUsage\<rparr>
              else if num_lt (Fin 0) hours then
                \<lparr>sinceValue = num_min hours (Fin 99), sinceUnit = ''hours'',
                 sinceText = lastUsage\<rparr>
              else
                \<lparr>sinceValue = num_min minutes (Fin 99), sinceUnit = ''minutes'',
                 sinceText = lastUsage\<rparr>))"

section \<open>Sample data\<close>

text \<open>
  A stand-in for the platform in the examples. It agrees with a browser whose local time
  is UTC on the inputs that occur below: the listed ISO strings, numbers (a time value,
  truncated), and objects that own non-callable \<^verbatim>\<open>toString\<close> and \<^verbatim>\<open>valueOf\<close> properties,
  for which the conversion to a primitive throws.
\<close>

definition sampleDates :: "(string \<times> int) list" where
  "sampleDates =
     [(''2024-01-13T23:59:59.999Z'', 1705190399999),
      (''2024-01-14T09:00:00.000Z'', 1705222800000),
      (''2024-01-15T00:00:00.000Z'', 1705276800000),
      (''2024-01-15T10:30:00.000Z'', 1705314600000),
      (''2024-01-16T08:00:00.000Z'', 1705392000000),
      (''2024-01-17T10:30:00.000Z'', 1705487400000)]"

definition testDate :: date_ctor where
  "testDate v =
     (case v of
        JStr s \<Rightarrow> Inr (map_of sampleDates s)
      | JNum (Fin r) \<Rightarrow>
          Inr (if \<bar>r\<bar> \<le> 8640000000000000 then Some (if 0 \<le> r then \<lfloor>r\<rfloor> else \<lceil>r\<rceil>) else None)
      | JNull \<Rightarrow> Inr (Some 0)
      | JBool b \<Rightarrow> Inr (Some (if b then 1 else 0))
      | JObj kvs \<Rightarrow>
          (if map_of kvs ''toString'' \<noteq> None \<and> map_of kvs ''valueOf'' \<noteq> None
           then Inl TypeError else Inr None)
      | _ \<Rightarrow> Inr None)"

definition testISO :: "int \<Rightarrow> string" where
  "testISO t = (case map_of (map (\<lambda>p. (snd p, fst p)) sampleDates) t of Some s \<Rightarrow> s | None \<Rightarrow> [])"

text \<open>
  The members that every object inherits from \<^verbatim>\<open>Object.prototype\<close>, with the text that a
  template literal inserts for each: the source text of a native function, and
  \<^verbatim>\<open>[object Object]\<close> for the prototype itself.
\<close>

definition objectPrototype :: "(string \<times> string) list" where
  "objectPrototype =
     [(''constructor'', ''function Object() { [native code] }''),
      (''hasOwnProperty'', ''function hasOwnProperty() { [native code] }''),
      (''isPrototypeOf'', ''function isPrototypeOf() { [native code] }''),
      (''propertyIsEnumerable'', ''function propertyIsEnumerable() { [native code] }''),
      (''toLocaleString'', ''function toLocaleString() { [native code] }''),
      (''toString'', ''function toString() { [native code] }''),
      (''valueOf'', ''function valueOf() { [native code] }''),
      (''__proto__'', ''[object Object]'')]"

definition testPlatform :: platform where
  "testPlatform =
     \<lparr>newDate = testDate, toISOString = testISO, tzOffset = 0,
      toText = (\<lambda>v. ''?''), toLocaleTimeString = (\<lambda>t. ''?''),
      inheritedText = map_of objectPrototype\<rparr>"

definition entryMinimal :: jsval where
  "entryMinimal = JObj
     [(''id'', JNum (Fin 1705314600123)), (''amount'', JNum (Fin 0.5)),
      (''method'', JStr ''joint''), (''timestamp'', JStr ''2024-01-15T10:30:00.000Z'')]"

definition entryZeroId :: jsval where
  "entryZeroId = JObj
     [(''id'', JNum (Fin 0)), (''amount'', JNum (Fin 0.5)),
      (''method'', JStr ''joint''), (''timestamp'', JStr ''2024-01-15T10:30:00.000Z'')]"

definition entryEmptyMethod :: jsval where
  "entryEmptyMethod = JObj
     [(''id'', JNum (Fin 1705314600123)), (''amount'', JNum (Fin 0.5)),
      (''method'', JStr []), (''timestamp'', JStr ''2024-01-15T10:30:00.000Z'')]"

definition entryNoId :: jsval where
  "entryNoId = JObj
     [(''amount'', JNum (Fin 0.5)),
      (''method'', JStr ''joint''), (''timestamp'', JStr ''2024-01-15T10:30:00.000Z'')]"

definition entryZeroAmount :: jsval where
  "entryZeroAmount = JObj
     [(''id'', JNum (Fin 1705314600123)), (''amount'', JNum (Fin 0)),
      (''method'', JStr ''joint''), (''timestamp'', JStr ''2024-01-15T10:30:00.000Z'')]"

definition entryNumericMethod :: jsval where
  "entryNumericMethod = JObj
     [(''id'', JNum (Fin 1705314600123)), (''amount'', JNum (Fin 0.5)),
      (''method'', JNum (Fin 7)), (''timestamp'', JStr ''2024-01-15T10:30:00.000Z'')]"

definition entryBadTimestamp :: jsval where
  "entryBadTimestamp = JObj
     [(''id'', JNum (Fin 1705314600123)), (''amount'', JNum (Fin 0.5)),
      (''method'', JStr ''joint''), (''timestamp'', JStr ''yesterday evening'')]"

definition entryThrowingTimestamp :: jsval where
  "entryThrowingTimestamp = JObj
     [(''id'', JNum (Fin 1705314600123)), (''amount'', JNum (Fin 0.5)),
      (''method'', JStr ''joint''),
      (''timestamp'', JObj [(''toString'', JNum (Fin 1)), (''valueOf'', JNum (Fin 1))])]"

definition getDefaultGoals :: jsval where
  "getDefaultGoals = JObj
     [(''weeklyAmount'', JNum (Fin 0)), (''goalType'', JStr ''reduce''), (''startDate'', JNull),
      (''stashAmount'', JNum (Fin 0)), (''stashStartDate'', JNull)]"

definition getDefaultSettings :: jsval where
  "getDefaultSettings = JObj [(''pricePerGram'', JNum (Fin 10)), (''currency'', JStr ''USD'')]"

definition emptyTracker :: tracker where
  "emptyTracker =
     \<lparr>entries = [], goals = getDefaultGoals, settings = getDefaultSettings, localStorage = []\<rparr>"

definition jsonEntry :: "real \<Rightarrow> json \<Rightarrow> string \<Rightarrow> string \<Rightarrow> json" where
  "jsonEntry i a m ts = JsonObject
     [(''id'', JsonNumber i), (''amount'', a), (''method'', JsonString m),
      (''timestamp'', JsonString ts)]"

definition jsonGoals :: json where
  "jsonGoals = JsonObject
     [(''weeklyAmount'', JsonNumber 0), (''goalType'', JsonString ''reduce''),
      (''startDate'', JsonNull), (''stashAmount'', JsonNumber 0), (''stashStartDate'', JsonNull)]"

definition jsonSettings :: json where
  "jsonSettings = JsonObject [(''pricePerGram'', JsonNumber 10), (''currency'', JsonString ''USD'')]"

text \<open>An import file in which the second of two entries has amount 0.\<close>

definition docZeroAmount :: json where
  "docZeroAmount = JsonObject
     [(''entries'', JsonArray
         [jsonEntry 1705314600123 (JsonNumber 0.5) ''joint'' ''2024-01-15T10:30:00.000Z'',
          jsonEntry 1705392000456 (JsonNumber 0) ''vape'' ''2024-01-16T08:00:00.000Z'']),
      (''goals'', jsonGoals),
      (''settings'', jsonSettings),
      (''exportDate'', JsonString ''2024-01-17T10:30:00.000Z'')]"

text \<open>A tracker with one entry, and one whose only entry has the amount Infinity.\<close>

definition oneEntryTracker :: tracker where
  "oneEntryTracker =
     \<lparr>entries = [entryMinimal], goals = getDefaultGoals, settings = getDefaultSettings,
      localStorage = []\<rparr>"

definition entryInfiniteAmount :: jsval where
  "entryInfiniteAmount = JObj
     [(''id'', JNum (Fin 1705314600123)), (''amount'', JNum PosInf),
      (''method'', JStr ''joint''), (''timestamp'', JStr ''2024-01-15T10:30:00.000Z'')]"

definition infiniteAmountTracker :: tracker where
  "infiniteAmountTracker =
     \<lparr>entries = [entryInfiniteAmount], goals = getDefaultGoals, settings = getDefaultSettings,
      localStorage = []\<rparr>"

definition docInfiniteAmount :: json where
  "docInfiniteAmount = JsonObject
     [(''entries'', JsonArray
         [jsonEntry 1705314600123 JsonNull ''joint'' ''2024-01-15T10:30:00.000Z'']),
      (''goals'', jsonGoals),
      (''settings'', jsonSettings),
      (''exportDate'', JsonString ''2024-01-17T10:30:00.000Z'')]"

section \<open>Specification notions\<close>

text \<open>
  "Sorted descending by timestamp": of two entries, the one that stands first has the
  later or the same time, and both have one.
\<close>

definition sortedDesc :: "platform \<Rightarrow> jsval list \<Rightarrow> bool" where
  "sortedDesc pf es = sorted_wrt (\<lambda>a b. date_ge (entryTime pf a) (entryTime pf b)) es"

text \<open>The key by which the comparator of the sort orders entries that have a time.\<close>

definition negTime :: "platform \<Rightarrow> jsval \<Rightarrow> int" where
  "negTime pf entry = (case entryTime pf entry of Some t \<Rightarrow> - t | None \<Rightarrow> 0)"

text \<open>An import file whose two entries stand in ascending order of time.\<close>

definition docAscending :: json where
  "docAscending = JsonObject
     [(''entries'', JsonArray
         [jsonEntry 1705222800111 (JsonNumber 0.5) ''joint'' ''2024-01-14T09:00:00.000Z'',
          jsonEntry 1705392000456 (JsonNumber 0.3) ''vape'' ''2024-01-16T08:00:00.000Z'']),
      (''goals'', jsonGoals),
      (''settings'', jsonSettings),
      (''exportDate'', JsonString ''2024-01-17T10:30:00.000Z'')]"

definition entryJan14 :: jsval where
  "entryJan14 = JObj
     [(''id'', JNum (Fin 1705222800111)), (''amount'', JNum (Fin 0.5)),
      (''method'', JStr ''joint''), (''timestamp'', JStr ''2024-01-14T09:00:00.000Z'')]"

definition entryJan16 :: jsval where
  "entryJan16 = JObj
     [(''id'', JNum (Fin 1705392000456)), (''amount'', JNum (Fin 0.3)),
      (''method'', JStr ''vape''), (''timestamp'', JStr ''2024-01-16T08:00:00.000Z'')]"

section \<open>The earlier version of the application (\<^verbatim>\<open>script.js\<close>)\<close>

text \<open>
  \<^verbatim>\<open>script.js\<close> is an earlier version of the same class, without validation. Two of its
  methods differ in what the properties below are about: \<^verbatim>\<open>addEntry\<close> puts the new entry
  at the front (\<^verbatim>\<open>unshift\<close>) and does not sort, and \<^verbatim>\<open>updateTodayStats\<close> selects the
  entries of the current calendar day (equal \<^verbatim>\<open>toDateString()\<close>).
\<close>

definition script_addEntry :: "platform \<Rightarrow> form \<Rightarrow> int \<Rightarrow> tracker \<Rightarrow> tracker" where
  "script_addEntry pf f now t =
     (let entry = JObj
            [(''id'', JNum (Fin (of_int now))),
             (''amount'', JNum (amountInput f)),
             (''method'', JStr (methodInput f)),
             (''notes'', JStr (trim (notesInput f))),
             (''mood'', JStr (moodInput f)),
             (''timestamp'', JStr (timeInput f)),
             (''createdAt'', JStr (toISOString pf now))];
          t' = t\<lparr>entries := entry # entries t\<rparr>
      in t'\<lparr>localStorage :=
             setItem ''weedTrackerEntries'' (stringifyText (JArr (entries t'))) (localStorage t')\<rparr>)"

definition script_updateTodayStats :: "platform \<Rightarrow> int \<Rightarrow> tracker \<Rightarrow> todayStats" where
  "script_updateTodayStats pf now t =
     (let todayEntries = filter (onDay pf (setHoursZero pf now)) (entries t);
          todayAmount = sumAmounts todayEntries
      in \<lparr>last24HoursCount = length todayEntries,
          last24HoursAmount = todayAmount,
          last24HoursCost =
            toFixed pf 2 (num_mul todayAmount (numberOf (field (settings t) ''pricePerGram'')))\<rparr>)"

definition backdatedForm :: form where
  "backdatedForm =
     \<lparr>amountInput = Fin 0.5, methodInput = ''joint'', notesInput = [], moodInput = [],
      timeInput = ''2024-01-14T09:00:00.000Z''\<rparr>"

definition jan16Tracker :: tracker where
  "jan16Tracker =
     \<lparr>entries = [entryJan16], goals = getDefaultGoals, settings = getDefaultSettings,
      localStorage = []\<rparr>"

text \<open>A series of committed imports: each file with the clock value at its import.\<close>

fun importAll :: "platform \<Rightarrow> (json \<times> int) list \<Rightarrow> tracker \<Rightarrow> tracker" where
  "importAll pf [] t = t"
| "importAll pf (file # files) t =
     importAll pf files (importData pf (Some (fst file)) True (snd file) t)"

text \<open>The key under which an import at clock value \<open>now\<close> stores its backup.\<close>

definition backupKeyAt :: "int \<Rightarrow> string" where
  "backupKeyAt now = backupPrefix @ showInt now"

text \<open>
  Seven imports of the same file, one minute apart; and seven imports while the clock
  passes from twelve to thirteen decimal digits (9 September 2001, 01:46:40 UTC).
\<close>

definition sevenImports :: "(json \<times> int) list" where
  "sevenImports = map (\<lambda>now. (docAscending, now))
     [1705487400000, 1705487460000, 1705487520000, 1705487580000, 1705487640000,
      1705487700000, 1705487760000]"


text \<open>
  The values of \<^verbatim>\<open>Date.now()\<close> from September 2001 to November 2286: those with thirteen
  decimal digits.
\<close>

definition thirteenDigits :: "int \<Rightarrow> bool" where
  "thirteenDigits u = (10 ^ 12 \<le> u \<and> u < 10 ^ 13)"

text \<open>The calendar day of a time value in local time, as a day number.\<close>

definition localDay :: "platform \<Rightarrow> int \<Rightarrow> int" where
  "localDay pf t = (t + tzOffset pf) div 86400000"

text \<open>Three entries on three consecutive days (14, 15 and 16 January 2024).\<close>

definition threeDayTracker :: tracker where
  "threeDayTracker =
     \<lparr>entries = [entryJan16, entryMinimal, entryJan14], goals = getDefaultGoals,
      settings = getDefaultSettings, localStorage = []\<rparr>"

text \<open>"In the rolling window": the entry has a time between \<open>now\<close> minus 24 hours and \<open>now\<close>.\<close>

definition inLast24Hours :: "platform \<Rightarrow> int \<Rightarrow> jsval \<Rightarrow> bool" where
  "inLast24Hours pf now entry =
     (case entryTime pf entry of
        None \<Rightarrow> False
      | Some ts \<Rightarrow> now - 86400000 \<le> ts \<and> ts \<le> now)"

text \<open>"On the calendar day of \<open>now\<close>": the entry has a time on the same local day.\<close>

definition onDayOf :: "platform \<Rightarrow> int \<Rightarrow> jsval \<Rightarrow> bool" where
  "onDayOf pf now entry =
     (case entryTime pf entry of
        None \<Rightarrow> False
      | Some ts \<Rightarrow> localDay pf ts = localDay pf now)"

text \<open>"Since the start of the stash": the entry has a time at or after \<open>start\<close>.\<close>

definition sinceStart :: "platform \<Rightarrow> int \<Rightarrow> jsval \<Rightarrow> bool" where
  "sinceStart pf start entry =
     (case entryTime pf entry of
        None \<Rightarrow> False
      | Some ts \<Rightarrow> start \<le> ts)"

text \<open>
  "The sum of the amounts": the amounts added up in the order of the list, each addition
  being that of JavaScript.
\<close>

definition amountOf :: "jsval \<Rightarrow> jsnum" where
  "amountOf entry = numberOf (field entry ''amount'')"

definition jsSum :: "jsnum list \<Rightarrow> jsnum" where
  "jsSum xs = foldl num_add (Fin 0) xs"

text \<open>The decimal digit of a number below 10.\<close>

definition digit :: "nat \<Rightarrow> char" where
  "digit n = ''0123456789'' ! n"

text \<open>
  "With \<open>f\<close> decimals" (for \<open>f\<close> = 1 and 2): the text shows the number of tenths, or of
  hundredths, that is nearest to the value.
\<close>

definition oneDecimal :: "nat \<Rightarrow> string" where
  "oneDecimal tenths = showNat (tenths div 10) @ [CHR ''.'', digit (tenths mod 10)]"

definition twoDecimals :: "nat \<Rightarrow> string" where
  "twoDecimals cents =
     showNat (cents div 100) @ [CHR ''.'', digit (cents div 10 mod 10), digit (cents mod 10)]"

text \<open>
  Three entries with the amounts 0.1, 0.2 and 0.5 at a price of 12.5 per gram: the one of
  16 January at 08:00, the one of 15 January at 10:30 and the one of 14 January at 09:00.
\<close>

definition sampleEntry :: "real \<Rightarrow> real \<Rightarrow> string \<Rightarrow> string \<Rightarrow> jsval" where
  "sampleEntry i a m ts = JObj
     [(''id'', JNum (Fin i)), (''amount'', JNum (Fin a)), (''method'', JStr m),
      (''timestamp'', JStr ts)]"

definition windowTracker :: tracker where
  "windowTracker =
     \<lparr>entries =
        [sampleEntry 3 (double 0.1) ''vape'' ''2024-01-16T08:00:00.000Z'',
         sampleEntry 2 (double 0.2) ''joint'' ''2024-01-15T10:30:00.000Z'',
         sampleEntry 1 0.5 ''joint'' ''2024-01-14T09:00:00.000Z''],
      goals = getDefaultGoals,
      settings = JObj [(''pricePerGram'', JNum (Fin 12.5)), (''currency'', JStr ''USD'')],
      localStorage = []\<rparr>"

text \<open>
  Trackers with a stash goal that started on 14 January 2024 at 09:00, or has no start
  date:
  \<^item> one entry before the start (3 g) and two entries since (5 g at the very start, 7 g);
  \<^item> entries of 0.3 g and 0.1 g;
  \<^item> entries of 0.3 g and 0.5 g;
  \<^item> one entry of 0.75 g;
  \<^item> one entry with the amount Infinity.
\<close>

definition stashGoals :: "jsnum \<Rightarrow> jsval \<Rightarrow> jsval" where
  "stashGoals amount start = JObj
     [(''goalType'', JStr ''stash''), (''startDate'', JStr ''2024-01-14T09:00:00.000Z''),
      (''stashAmount'', JNum amount), (''stashStartDate'', start),
      (''weeklyAmount'', JNum (Fin 0))]"

definition stashTracker :: "jsval list \<Rightarrow> jsnum \<Rightarrow> jsval \<Rightarrow> tracker" where
  "stashTracker es amount start =
     \<lparr>entries = es, goals = stashGoals amount start, settings = getDefaultSettings,
      localStorage = []\<rparr>"

definition stashEntries :: "jsval list" where
  "stashEntries =
     [sampleEntry 3 7 ''bong'' ''2024-01-16T08:00:00.000Z'',
      sampleEntry 2 5 ''joint'' ''2024-01-14T09:00:00.000Z'',
      sampleEntry 1 3 ''joint'' ''2024-01-13T23:59:59.999Z'']"

definition tenthsEntries :: "jsval list" where
  "tenthsEntries =
     [sampleEntry 2 (double 0.3) ''vape'' ''2024-01-16T08:00:00.000Z'',
      sampleEntry 1 (double 0.1) ''joint'' ''2024-01-15T10:30:00.000Z'']"

definition mixedEntries :: "jsval list" where
  "mixedEntries =
     [sampleEntry 2 (double 0.3) ''vape'' ''2024-01-16T08:00:00.000Z'',
      sampleEntry 1 0.5 ''joint'' ''2024-01-15T10:30:00.000Z'']"

definition quarterEntries :: "jsval list" where
  "quarterEntries = [sampleEntry 1 0.75 ''joint'' ''2024-01-15T10:30:00.000Z'']"

definition infiniteEntries :: "jsval list" where
  "infiniteEntries = [entryInfiniteAmount]"

text \<open>
  The form for an entry of 0.5 g dated 17 January 2024, 10:30, two days after the clock
  value 1705314600000 (15 January 2024, 10:30) used with it below.
\<close>

definition futureForm :: form where
  "futureForm =
     \<lparr>amountInput = Fin 0.5, methodInput = ''joint'', notesInput = [], moodInput = [],
      timeInput = ''2024-01-17T10:30:00.000Z''\<rparr>"

text \<open>
  The entry that \<^verbatim>\<open>addEntry\<close> builds from this form at that clock value, and a tracker
  that holds it.
\<close>

definition futureEntry :: jsval where
  "futureEntry = JObj
     [(''id'', JNum (Fin 1705314600000)), (''amount'', JNum (Fin 0.5)),
      (''method'', JStr ''joint''), (''notes'', JStr []), (''mood'', JStr []),
      (''timestamp'', JStr ''2024-01-17T10:30:00.000Z''),
      (''createdAt'', JStr ''2024-01-15T10:30:00.000Z'')]"

definition futureTracker :: tracker where
  "futureTracker =
     \<lparr>entries = [futureEntry], goals = getDefaultGoals, settings = getDefaultSettings,
      localStorage = []\<rparr>"

text \<open>The three sample entries in an order that is not sorted.\<close>

definition unsortedTracker :: tracker where
  "unsortedTracker =
     \<lparr>entries = [entryJan14, entryJan16, entryMinimal], goals = getDefaultGoals,
      settings = getDefaultSettings, localStorage = []\<rparr>"

section \<open>Properties of the validators\<close>

lemma getProp_object:
  "truthy v \<Longrightarrow> typeof v = ''object'' \<Longrightarrow> getProp v name = Inr (field v name)"
  by (cases v) (auto simp: field_def split: option.splits)

lemma validateEntry_body_eq:
  "validateEntry_body nd entry = Inr
     (truthy entry \<and> typeof entry = ''object''
      \<and> truthy (field entry ''id'') \<and> typeof (field entry ''id'') = ''number''
      \<and> truthy (field entry ''amount'') \<and> typeof (field entry ''amount'') = ''number''
      \<and> \<not> js_le0 (field entry ''amount'')
      \<and> truthy (field entry ''method'') \<and> typeof (field entry ''method'') = ''string''
      \<and> (truthy (field entry ''notes'') \<longrightarrow> typeof (field entry ''notes'') = ''string'')
      \<and> (truthy (field entry ''mood'') \<longrightarrow> typeof (field entry ''mood'') = ''string'')
      \<and> truthy (field entry ''timestamp'') \<and> isValidDate nd (field entry ''timestamp''))"
proof (cases "truthy entry \<and> typeof entry = ''object''")
  case False
  then show ?thesis by (auto simp: validateEntry_body_def)
next
  case True
  then have g: "\<And>name. getProp entry name = Inr (field entry name)"
    by (simp add: getProp_object)
  show ?thesis
    using True by (auto simp: validateEntry_body_def g bindE_def)
qed

lemma validateEntry_iff:
  "validateEntry nd entry \<longleftrightarrow>
     truthy entry \<and> typeof entry = ''object''
      \<and> truthy (field entry ''id'') \<and> typeof (field entry ''id'') = ''number''
      \<and> truthy (field entry ''amount'') \<and> typeof (field entry ''amount'') = ''number''
      \<and> \<not> js_le0 (field entry ''amount'')
      \<and> truthy (field entry ''method'') \<and> typeof (field entry ''method'') = ''string''
      \<and> (truthy (field entry ''notes'') \<longrightarrow> typeof (field entry ''notes'') = ''string'')
      \<and> (truthy (field entry ''mood'') \<longrightarrow> typeof (field entry ''mood'') = ''string'')
      \<and> truthy (field entry ''timestamp'') \<and> isValidDate nd (field entry ''timestamp'')"
  by (simp add: validateEntry_def validateEntry_body_eq catchFalse_def)

lemma typeof_number: "typeof v = ''number'' \<longleftrightarrow> (\<exists>n. v = JNum n)"
  by (cases v) auto

lemma typeof_string: "typeof v = ''string'' \<longleftrightarrow> (\<exists>s. v = JStr s)"
  by (cases v) auto

lemma num_le_zero_iff: "n \<noteq> NaN \<Longrightarrow> \<not> num_le n (Fin 0) \<longleftrightarrow> num_lt (Fin 0) n"
  by (cases n) (auto simp: num_le_def)

lemma field_JObj_simps [simp]:
  "field (JObj []) name = JUndefined"
  "field (JObj (kvs @ [(k, v)])) name = (if name = k then v else field (JObj kvs) name)"
  by (auto simp: field_def split: option.splits)

lemma field_JObj4:
  "field (JObj [(k1, v1), (k2, v2), (k3, v3), (k4, v4)]) name =
     (if name = k4 then v4 else if name = k3 then v3 else if name = k2 then v2
      else if name = k1 then v1 else JUndefined)"
  by (auto simp: field_def)

text \<open>
  C10. The validator returns false whenever the record's id is the number 0 or its method
  is the empty string, whatever the other fields are; a record that is accepted has a
  non-zero (and non-NaN) numeric id and a non-empty method string.
\<close>

theorem validateEntry_needs_truthy_id_and_method:
  "(field entry ''id'' = JNum (Fin 0) \<or> field entry ''method'' = JStr [] \<longrightarrow>
      \<not> validateEntry nd entry)
   \<and> (validateEntry nd entry \<longrightarrow>
        (\<exists>n. field entry ''id'' = JNum n \<and> n \<noteq> Fin 0 \<and> n \<noteq> NaN)
        \<and> (\<exists>m. field entry ''method'' = JStr m \<and> m \<noteq> []))"
  by (auto simp: validateEntry_iff typeof_number typeof_string)

theorem validateEntry_needs_truthy_id_and_method_witness:
  "typeof (field entryZeroId ''id'') = ''number'' \<and> \<not> validateEntry testDate entryZeroId
   \<and> typeof (field entryEmptyMethod ''method'') = ''string''
   \<and> \<not> validateEntry testDate entryEmptyMethod
   \<and> validateEntry testDate entryMinimal
   \<and> field entryMinimal ''id'' = JNum (Fin 1705314600123)
   \<and> field entryMinimal ''method'' = JStr ''joint''"
proof -
  have z: "field entryZeroId ''id'' = JNum (Fin 0)"
    by (simp add: entryZeroId_def field_JObj4)
  have m: "field entryEmptyMethod ''method'' = JStr []"
    by (simp add: entryEmptyMethod_def field_JObj4)
  have v: "validateEntry testDate entryMinimal"
    by (simp add: validateEntry_iff entryMinimal_def field_JObj4 isValidDate_def testDate_def
        sampleDates_def num_le_def)
  from validateEntry_needs_truthy_id_and_method [of entryZeroId testDate] z
  have 1: "\<not> validateEntry testDate entryZeroId" by blast
  from validateEntry_needs_truthy_id_and_method [of entryEmptyMethod testDate] m
  have 2: "\<not> validateEntry testDate entryEmptyMethod" by blast
  from validateEntry_needs_truthy_id_and_method [of entryMinimal testDate] v
  have 3: "(\<exists>n. field entryMinimal ''id'' = JNum n \<and> n \<noteq> Fin 0 \<and> n \<noteq> NaN)
        \<and> (\<exists>m. field entryMinimal ''method'' = JStr m \<and> m \<noteq> [])" by blast
  show ?thesis
    using 1 2 3 v z m by (simp add: entryMinimal_def field_JObj4)
qed

lemma validateEntry_body_returns: "validateEntry_body nd entry = Inr (validateEntry nd entry)"
  by (simp add: validateEntry_def validateEntry_body_eq catchFalse_def)

lemma validateEntry_minimal:
  assumes "i \<noteq> NaN" "i \<noteq> Fin 0" "num_lt (Fin 0) a" "m \<noteq> []" "truthy ts" "isValidDate nd ts"
  shows "validateEntry nd (JObj [(''id'', JNum i), (''amount'', JNum a), (''method'', JStr m),
                                  (''timestamp'', ts)])"
proof -
  from assms(3) have "a \<noteq> NaN" "\<not> num_le a (Fin 0)" "a \<noteq> Fin 0"
    by (cases a; auto simp: num_le_def)+
  with assms show ?thesis
    by (simp add: validateEntry_iff field_JObj4)
qed

text \<open>
  C9 (as amended). The validator never throws: its body always returns normally, so the
  handler that turns an exception into "invalid" is never needed. It rejects a candidate
  whose id is missing, whose amount is a number at most 0, whose method is not a string, or
  whose timestamp does not give a valid date. It accepts the record with only the fields id,
  amount, method and timestamp for every numeric id other than 0 and NaN, every numeric
  amount above 0, every non-empty method string and every truthy timestamp that gives a
  valid date.
\<close>

theorem validateEntry_contract:
  "validateEntry_body nd entry = Inr (validateEntry nd entry)
   \<and> (field entry ''id'' = JUndefined \<longrightarrow> \<not> validateEntry nd entry)
   \<and> (js_le0 (field entry ''amount'') \<longrightarrow> \<not> validateEntry nd entry)
   \<and> (typeof (field entry ''method'') \<noteq> ''string'' \<longrightarrow> \<not> validateEntry nd entry)
   \<and> (\<not> isValidDate nd (field entry ''timestamp'') \<longrightarrow> \<not> validateEntry nd entry)
   \<and> (i \<noteq> NaN \<and> i \<noteq> Fin 0 \<and> num_lt (Fin 0) a \<and> m \<noteq> [] \<and> truthy ts \<and> isValidDate nd ts \<longrightarrow>
        validateEntry nd (JObj [(''id'', JNum i), (''amount'', JNum a), (''method'', JStr m),
                                (''timestamp'', ts)]))"
  using validateEntry_minimal [of i a m ts nd]
  by (auto simp: validateEntry_body_returns validateEntry_iff)

theorem validateEntry_contract_witness:
  "validateEntry_body testDate entryThrowingTimestamp = Inr False
   \<and> \<not> validateEntry testDate entryNoId
   \<and> \<not> validateEntry testDate entryZeroAmount
   \<and> \<not> validateEntry testDate entryNumericMethod
   \<and> \<not> validateEntry testDate entryBadTimestamp
   \<and> validateEntry testDate entryMinimal"
proof -
  note c = validateEntry_contract [where nd = testDate]
  have t: "isValidDate testDate (JStr ''2024-01-15T10:30:00.000Z'')"
    by (simp add: isValidDate_def testDate_def sampleDates_def)
  have 0: "\<not> isValidDate testDate (field entryThrowingTimestamp ''timestamp'')"
    by (simp add: entryThrowingTimestamp_def field_JObj4 isValidDate_def testDate_def)
  have 1: "field entryNoId ''id'' = JUndefined"
    by (simp add: entryNoId_def field_def)
  have 2: "js_le0 (field entryZeroAmount ''amount'')"
    by (simp add: entryZeroAmount_def field_JObj4 num_le_def)
  have 3: "typeof (field entryNumericMethod ''method'') \<noteq> ''string''"
    by (simp add: entryNumericMethod_def field_JObj4)
  have 4: "\<not> isValidDate testDate (field entryBadTimestamp ''timestamp'')"
    by (simp add: entryBadTimestamp_def field_JObj4 isValidDate_def testDate_def sampleDates_def)
  have 5: "validateEntry testDate entryMinimal"
    unfolding entryMinimal_def
    using c [of _ "Fin 1705314600123" "Fin 0.5" "''joint''" "JStr ''2024-01-15T10:30:00.000Z''"] t
    by simp
  show ?thesis
    using c [of entryThrowingTimestamp] c [of entryNoId] c [of entryZeroAmount]
      c [of entryNumericMethod] c [of entryBadTimestamp] 0 1 2 3 4 5
    by simp
qed

text \<open>
  C9 as stated fails: the record below has only the four fields, a numeric id, a numeric
  amount above 0, a string method and a timestamp that parses, and is rejected, because its
  id is 0.
\<close>

theorem validateEntry_numeric_id_counterexample:
  "typeof (field entryZeroId ''id'') = ''number''
   \<and> num_lt (Fin 0) (numberOf (field entryZeroId ''amount''))
   \<and> typeof (field entryZeroId ''method'') = ''string''
   \<and> isValidDate testDate (field entryZeroId ''timestamp'')
   \<and> field entryZeroId ''notes'' = JUndefined
   \<and> field entryZeroId ''mood'' = JUndefined
   \<and> \<not> validateEntry testDate entryZeroId"
  by (simp add: entryZeroId_def field_JObj4 validateEntry_iff isValidDate_def testDate_def
      sampleDates_def)

section \<open>Properties of import and export\<close>

lemma validateGoals_iff:
  "validateGoals g \<longleftrightarrow>
     truthy g \<and> typeof g = ''object''
     \<and> typeof (field g ''weeklyAmount'') = ''number'' \<and> \<not> js_lt0 (field g ''weeklyAmount'')
     \<and> truthy (field g ''goalType'') \<and> field g ''goalType'' \<in> set goalTypes
     \<and> (field g ''stashAmount'' = JUndefined
        \<or> typeof (field g ''stashAmount'') = ''number'' \<and> \<not> js_lt0 (field g ''stashAmount''))"
proof (cases "truthy g \<and> typeof g = ''object''")
  case False
  then show ?thesis by (auto simp: validateGoals_def validateGoals_body_def catchFalse_def)
next
  case True
  then have p: "\<And>name. getProp g name = Inr (field g name)"
    by (simp add: getProp_object)
  show ?thesis
    using True by (auto simp: validateGoals_def validateGoals_body_def p bindE_def catchFalse_def)
qed

lemma validateSettings_iff:
  "validateSettings s \<longleftrightarrow>
     truthy s \<and> typeof s = ''object''
     \<and> typeof (field s ''pricePerGram'') = ''number'' \<and> \<not> js_lt0 (field s ''pricePerGram'')
     \<and> truthy (field s ''currency'') \<and> typeof (field s ''currency'') = ''string''"
proof (cases "truthy s \<and> typeof s = ''object''")
  case False
  then show ?thesis by (auto simp: validateSettings_def validateSettings_body_def catchFalse_def)
next
  case True
  then have p: "\<And>name. getProp s name = Inr (field s name)"
    by (simp add: getProp_object)
  show ?thesis
    using True
    by (auto simp: validateSettings_def validateSettings_body_def p bindE_def catchFalse_def)
qed

lemma allEntriesValid_iff: "allEntriesValid nd es \<longleftrightarrow> (\<forall>e\<in>set es. validateEntry nd e)"
  by (induction es) auto

lemma validateImportData_iff:
  "validateImportData nd d \<longleftrightarrow>
     truthy d \<and> typeof d = ''object''
     \<and> isArray (field d ''entries'')
     \<and> validateGoals (field d ''goals'')
     \<and> validateSettings (field d ''settings'')
     \<and> (\<forall>e\<in>set (elements (field d ''entries'')). validateEntry nd e)"
proof (cases "truthy d \<and> typeof d = ''object''")
  case False
  then show ?thesis
    by (auto simp: validateImportData_def validateImportData_body_def catchFalse_def)
next
  case True
  then have p: "\<And>name. getProp d name = Inr (field d name)"
    by (simp add: getProp_object)
  show ?thesis
    using True
    by (auto simp: validateImportData_def validateImportData_body_def p bindE_def catchFalse_def
        allEntriesValid_iff)
qed

lemma validateExportData_iff:
  "validateExportData nd d \<longleftrightarrow>
     truthy d \<and> typeof d = ''object''
     \<and> isArray (field d ''entries'')
     \<and> validateGoals (field d ''goals'')
     \<and> validateSettings (field d ''settings'')
     \<and> truthy (field d ''exportDate'') \<and> isValidDate nd (field d ''exportDate'')"
proof (cases "truthy d \<and> typeof d = ''object''")
  case False
  then show ?thesis
    by (auto simp: validateExportData_def validateExportData_body_def catchFalse_def)
next
  case True
  then have p: "\<And>name. getProp d name = Inr (field d name)"
    by (simp add: getProp_object)
  show ?thesis
    using True
    by (auto simp: validateExportData_def validateExportData_body_def p bindE_def catchFalse_def)
qed

text \<open>
  C4. An import document that is not an object, or whose entries are not an array, or
  whose goals or settings fail their validators, or in which some entry fails the entry
  validator, is rejected by \<^verbatim>\<open>validateImportData\<close>, and the import leaves the tracker
  (entries, goals, settings and the store) as it was. A file that is not JSON is
  rejected as well.
\<close>

theorem import_rejected_keeps_state:
  assumes "d = parse text"
    and "\<not> truthy d \<or> typeof d \<noteq> ''object''
         \<or> \<not> isArray (field d ''entries'')
         \<or> \<not> validateGoals (field d ''goals'')
         \<or> \<not> validateSettings (field d ''settings'')
         \<or> (\<exists>e\<in>set (elements (field d ''entries'')). \<not> validateEntry (newDate pf) e)"
  shows "\<not> validateImportData (newDate pf) d
         \<and> importData pf (Some text) confirmed now t = t
         \<and> importData pf None confirmed now t = t"
  using assms by (auto simp: validateImportData_iff importData_def)

lemma field_JObj5:
  "field (JObj [(k1, v1), (k2, v2), (k3, v3), (k4, v4), (k5, v5)]) name =
     (if name = k5 then v5 else if name = k4 then v4 else if name = k3 then v3
      else if name = k2 then v2 else if name = k1 then v1 else JUndefined)"
  by (auto simp: field_def)

lemma field_JObj2:
  "field (JObj [(k1, v1), (k2, v2)]) name =
     (if name = k2 then v2 else if name = k1 then v1 else JUndefined)"
  by (auto simp: field_def)

theorem import_rejected_keeps_state_witness:
  "\<not> validateImportData testDate (parse docZeroAmount)
   \<and> importData testPlatform (Some docZeroAmount) True 1705487400000 oneEntryTracker
       = oneEntryTracker"
proof -
  have e: "elements (field (parse docZeroAmount) ''entries'') =
      [entryMinimal,
       JObj [(''id'', JNum (Fin 1705392000456)), (''amount'', JNum (Fin 0)),
             (''method'', JStr ''vape''), (''timestamp'', JStr ''2024-01-16T08:00:00.000Z'')]]"
    by (simp add: docZeroAmount_def jsonEntry_def field_JObj4 entryMinimal_def)
  have bad: "\<not> validateEntry (newDate testPlatform)
      (JObj [(''id'', JNum (Fin 1705392000456)), (''amount'', JNum (Fin 0)),
             (''method'', JStr ''vape''), (''timestamp'', JStr ''2024-01-16T08:00:00.000Z'')])"
    by (simp add: validateEntry_iff field_JObj4)
  have "\<exists>e\<in>set (elements (field (parse docZeroAmount) ''entries'')).
          \<not> validateEntry (newDate testPlatform) e"
    using e bad by simp
  then show ?thesis
    using import_rejected_keeps_state [of "parse docZeroAmount" docZeroAmount testPlatform
        True 1705487400000 oneEntryTracker]
    by (simp add: testPlatform_def)
qed

section \<open>Round trip\<close>

lemma parse_stringify:
  "jsonRepresentable v \<Longrightarrow> \<exists>j. stringify v = Some j \<and> parse j = v"
  "jsonRepresentableAll xs \<Longrightarrow> parseElements (stringifyElements xs) = xs"
  "jsonRepresentableProps kvs \<Longrightarrow> parseProperties (stringifyProperties kvs) = kvs"
  by (induction v and xs and kvs rule: stringify_stringifyElements_stringifyProperties.induct) auto

lemma validateGoals_object: "validateGoals g \<Longrightarrow> spreadObject g = g"
  by (cases g) (auto simp: validateGoals_iff field_def)

lemma validateSettings_object: "validateSettings s \<Longrightarrow> spreadObject s = s"
  by (cases s) (auto simp: validateSettings_iff field_def)

lemma save_fields [simp]:
  "entries (saveEntries t) = entries t" "goals (saveEntries t) = goals t"
  "settings (saveEntries t) = settings t"
  "entries (saveGoals t) = entries t" "goals (saveGoals t) = goals t"
  "settings (saveGoals t) = settings t"
  "entries (saveSettings t) = entries t" "goals (saveSettings t) = goals t"
  "settings (saveSettings t) = settings t"
  "entries (cleanupOldBackups t) = entries t" "goals (cleanupOldBackups t) = goals t"
  "settings (cleanupOldBackups t) = settings t"
  by (simp_all add: saveEntries_def saveGoals_def saveSettings_def cleanupOldBackups_def Let_def)

lemma performImport_fields:
  "entries (performImport pf d now t) = elements (field d ''entries'')"
  "goals (performImport pf d now t) = spreadObject (field d ''goals'')"
  "settings (performImport pf d now t) = spreadObject (field d ''settings'')"
  by (simp_all add: performImport_def Let_def)

text \<open>
  C3 (as amended). For a tracker whose entries, goals and settings pass their validators
  and hold only values that JSON can write (no undefined, NaN or infinite number),
  \<^verbatim>\<open>exportData\<close> produces a document, and importing that document into any tracker,
  with the confirmation accepted, yields exactly the original entries, goals and settings.
  The platform is assumed to render the export date as a non-empty string that the
  \<^verbatim>\<open>Date\<close> constructor reads back.
\<close>

theorem export_import_round_trip:
  assumes valid: "\<forall>e\<in>set (entries t). validateEntry (newDate pf) e"
      "validateGoals (goals t)" "validateSettings (settings t)"
    and repr: "jsonRepresentableAll (entries t)" "jsonRepresentable (goals t)"
      "jsonRepresentable (settings t)"
    and iso: "toISOString pf now \<noteq> []" "isValidDate (newDate pf) (JStr (toISOString pf now))"
  shows "\<exists>doc. exportData pf now t = Some doc
           \<and> entries (importData pf (Some doc) True now' t') = entries t
           \<and> goals (importData pf (Some doc) True now' t') = goals t
           \<and> settings (importData pf (Some doc) True now' t') = settings t"
proof -
  let ?data = "JObj [(''entries'', JArr (entries t)), (''goals'', goals t),
                     (''settings'', settings t), (''exportDate'', JStr (toISOString pf now))]"
  have f: "field ?data ''entries'' = JArr (entries t)" "field ?data ''goals'' = goals t"
      "field ?data ''settings'' = settings t"
      "field ?data ''exportDate'' = JStr (toISOString pf now)"
    by (simp_all add: field_JObj4)
  have ok: "validateExportData (newDate pf) ?data"
    using valid iso by (simp add: validateExportData_iff f)
  have "jsonRepresentable ?data"
    using repr by simp
  then obtain doc where doc: "stringify ?data = Some doc" "parse doc = ?data"
    using parse_stringify(1) by blast
  have ex: "exportData pf now t = Some doc"
    using ok doc by (simp add: exportData_def)
  have imp: "validateImportData (newDate pf) ?data"
    using valid by (simp add: validateImportData_iff f)
  have res: "importData pf (Some doc) True now' t' = performImport pf ?data now' t'"
    using imp doc by (simp add: importData_def)
  show ?thesis
    using ex valid(2,3)
    by (auto simp: res performImport_fields f validateGoals_object validateSettings_object
        simp del: field_JObj_simps)
qed

lemma defaults_valid:
  "validateGoals getDefaultGoals" "validateSettings getDefaultSettings"
  by (simp_all add: validateGoals_iff validateSettings_iff getDefaultGoals_def
      getDefaultSettings_def field_JObj5 field_JObj2 goalTypes_def)

lemma entryMinimal_valid: "validateEntry testDate entryMinimal"
  by (simp add: validateEntry_iff entryMinimal_def field_JObj4 isValidDate_def testDate_def
      sampleDates_def num_le_def)

theorem export_import_round_trip_witness:
  "\<exists>doc. exportData testPlatform 1705487400000 oneEntryTracker = Some doc
     \<and> entries (importData testPlatform (Some doc) True 1705490000000 emptyTracker)
         = [entryMinimal]
     \<and> goals (importData testPlatform (Some doc) True 1705490000000 emptyTracker)
         = getDefaultGoals
     \<and> settings (importData testPlatform (Some doc) True 1705490000000 emptyTracker)
         = getDefaultSettings"
proof -
  have 1: "\<forall>e\<in>set (entries oneEntryTracker). validateEntry (newDate testPlatform) e"
    using entryMinimal_valid by (simp add: oneEntryTracker_def testPlatform_def)
  have 2: "validateGoals (goals oneEntryTracker)" "validateSettings (settings oneEntryTracker)"
    using defaults_valid by (simp_all add: oneEntryTracker_def)
  have 3: "jsonRepresentableAll (entries oneEntryTracker)"
      "jsonRepresentable (goals oneEntryTracker)" "jsonRepresentable (settings oneEntryTracker)"
    by (simp_all add: oneEntryTracker_def entryMinimal_def getDefaultGoals_def
        getDefaultSettings_def)
  have 4: "toISOString testPlatform 1705487400000 \<noteq> []"
      "isValidDate (newDate testPlatform) (JStr (toISOString testPlatform 1705487400000))"
    by (simp_all add: testPlatform_def testISO_def sampleDates_def isValidDate_def testDate_def)
  show ?thesis
    using export_import_round_trip [OF 1 2 3 4, of 1705490000000 emptyTracker]
    by (simp add: oneEntryTracker_def)
qed

text \<open>
  C3 as stated fails for a number that JSON cannot write. The tracker below passes all
  three validators; its entry has the amount Infinity, which \<^verbatim>\<open>JSON.stringify\<close> writes as
  \<^verbatim>\<open>null\<close>, so the exported document is rejected on import and the importing tracker
  keeps its own (empty) entry list.
\<close>

theorem export_import_infinity_counterexample:
  "validateEntry testDate entryInfiniteAmount
   \<and> validateGoals getDefaultGoals
   \<and> validateSettings getDefaultSettings
   \<and> exportData testPlatform 1705487400000 infiniteAmountTracker = Some docInfiniteAmount
   \<and> importData testPlatform (Some docInfiniteAmount) True 1705490000000 emptyTracker
       = emptyTracker
   \<and> entries emptyTracker \<noteq> entries infiniteAmountTracker"
proof -
  have v: "validateEntry testDate entryInfiniteAmount"
    by (simp add: validateEntry_iff entryInfiniteAmount_def field_JObj4 isValidDate_def
        testDate_def sampleDates_def num_le_def)
  let ?data = "JObj [(''entries'', JArr [entryInfiniteAmount]), (''goals'', getDefaultGoals),
                     (''settings'', getDefaultSettings),
                     (''exportDate'', JStr ''2024-01-17T10:30:00.000Z'')]"
  have ok: "validateExportData testDate ?data"
    using defaults_valid
    by (simp add: validateExportData_iff field_JObj4 isValidDate_def testDate_def sampleDates_def)
  have s: "stringify ?data = Some docInfiniteAmount"
    by (simp add: docInfiniteAmount_def entryInfiniteAmount_def getDefaultGoals_def
        getDefaultSettings_def jsonEntry_def jsonGoals_def jsonSettings_def)
  have ex: "exportData testPlatform 1705487400000 infiniteAmountTracker = Some docInfiniteAmount"
    using ok s
    by (simp add: exportData_def infiniteAmountTracker_def testPlatform_def testISO_def
        sampleDates_def)
  have bad: "\<not> validateImportData testDate (parse docInfiniteAmount)"
    by (simp add: validateImportData_iff docInfiniteAmount_def jsonEntry_def field_JObj4
        validateEntry_iff)
  have im: "importData testPlatform (Some docInfiniteAmount) True 1705490000000 emptyTracker
            = emptyTracker"
    using bad by (simp add: importData_def testPlatform_def)
  show ?thesis
    using v defaults_valid ex im
    by (simp add: emptyTracker_def infiniteAmountTracker_def)
qed

section \<open>Order of the entries\<close>

lemma insertSorted_insort_key:
  "(\<And>y. y \<in> set ys \<Longrightarrow> cmp x y \<le> 0 \<longleftrightarrow> key x \<le> key y) \<Longrightarrow>
   insertSorted cmp x ys = insort_key key x ys"
  by (induction ys) auto

lemma sortWith_sort_key:
  "(\<And>a b. a \<in> set xs \<Longrightarrow> b \<in> set xs \<Longrightarrow> cmp a b \<le> 0 \<longleftrightarrow> key a \<le> key b) \<Longrightarrow>
   sortWith cmp xs = sort_key key xs"
proof (induction xs)
  case Nil
  then show ?case by (simp add: sortWith_def)
next
  case (Cons x xs)
  have ih: "sortWith cmp xs = sort_key key xs"
    using Cons by simp
  have "insertSorted cmp x (sort_key key xs) = insort_key key x (sort_key key xs)"
    using Cons.prems by (intro insertSorted_insort_key) simp
  then show ?case
    using ih by (simp add: sortWith_def)
qed

lemma validateEntry_entryTime:
  "validateEntry (newDate pf) e \<Longrightarrow> \<exists>t. entryTime pf e = Some t"
  by (auto simp: validateEntry_iff isValidDate_def entryTime_def split: sum.splits)

lemma byTimestampDesc_negTime:
  "entryTime pf a \<noteq> None \<Longrightarrow> entryTime pf b \<noteq> None \<Longrightarrow>
   byTimestampDesc pf a b \<le> 0 \<longleftrightarrow> negTime pf a \<le> negTime pf b"
  by (auto simp: byTimestampDesc_def negTime_def)

lemma sortWith_byTimestampDesc:
  "\<forall>e\<in>set es. entryTime pf e \<noteq> None \<Longrightarrow>
   sortWith (byTimestampDesc pf) es = sort_key (negTime pf) es"
  by (rule sortWith_sort_key) (simp add: byTimestampDesc_negTime)

lemma sortedDesc_sort_key:
  assumes "\<forall>e\<in>set es. entryTime pf e \<noteq> None"
  shows "sortedDesc pf (sort_key (negTime pf) es)"
proof -
  have "sorted (map (negTime pf) (sort_key (negTime pf) es))"
    by (rule sorted_sort_key)
  then have "sorted_wrt (\<lambda>a b. negTime pf a \<le> negTime pf b) (sort_key (negTime pf) es)"
    by (simp add: sorted_map)
  then show ?thesis
    unfolding sortedDesc_def
  proof (rule sorted_wrt_mono_rel [rotated])
    fix a b
    assume "a \<in> set (sort_key (negTime pf) es)" "b \<in> set (sort_key (negTime pf) es)"
      "negTime pf a \<le> negTime pf b"
    moreover from this assms obtain ta tb where "entryTime pf a = Some ta" "entryTime pf b = Some tb"
      by fastforce
    ultimately show "date_ge (entryTime pf a) (entryTime pf b)"
      by (simp add: negTime_def)
  qed
qed

lemma sortWith_sortedDesc:
  "\<forall>e\<in>set es. validateEntry (newDate pf) e \<Longrightarrow> sortedDesc pf (sortWith (byTimestampDesc pf) es)"
  using validateEntry_entryTime [of pf]
  by (metis option.distinct(1) sortWith_byTimestampDesc sortedDesc_sort_key)

lemma sortWith_mset:
  "\<forall>e\<in>set es. validateEntry (newDate pf) e \<Longrightarrow> mset (sortWith (byTimestampDesc pf) es) = mset es"
  using validateEntry_entryTime [of pf]
  by (metis option.distinct(1) sortWith_byTimestampDesc mset_sort)

lemma sortWith_stable:
  assumes "\<forall>e\<in>set es. validateEntry (newDate pf) e"
  shows "filter (\<lambda>e. entryTime pf e = Some k) (sortWith (byTimestampDesc pf) es)
         = filter (\<lambda>e. entryTime pf e = Some k) es"
proof -
  have t: "\<forall>e\<in>set es. entryTime pf e \<noteq> None"
    using assms validateEntry_entryTime [of pf] by fastforce
  have eq: "\<And>xs. \<forall>e\<in>set xs. entryTime pf e \<noteq> None \<Longrightarrow>
      filter (\<lambda>e. entryTime pf e = Some k) xs = filter (\<lambda>e. negTime pf e = - k) xs"
    by (rule filter_cong) (auto simp: negTime_def)
  have "filter (\<lambda>e. entryTime pf e = Some k) (sort_key (negTime pf) es)
        = filter (\<lambda>e. negTime pf e = - k) (sort_key (negTime pf) es)"
    using t by (intro eq) simp
  also have "\<dots> = filter (\<lambda>e. negTime pf e = - k) es"
    by (rule sort_key_stable)
  also have "\<dots> = filter (\<lambda>e. entryTime pf e = Some k) es"
    using t by (simp add: eq)
  finally show ?thesis
    using t by (simp add: sortWith_byTimestampDesc)
qed

lemma loadEntries_sorted:
  "sortedDesc pf (loadEntries pf store) \<and> (\<forall>e\<in>set (loadEntries pf store). validateEntry (newDate pf) e)"
proof -
  have v: "\<And>xs. \<forall>e\<in>set (filter (validateEntry (newDate pf)) xs). validateEntry (newDate pf) e"
    by simp
  have s: "\<And>xs. set (sortWith (byTimestampDesc pf) (filter (validateEntry (newDate pf)) xs))
             = set (filter (validateEntry (newDate pf)) xs)"
    using sortWith_mset [OF v] by (metis set_mset_mset)
  show ?thesis
    using sortWith_sortedDesc [OF v] s
    by (auto simp: loadEntries_def Let_def sortedDesc_def split: option.splits)
qed

lemma addEntry_cases:
  "addEntry pf f now t = t
   \<or> (\<exists>entry. validateEntry (newDate pf) entry
        \<and> field entry ''timestamp'' = JStr (timeInput f)
        \<and> entries (addEntry pf f now t) = sortWith (byTimestampDesc pf) (entries t @ [entry]))"
  by (auto simp: addEntry_def Let_def field_def)

lemma addEntry_sorted:
  assumes "\<forall>e\<in>set (entries t). validateEntry (newDate pf) e"
  shows "addEntry pf f now t = t \<or> sortedDesc pf (entries (addEntry pf f now t))"
  using addEntry_cases [of pf f now t] assms
  by (auto intro!: sortWith_sortedDesc)

lemma deleteEntry_sorted:
  "sortedDesc pf (entries t) \<Longrightarrow> sortedDesc pf (entries (deleteEntry i t))"
  by (auto simp: deleteEntry_def Let_def sortedDesc_def intro: sorted_wrt_filter)

lemma parse_docAscending:
  "parse docAscending = JObj
     [(''entries'', JArr [entryJan14, entryJan16]),
      (''goals'', getDefaultGoals),
      (''settings'', getDefaultSettings),
      (''exportDate'', JStr ''2024-01-17T10:30:00.000Z'')]"
  by (simp add: docAscending_def jsonEntry_def jsonGoals_def jsonSettings_def entryJan14_def
      entryJan16_def getDefaultGoals_def getDefaultSettings_def)

lemma sample_entry_times:
  "entryTime testPlatform entryJan14 = Some 1705222800000"
  "entryTime testPlatform entryJan16 = Some 1705392000000"
  by (simp_all add: entryTime_def testPlatform_def testDate_def sampleDates_def entryJan14_def
      entryJan16_def field_JObj4)

lemma sample_entries_valid:
  "validateEntry testDate entryJan14" "validateEntry testDate entryJan16"
  by (simp_all add: validateEntry_iff entryJan14_def entryJan16_def field_JObj4 isValidDate_def
      testDate_def sampleDates_def num_le_def)

lemma docAscending_valid: "validateImportData testDate (parse docAscending)"
  using sample_entries_valid defaults_valid
  by (simp add: validateImportData_iff parse_docAscending field_JObj4)

lemma import_docAscending_entries:
  "entries (importData testPlatform (Some docAscending) True 1705487400000 emptyTracker)
   = [entryJan14, entryJan16]"
  using docAscending_valid
  by (simp add: importData_def testPlatform_def performImport_fields)
     (simp add: parse_docAscending field_JObj4)

lemma stringify_sample_entries:
  "stringifyText (JArr [entryJan14, entryJan16]) = Some (JsonArray
         [jsonEntry 1705222800111 (JsonNumber 0.5) ''joint'' ''2024-01-14T09:00:00.000Z'',
          jsonEntry 1705392000456 (JsonNumber 0.3) ''vape'' ''2024-01-16T08:00:00.000Z''])"
  by (simp add: stringifyText_def entryJan14_def entryJan16_def jsonEntry_def)

lemma import_docAscending_stored:
  "getItem ''weedTrackerEntries''
     (isLocalStorageAvailable
       (localStorage (importData testPlatform (Some docAscending) True 1705487400000 emptyTracker)))
   = Some (stringifyText (JArr [entryJan14, entryJan16]))"
proof -
  have i: "importData testPlatform (Some docAscending) True 1705487400000 emptyTracker
        = performImport testPlatform (parse docAscending) 1705487400000 emptyTracker"
    using docAscending_valid by (simp add: importData_def testPlatform_def)
  show ?thesis
    unfolding i
    by (simp add: performImport_def Let_def cleanupOldBackups_def saveEntries_def saveGoals_def
        saveSettings_def isLocalStorageAvailable_def setItem_def removeItem_def getItem_def
        emptyTracker_def backupKeysOf_def backupPrefix_def showInt_def showNat.simps
        parse_docAscending field_JObj4)
qed

text \<open>
  Loading, adding and deleting keep the entries sorted: \<^verbatim>\<open>loadEntries\<close> returns the valid
  stored entries in descending order of time; \<^verbatim>\<open>addEntry\<close> either rejects the form and
  changes nothing, or leaves the entries in descending order, whatever the new timestamp
  is; \<^verbatim>\<open>deleteEntry\<close> keeps a descending order. The sort keeps all entries and does not
  reorder entries of equal time.
\<close>

lemma entries_sorted_after_load_add_delete:
  "sortedDesc pf (loadEntries pf store)"
  "\<forall>e\<in>set (entries t). validateEntry (newDate pf) e \<Longrightarrow>
     addEntry pf f now t = t \<or> sortedDesc pf (entries (addEntry pf f now t))"
  "sortedDesc pf (entries t) \<Longrightarrow> sortedDesc pf (entries (deleteEntry i t))"
  "\<forall>e\<in>set es. validateEntry (newDate pf) e \<Longrightarrow>
     mset (sortWith (byTimestampDesc pf) es) = mset es
     \<and> filter (\<lambda>e. entryTime pf e = Some k) (sortWith (byTimestampDesc pf) es)
         = filter (\<lambda>e. entryTime pf e = Some k) es"
  using loadEntries_sorted addEntry_sorted deleteEntry_sorted sortWith_mset sortWith_stable
  by blast+

text \<open>
  C5 at the failing input. \<^verbatim>\<open>performImport\<close> stores the entries of the document in the
  order of the document. The document below passes \<^verbatim>\<open>validateImportData\<close>; its entries
  are in ascending order of time, and so are the entries in memory after the import,
  while \<^verbatim>\<open>loadEntries\<close> on the store that the import wrote gives them in descending order.
\<close>

theorem performImport_keeps_document_order:
  "validateImportData testDate (parse docAscending)
   \<and> entries (importData testPlatform (Some docAscending) True 1705487400000 emptyTracker)
       = [entryJan14, entryJan16]
   \<and> entryTime testPlatform entryJan14 = Some 1705222800000
   \<and> entryTime testPlatform entryJan16 = Some 1705392000000
   \<and> \<not> sortedDesc testPlatform
         (entries (importData testPlatform (Some docAscending) True 1705487400000 emptyTracker))
   \<and> loadEntries testPlatform
         (localStorage (importData testPlatform (Some docAscending) True 1705487400000 emptyTracker))
       = [entryJan16, entryJan14]"
proof -
  have p: "parse (jsonEntry 1705222800111 (JsonNumber (1 / 2)) ''joint'' ''2024-01-14T09:00:00.000Z'')
        = entryJan14"
      "parse (jsonEntry 1705392000456 (JsonNumber 0.3) ''vape'' ''2024-01-16T08:00:00.000Z'')
        = entryJan16"
    by (simp_all add: jsonEntry_def entryJan14_def entryJan16_def)
  have v: "validateEntry (newDate testPlatform) entryJan14"
      "validateEntry (newDate testPlatform) entryJan16"
    using sample_entries_valid by (simp_all add: testPlatform_def)
  have l: "loadEntries testPlatform
         (localStorage (importData testPlatform (Some docAscending) True 1705487400000 emptyTracker))
       = [entryJan16, entryJan14]"
    using v
    by (simp add: loadEntries_def import_docAscending_stored stringify_sample_entries p
        sortWith_def byTimestampDesc_def sample_entry_times)
  show ?thesis
    using docAscending_valid l
    by (simp add: import_docAscending_entries sample_entry_times sortedDesc_def)
qed

text \<open>
  The earlier \<^verbatim>\<open>addEntry\<close> of \<^verbatim>\<open>script.js\<close> does not sort: a backdated entry ends up before
  a later one.
\<close>

lemma script_addEntry_backdated:
  "map (entryTime testPlatform) (entries (script_addEntry testPlatform backdatedForm 1705487400000 jan16Tracker))
     = [Some 1705222800000, Some 1705392000000]
   \<and> \<not> sortedDesc testPlatform
         (entries (script_addEntry testPlatform backdatedForm 1705487400000 jan16Tracker))"
  by (simp add: script_addEntry_def Let_def backdatedForm_def jan16Tracker_def sortedDesc_def
      entryTime_def field_def testPlatform_def testDate_def sampleDates_def entryJan16_def)

section \<open>Decimal strings\<close>

lemma digit_code: "i < 10 \<Longrightarrow> of_char (''0123456789'' ! i) = (48 + i :: nat)"
proof -
  assume "i < 10"
  then have "i \<in> {0, 1, 2, 3, 4, 5, 6, 7, 8, 9}" by auto
  then show ?thesis by auto
qed

lemma digit_less: "i < 10 \<Longrightarrow> j < 10 \<Longrightarrow> (''0123456789'' ! i < ''0123456789'' ! j) \<longleftrightarrow> i < j"
  by (simp add: less_char_def digit_code)

lemma digit_eq: "i < 10 \<Longrightarrow> j < 10 \<Longrightarrow> (''0123456789'' ! i = ''0123456789'' ! j) \<longleftrightarrow> i = j"
  by (metis digit_less nat_neq_iff less_irrefl)

lemma snoc_less_snoc:
  "length xs = length ys \<Longrightarrow> (xs @ [c] < ys @ [d]) \<longleftrightarrow> xs < ys \<or> xs = ys \<and> c < (d::char)"
  by (induction xs ys rule: list_induct2) auto

lemma showNat_small: "n < 10 \<Longrightarrow> showNat n = [''0123456789'' ! n]"
  by (simp add: showNat.simps)

lemma showNat_large:
  "\<not> n < 10 \<Longrightarrow> showNat n = showNat (n div 10) @ [''0123456789'' ! (n mod 10)]"
  by (subst showNat.simps) simp

lemma showNat_not_Nil: "showNat n \<noteq> []"
  by (cases "n < 10") (simp_all add: showNat_small showNat_large)

lemma showNat_length_one: "length (showNat n) = 1 \<longleftrightarrow> n < 10"
  using showNat_not_Nil [of "n div 10"]
  by (cases "n < 10") (simp_all add: showNat_small showNat_large)

lemma divmod_aux:
  fixes qa ra qb rb :: nat
  assumes "ra < 10" "rb < 10"
  shows "(10 * qa + ra < 10 * qb + rb \<longleftrightarrow> qa < qb \<or> qa = qb \<and> ra < rb)"
    and "(10 * qa + ra = 10 * qb + rb \<longleftrightarrow> qa = qb \<and> ra = rb)"
proof -
  show "(10 * qa + ra < 10 * qb + rb \<longleftrightarrow> qa < qb \<or> qa = qb \<and> ra < rb)"
    using assms by linarith
  show "(10 * qa + ra = 10 * qb + rb \<longleftrightarrow> qa = qb \<and> ra = rb)"
    using assms by arith
qed

lemma divmod_lt: "(a::nat) < b \<longleftrightarrow> a div 10 < b div 10 \<or> a div 10 = b div 10 \<and> a mod 10 < b mod 10"
  using divmod_aux(1) [of "a mod 10" "b mod 10" "a div 10" "b div 10"] by simp

lemma divmod_eq: "(a::nat) = b \<longleftrightarrow> a div 10 = b div 10 \<and> a mod 10 = b mod 10"
  using divmod_aux(2) [of "a mod 10" "b mod 10" "a div 10" "b div 10"] by simp

lemma showNat_order:
  "length (showNat a) = length (showNat b) \<Longrightarrow>
     (showNat a < showNat b \<longleftrightarrow> a < b) \<and> (showNat a = showNat b \<longleftrightarrow> a = b)"
proof (induction a arbitrary: b rule: showNat.induct)
  case (1 a)
  show ?case
  proof (cases "a < 10")
    case True
    then have "b < 10"
      using "1.prems" showNat_length_one by metis
    with True show ?thesis
      by (simp add: showNat_small digit_less digit_eq)
  next
    case False
    then have nb: "\<not> b < 10"
      using "1.prems" showNat_length_one by metis
    have sa: "showNat a = showNat (a div 10) @ [''0123456789'' ! (a mod 10)]"
      using False by (rule showNat_large)
    have sb: "showNat b = showNat (b div 10) @ [''0123456789'' ! (b mod 10)]"
      using nb by (rule showNat_large)
    have len: "length (showNat (a div 10)) = length (showNat (b div 10))"
      using "1.prems" unfolding sa sb by simp
    have ih: "showNat (a div 10) < showNat (b div 10) \<longleftrightarrow> a div 10 < b div 10"
        "showNat (a div 10) = showNat (b div 10) \<longleftrightarrow> a div 10 = b div 10"
      using "1.IH" [OF False len] by simp_all
    have 1: "showNat a < showNat b \<longleftrightarrow>
        a div 10 < b div 10 \<or> a div 10 = b div 10 \<and> a mod 10 < b mod 10"
      unfolding sa sb snoc_less_snoc [OF len] ih by (simp add: digit_less)
    have 2: "showNat a = showNat b \<longleftrightarrow> a div 10 = b div 10 \<and> a mod 10 = b mod 10"
      unfolding sa sb by (simp add: ih digit_eq)
    show ?thesis
      using 1 2 divmod_lt [of a b] divmod_eq [of a b] by blast
  qed
qed

lemma append_less_append: "(p @ xs < p @ ys) \<longleftrightarrow> xs < (ys :: string)"
  by (induction p) auto

lemma showNat_length:
  "10 ^ k \<le> n \<Longrightarrow> n < 10 ^ Suc k \<Longrightarrow> length (showNat n) = Suc k"
proof (induction k arbitrary: n)
  case 0
  then show ?case by (simp add: showNat_small)
next
  case (Suc k)
  have b: "10 * 10 ^ k \<le> n" "n < 10 * (10 * 10 ^ k)"
    using Suc.prems by simp_all
  have "(1::nat) \<le> 10 ^ k"
    by simp
  with b have "\<not> n < 10"
    by linarith
  moreover from b have "10 ^ k \<le> n div 10" "n div 10 < 10 ^ Suc k"
    by (simp_all add: less_eq_div_iff_mult_less_eq mult.commute less_mult_imp_div_less)
  ultimately have "\<not> n < 10" "10 ^ k \<le> n div 10" "n div 10 < 10 ^ Suc k"
    by simp_all
  then show ?case
    using Suc.IH [of "n div 10"] by (simp add: showNat_large)
qed

lemma showInt_length: "thirteenDigits u \<Longrightarrow> length (showInt u) = 13"
proof -
  assume a: "thirteenDigits u"
  then have "10 ^ 12 \<le> nat u" "nat u < 10 ^ Suc 12"
    by (simp_all add: thirteenDigits_def nat_le_iff nat_less_iff le_nat_iff)
  then have "length (showNat (nat u)) = Suc 12"
    by (rule showNat_length)
  with a show ?thesis
    by (simp add: showInt_def thirteenDigits_def)
qed

lemma backupKeyAt_order:
  assumes "thirteenDigits a" "thirteenDigits b"
  shows "backupKeyAt a < backupKeyAt b \<longleftrightarrow> a < b" "backupKeyAt a = backupKeyAt b \<longleftrightarrow> a = b"
proof -
  have n: "0 \<le> a" "0 \<le> b"
    using assms by (simp_all add: thirteenDigits_def)
  have "length (showNat (nat a)) = length (showNat (nat b))"
    using showInt_length [OF assms(1)] showInt_length [OF assms(2)] n
    by (simp add: showInt_def)
  from showNat_order [OF this] n
  show "backupKeyAt a < backupKeyAt b \<longleftrightarrow> a < b" "backupKeyAt a = backupKeyAt b \<longleftrightarrow> a = b"
    by (auto simp: backupKeyAt_def showInt_def append_less_append)
qed

lemma keys_decreasing:
  assumes "sorted_wrt (\<lambda>a b. b < a) ds" "\<forall>x\<in>set ds. thirteenDigits x"
  shows "sorted_wrt (\<lambda>a b. b < a) (map backupKeyAt ds)"
  using assms
  by (simp add: sorted_wrt_map) (erule sorted_wrt_mono_rel [rotated], simp add: backupKeyAt_order)

lemma sort_decreasing:
  fixes ks :: "string list"
  assumes "mset W = mset ks" "sorted_wrt (\<lambda>a b. b < a) ks"
  shows "rev (sort W) = ks"
proof -
  have "sorted_wrt (\<lambda>a b. b \<le> a) ks"
    using assms(2) by (rule sorted_wrt_mono_rel [rotated]) simp
  then have "sorted (rev ks)"
    by (simp add: sorted_wrt_rev)
  moreover have "mset (rev ks) = mset W"
    using assms(1) by simp
  ultimately have "sort W = rev ks"
    by (rule properties_for_sort [rotated])
  then show ?thesis by simp
qed

lemma filter_not_in_drop:
  assumes "distinct ks"
  shows "filter (\<lambda>k. k \<notin> set (drop n ks)) ks = take n ks"
proof -
  have d: "set (take n ks) \<inter> set (drop n ks) = {}"
    using assms by (metis append_take_drop_id distinct_append)
  have "filter (\<lambda>k. k \<notin> set (drop n ks)) (take n ks) = take n ks"
    using d by (auto simp: filter_id_conv)
  moreover have "filter (\<lambda>k. k \<notin> set (drop n ks)) (drop n ks) = []"
    by (simp add: filter_empty_conv)
  ultimately have "filter (\<lambda>k. k \<notin> set (drop n ks)) (take n ks @ drop n ks) = take n ks"
    by (simp only: filter_append append_Nil2)
  then show ?thesis by (simp only: append_take_drop_id)
qed

lemma decreasing_distinct:
  fixes xs :: "'a::order list"
  shows "sorted_wrt (\<lambda>a b. b < a) xs \<Longrightarrow> distinct xs"
  by (induction xs) auto

lemma cleanup_step:
  assumes W: "mset W = mset (map backupKeyAt (u # take 5 (rev ts)))"
    and inc: "sorted_wrt (<) ts" "\<forall>x\<in>set ts. x < u"
    and dig: "\<forall>x\<in>set ts. thirteenDigits x" "thirteenDigits u"
  shows "mset (filter (\<lambda>k. k \<notin> set (drop 5 (rev (sort W)))) W)
         = mset (map backupKeyAt (take 5 (rev (ts @ [u]))))"
proof -
  let ?ds = "u # take 5 (rev ts)"
  let ?ks = "map backupKeyAt ?ds"
  have dec_ts: "sorted_wrt (\<lambda>a b. b < a) (rev ts)"
    using inc(1) by (simp add: sorted_wrt_rev)
  have dec: "sorted_wrt (\<lambda>a b. b < a) ?ds"
    using dec_ts inc(2) by (auto dest: in_set_takeD intro: sorted_wrt_take)
  have digs: "\<forall>x\<in>set ?ds. thirteenDigits x"
    using dig by (auto dest: in_set_takeD)
  have kdec: "sorted_wrt (\<lambda>a b. b < a) ?ks"
    using dec digs by (rule keys_decreasing)
  then have dist: "distinct ?ks"
    by (rule decreasing_distinct)
  have srt: "rev (sort W) = ?ks"
    using W kdec by (rule sort_decreasing)
  have "mset (filter (\<lambda>k. k \<notin> set (drop 5 ?ks)) W)
        = filter_mset (\<lambda>k. k \<notin> set (drop 5 ?ks)) (mset ?ks)"
    by (simp only: mset_filter W)
  also have "\<dots> = mset (filter (\<lambda>k. k \<notin> set (drop 5 ?ks)) ?ks)"
    by (simp only: mset_filter)
  also have "\<dots> = mset (take 5 ?ks)"
    using dist by (simp only: filter_not_in_drop)
  also have "take 5 ?ks = map backupKeyAt (take 5 (rev (ts @ [u])))"
    by (simp add: take_map take_Cons')
  finally show ?thesis
    by (simp only: srt)
qed

section \<open>Backups\<close>

lemma backupKeysOf_setItem:
  "backupKeysOf (setItem k v store) =
     (if k \<in> set (map fst store) then backupKeysOf store
      else backupKeysOf store @ (if k \<noteq> [] \<and> prefix backupPrefix k then [k] else []))"
  by (simp add: backupKeysOf_def setItem_def update_keys)

lemma backupKeysOf_removeItem:
  "backupKeysOf (removeItem k store) = removeAll k (backupKeysOf store)"
  by (simp add: backupKeysOf_def removeItem_def delete_keys removeAll_filter_not_eq
      conj_commute)

lemma backupKeysOf_fold_removeItem:
  "backupKeysOf (fold removeItem ds store) = filter (\<lambda>k. k \<notin> set ds) (backupKeysOf store)"
proof (induction ds arbitrary: store)
  case Nil
  then show ?case by simp
next
  case (Cons d ds)
  show ?case
    by (auto simp: Cons.IH backupKeysOf_removeItem removeAll_filter_not_eq intro: filter_cong)
qed

lemma backupKeysOf_cleanup:
  "backupKeysOf (localStorage (cleanupOldBackups t)) =
     filter (\<lambda>k. k \<notin> set (drop 5 (rev (sort (backupKeysOf (localStorage t))))))
       (backupKeysOf (localStorage t))"
  by (simp add: cleanupOldBackups_def Let_def backupKeysOf_fold_removeItem)

lemma filter_split_length:
  assumes "mset B = mset X + mset Y" "\<forall>y\<in>set Y. \<not> P y"
  shows "length (filter P B) \<le> length X"
proof -
  have "filter_mset P (mset B) = filter_mset P (mset X) + filter_mset P (mset Y)"
    using assms(1) by simp
  moreover have "filter P Y = []"
    using assms(2) by (simp add: filter_empty_conv)
  ultimately have "mset (filter P B) = mset (filter P X)"
    by (simp flip: mset_filter)
  then have "length (filter P B) = length (filter P X)"
    by (rule mset_eq_length)
  then show ?thesis
    by simp
qed

lemma cleanup_at_most_five:
  "length (backupKeysOf (localStorage (cleanupOldBackups t))) \<le> 5"
proof -
  let ?B = "backupKeysOf (localStorage t)"
  let ?S = "rev (sort ?B)"
  have "mset ?B = mset (take 5 ?S) + mset (drop 5 ?S)"
    by (metis append_take_drop_id mset_append mset_rev mset_sort)
  then have "length (filter (\<lambda>k. k \<notin> set (drop 5 ?S)) ?B) \<le> length (take 5 ?S)"
    by (rule filter_split_length) simp
  then show ?thesis
    by (simp add: backupKeysOf_cleanup)
qed

lemma performImport_at_most_five:
  "length (backupKeysOf (localStorage (performImport pf d now t))) \<le> 5"
  by (simp add: performImport_def Let_def cleanup_at_most_five)

lemma not_backup_keys:
  "\<not> prefix backupPrefix ''__localStorage_test__''"
  "\<not> prefix backupPrefix ''weedTrackerEntries''"
  "\<not> prefix backupPrefix ''weedTrackerGoals''"
  "\<not> prefix backupPrefix ''weedTrackerSettings''"
  by (simp_all add: backupPrefix_def)

lemma backupKeysOf_setItem_other:
  "\<not> prefix backupPrefix k \<Longrightarrow> backupKeysOf (setItem k v store) = backupKeysOf store"
  by (simp add: backupKeysOf_setItem)

lemma backupKeysOf_removeItem_other:
  "\<not> prefix backupPrefix k \<Longrightarrow> backupKeysOf (removeItem k store) = backupKeysOf store"
proof -
  assume "\<not> prefix backupPrefix k"
  then have "k \<notin> set (backupKeysOf store)"
    by (auto simp: backupKeysOf_def)
  then show ?thesis
    by (metis backupKeysOf_removeItem removeAll_id)
qed

lemma backupKeysOf_saves:
  "backupKeysOf (localStorage (saveSettings (saveGoals (saveEntries t))))
   = backupKeysOf (localStorage t)"
  by (simp add: saveSettings_def saveGoals_def saveEntries_def isLocalStorageAvailable_def
      backupKeysOf_setItem_other backupKeysOf_removeItem_other not_backup_keys)

lemma backupKeysOf_performImport:
  "backupKeysOf (localStorage (performImport pf d now t)) =
     (let written = backupKeysOf (setItem (backupKeyAt now)
                       (stringifyText (JObj
                          [(''entries'', JArr (entries t)),
                           (''goals'', spreadObject (goals t)),
                           (''settings'', spreadObject (settings t)),
                           (''backupDate'', JStr (toISOString pf now))]))
                       (localStorage t))
      in filter (\<lambda>k. k \<notin> set (drop 5 (rev (sort written)))) written)"
proof -
  let ?t1 = "t\<lparr>localStorage := setItem (backupKeyAt now)
                       (stringifyText (JObj
                          [(''entries'', JArr (entries t)),
                           (''goals'', spreadObject (goals t)),
                           (''settings'', spreadObject (settings t)),
                           (''backupDate'', JStr (toISOString pf now))]))
                       (localStorage t)\<rparr>"
  let ?t2 = "?t1\<lparr>entries := elements (field d ''entries''),
                   goals := spreadObject (field d ''goals''),
                   settings := spreadObject (field d ''settings'')\<rparr>"
  have "performImport pf d now t = cleanupOldBackups (saveSettings (saveGoals (saveEntries ?t2)))"
    by (simp add: performImport_def Let_def backupKeyAt_def)
  then show ?thesis
    by (simp add: backupKeysOf_cleanup backupKeysOf_saves Let_def)
qed

lemma backupKeysOf_written:
  assumes inv: "mset (backupKeysOf store) = mset (map backupKeyAt (take 5 (rev ts)))"
    and new: "\<forall>x\<in>set ts. x < u"
    and dig: "\<forall>x\<in>set ts. thirteenDigits x" "thirteenDigits u"
  shows "mset (backupKeysOf (setItem (backupKeyAt u) v store))
         = mset (map backupKeyAt (u # take 5 (rev ts)))"
proof -
  have k: "backupKeyAt u \<noteq> []" "prefix backupPrefix (backupKeyAt u)"
    by (simp_all add: backupKeyAt_def backupPrefix_def)
  have "backupKeyAt u \<notin> set (map fst store)"
  proof
    assume "backupKeyAt u \<in> set (map fst store)"
    with k have "backupKeyAt u \<in> set (backupKeysOf store)"
      by (simp add: backupKeysOf_def)
    then have "backupKeyAt u \<in># mset (map backupKeyAt (take 5 (rev ts)))"
      using inv by (metis set_mset_mset)
    then obtain x where x: "x \<in> set ts" "backupKeyAt u = backupKeyAt x"
      by (auto dest: in_set_takeD)
    then have "u = x"
      using dig backupKeyAt_order(2) by blast
    with x new show False
      by auto
  qed
  then show ?thesis
    using k inv by (simp add: backupKeysOf_setItem)
qed

lemma performImport_backup_keys:
  assumes inv: "mset (backupKeysOf (localStorage t)) = mset (map backupKeyAt (take 5 (rev ts)))"
    and inc: "sorted_wrt (<) ts" "\<forall>x\<in>set ts. x < u"
    and dig: "\<forall>x\<in>set ts. thirteenDigits x" "thirteenDigits u"
  shows "mset (backupKeysOf (localStorage (performImport pf d u t)))
         = mset (map backupKeyAt (take 5 (rev (ts @ [u]))))"
  unfolding backupKeysOf_performImport Let_def
  by (rule cleanup_step [OF backupKeysOf_written [OF inv inc(2) dig] inc dig])

lemma importAll_backup_keys:
  assumes "\<forall>file\<in>set files. validateImportData (newDate pf) (parse (fst file))"
    and "mset (backupKeysOf (localStorage t)) = mset (map backupKeyAt (take 5 (rev ts)))"
    and "sorted_wrt (<) (ts @ map snd files)"
    and "\<forall>x\<in>set (ts @ map snd files). thirteenDigits x"
  shows "mset (backupKeysOf (localStorage (importAll pf files t)))
         = mset (map backupKeyAt (take 5 (rev (ts @ map snd files))))"
  using assms
proof (induction files arbitrary: t ts)
  case Nil
  then show ?case by simp
next
  case (Cons f fs)
  let ?t' = "performImport pf (parse (fst f)) (snd f) t"
  have imp: "importData pf (Some (fst f)) True (snd f) t = ?t'"
    using Cons.prems(1) by (simp add: importData_def)
  have inc: "sorted_wrt (<) ts" "\<forall>x\<in>set ts. x < snd f"
    using Cons.prems(3) by (auto simp: sorted_wrt_append)
  have dig: "\<forall>x\<in>set ts. thirteenDigits x" "thirteenDigits (snd f)"
    using Cons.prems(4) by auto
  have inv: "mset (backupKeysOf (localStorage ?t'))
             = mset (map backupKeyAt (take 5 (rev (ts @ [snd f]))))"
    using Cons.prems(2) inc dig by (rule performImport_backup_keys)
  have "mset (backupKeysOf (localStorage (importAll pf fs ?t')))
        = mset (map backupKeyAt (take 5 (rev ((ts @ [snd f]) @ map snd fs))))"
    using Cons.prems(1,3,4) inv by (intro Cons.IH) simp_all
  then show ?case
    by (simp add: imp)
qed

text \<open>
  What the cleanup achieves while the clock values have equal numbers of digits: after
  every committed import at most 5 backup keys remain in the store, and after a series
  of committed imports at strictly increasing clock values of thirteen digits, started
  on a store without backups, the backup keys that remain are those of the 5 most recent
  imports (of all imports when there were fewer than 5).
\<close>

lemma backups_of_equal_digits:
  "length (backupKeysOf (localStorage (performImport pf d now t))) \<le> 5
   \<and> (validateImportData (newDate pf) (parse doc) \<longrightarrow>
        length (backupKeysOf (localStorage (importData pf (Some doc) True now t))) \<le> 5)
   \<and> ((\<forall>file\<in>set files. validateImportData (newDate pf) (parse (fst file)))
        \<and> backupKeysOf (localStorage t) = []
        \<and> sorted_wrt (<) (map snd files)
        \<and> (\<forall>x\<in>set (map snd files). thirteenDigits x) \<longrightarrow>
        mset (backupKeysOf (localStorage (importAll pf files t)))
          = mset (map backupKeyAt (take 5 (rev (map snd files))))
        \<and> length (backupKeysOf (localStorage (importAll pf files t))) = min 5 (length files))"
proof -
  have 1: "length (backupKeysOf (localStorage (performImport pf d now t))) \<le> 5" for d
    by (rule performImport_at_most_five)
  have 2: "validateImportData (newDate pf) (parse doc) \<Longrightarrow>
        length (backupKeysOf (localStorage (importData pf (Some doc) True now t))) \<le> 5"
    using 1 by (simp add: importData_def)
  have 3: "mset (backupKeysOf (localStorage (importAll pf files t)))
          = mset (map backupKeyAt (take 5 (rev (map snd files))))"
    if "\<forall>file\<in>set files. validateImportData (newDate pf) (parse (fst file))"
      "backupKeysOf (localStorage t) = []" "sorted_wrt (<) (map snd files)"
      "\<forall>x\<in>set (map snd files). thirteenDigits x"
    using importAll_backup_keys [of files pf t "[]"] that by simp
  have 4: "length (backupKeysOf (localStorage (importAll pf files t))) = min 5 (length files)"
    if "mset (backupKeysOf (localStorage (importAll pf files t)))
          = mset (map backupKeyAt (take 5 (rev (map snd files))))"
    using mset_eq_length [OF that] by simp
  show ?thesis
    using 1 2 3 4 by blast
qed

lemma docAscending_valid': "validateImportData (newDate testPlatform) (parse docAscending)"
  using docAscending_valid by (simp add: testPlatform_def)

lemma backups_of_seven_imports:
  "length (backupKeysOf (localStorage
      (importData testPlatform (Some docAscending) True 1705487400000 emptyTracker))) \<le> 5
   \<and> length sevenImports = 7
   \<and> mset (backupKeysOf (localStorage (importAll testPlatform sevenImports emptyTracker)))
       = mset [''weedTrackerBackup_1705487760000'', ''weedTrackerBackup_1705487700000'',
               ''weedTrackerBackup_1705487640000'', ''weedTrackerBackup_1705487580000'',
               ''weedTrackerBackup_1705487520000'']
   \<and> length (backupKeysOf (localStorage (importAll testPlatform sevenImports emptyTracker))) = 5"
proof -
  have v: "\<forall>file\<in>set sevenImports. validateImportData (newDate testPlatform) (parse (fst file))"
    using docAscending_valid' by (simp add: sevenImports_def)
  have e: "backupKeysOf (localStorage emptyTracker) = []"
    by (simp add: emptyTracker_def backupKeysOf_def)
  have s: "sorted_wrt (<) (map snd sevenImports)"
    by (simp add: sevenImports_def)
  have d: "\<forall>x\<in>set (map snd sevenImports). thirteenDigits x"
    by (simp add: sevenImports_def thirteenDigits_def)
  have k: "map backupKeyAt (take 5 (rev (map snd sevenImports)))
        = [''weedTrackerBackup_1705487760000'', ''weedTrackerBackup_1705487700000'',
           ''weedTrackerBackup_1705487640000'', ''weedTrackerBackup_1705487580000'',
           ''weedTrackerBackup_1705487520000'']"
    by (simp add: sevenImports_def backupKeyAt_def backupPrefix_def showInt_def showNat.simps)
  have l: "length sevenImports = 7"
    by (simp add: sevenImports_def)
  note r = backups_of_equal_digits [of testPlatform "parse docAscending" 1705487400000 emptyTracker
        docAscending sevenImports]
  have 1: "length (backupKeysOf (localStorage
      (importData testPlatform (Some docAscending) True 1705487400000 emptyTracker))) \<le> 5"
    using r docAscending_valid' by blast
  have 2: "mset (backupKeysOf (localStorage (importAll testPlatform sevenImports emptyTracker)))
          = mset (map backupKeyAt (take 5 (rev (map snd sevenImports))))"
      "length (backupKeysOf (localStorage (importAll testPlatform sevenImports emptyTracker)))
          = min 5 (length sevenImports)"
    using r v e s d by blast+
  show ?thesis
    using 1 2 unfolding k l by simp
qed





section \<open>Streak\<close>

lemma setHoursZero_localDay:
  "setHoursZero pf a = setHoursZero pf b \<longleftrightarrow> localDay pf a = localDay pf b"
proof -
  have "setHoursZero pf x = 86400000 * localDay pf x - tzOffset pf" for x
  proof -
    have "86400000 * ((x + tzOffset pf) div 86400000) + (x + tzOffset pf) mod 86400000
          = x + tzOffset pf"
      by (rule mult_div_mod_eq)
    then have "x - (x + tzOffset pf) mod 86400000
          = 86400000 * ((x + tzOffset pf) div 86400000) - tzOffset pf"
      by linarith
    then show ?thesis
      by (simp add: setHoursZero_def localDay_def)
  qed
  then show ?thesis by simp
qed

lemma onDay_localDay:
  "onDay pf (setHoursZero pf now) e \<longleftrightarrow>
     (\<exists>d. entryTime pf e = Some d \<and> localDay pf d = localDay pf now)"
  by (auto simp: onDay_def setHoursZero_localDay split: option.splits)

lemma streakLoop_ge: "n \<le> streakLoop pf es cur n"
proof (induction pf es cur n rule: streakLoop.induct)
  case (1 pf es currentDate streakCount)
  show ?case
  proof (cases "length (filter (onDay pf currentDate) es) > 0")
    case True
    then have "streakCount + 1 \<le> streakLoop pf es (currentDate - 24 * 60 * 60 * 1000) (streakCount + 1)"
      using 1 by simp
    with True show ?thesis
      by (subst streakLoop.simps) (simp add: Let_def)
  next
    case False
    then show ?thesis
      by (subst streakLoop.simps) (simp add: Let_def)
  qed
qed

lemma streakLoop_zero:
  "streakLoop pf es cur 0 = 0 \<longleftrightarrow> filter (onDay pf cur) es = []"
proof (cases "filter (onDay pf cur) es = []")
  case True
  then show ?thesis
    by (subst streakLoop.simps) (simp add: Let_def)
next
  case False
  have "1 \<le> streakLoop pf es (cur - 24 * 60 * 60 * 1000) 1"
    by (rule streakLoop_ge)
  with False show ?thesis
    by (subst streakLoop.simps) (simp add: Let_def)
qed

text \<open>
  C1. The streak count is 0 exactly when no entry has a time on the local calendar day
  of \<open>now\<close>. Hence a positive count comes with an entry of today and the label
  "day streak (including today)"; the label "day streak (last entry yesterday)" is never
  returned.
\<close>

theorem streak_zero_iff_no_entry_today:
  "(count (calculateStreak pf now t) = 0 \<longleftrightarrow>
      \<not> (\<exists>e\<in>set (entries t). \<exists>d. entryTime pf e = Some d \<and> localDay pf d = localDay pf now))
   \<and> (count (calculateStreak pf now t) > 0 \<longrightarrow>
        (\<exists>e\<in>set (entries t). \<exists>d. entryTime pf e = Some d \<and> localDay pf d = localDay pf now)
        \<and> type (calculateStreak pf now t) = ''day streak (including today)'')
   \<and> type (calculateStreak pf now t) \<noteq> ''day streak (last entry yesterday)''"
proof -
  let ?today = "setHoursZero pf now"
  have f: "filter (onDay pf ?today) (entries t) = [] \<longleftrightarrow>
      \<not> (\<exists>e\<in>set (entries t). \<exists>d. entryTime pf e = Some d \<and> localDay pf d = localDay pf now)"
    by (simp add: filter_empty_conv onDay_localDay)
  show ?thesis
  proof (cases "filter (onDay pf ?today) (entries t) = []")
    case True
    then have "streakLoop pf (entries t) ?today 0 = 0"
      by (simp add: streakLoop_zero)
    then have "calculateStreak pf now t = \<lparr>count = 0, type = ''No streak yet''\<rparr>"
      by (simp add: calculateStreak_def Let_def)
    with True f show ?thesis
      by simp
  next
    case False
    then have "streakLoop pf (entries t) ?today 0 \<noteq> 0" "entries t \<noteq> []"
      by (auto simp: streakLoop_zero)
    with False have "calculateStreak pf now t =
        \<lparr>count = streakLoop pf (entries t) ?today 0, type = ''day streak (including today)''\<rparr>"
      by (simp add: calculateStreak_def Let_def)
    with False f \<open>streakLoop pf (entries t) ?today 0 \<noteq> 0\<close> show ?thesis
      by simp
  qed
qed

lemma sample_times_more:
  "entryTime testPlatform entryMinimal = Some 1705314600000"
  by (simp add: entryTime_def testPlatform_def testDate_def sampleDates_def entryMinimal_def
      field_JObj4)

lemma testPlatform_tz: "tzOffset testPlatform = 0"
  by (simp add: testPlatform_def)

lemma onDay_samples:
  "onDay testPlatform m entryJan16 \<longleftrightarrow> m = 1705363200000"
  "onDay testPlatform m entryMinimal \<longleftrightarrow> m = 1705276800000"
  "onDay testPlatform m entryJan14 \<longleftrightarrow> m = 1705190400000"
  by (auto simp: onDay_def sample_entry_times sample_times_more setHoursZero_def testPlatform_tz)

theorem streak_zero_iff_no_entry_today_witness:
  "count (calculateStreak testPlatform 1705395600000 threeDayTracker) = 3
   \<and> type (calculateStreak testPlatform 1705395600000 threeDayTracker)
       = ''day streak (including today)''
   \<and> localDay testPlatform 1705392000000 = localDay testPlatform 1705395600000
   \<and> calculateStreak testPlatform 1705487400000 threeDayTracker
       = \<lparr>count = 0, type = ''No streak yet''\<rparr>"
proof -
  have c: "calculateStreak testPlatform 1705395600000 threeDayTracker
      = \<lparr>count = 3, type = ''day streak (including today)''\<rparr>"
    by (simp add: calculateStreak_def Let_def threeDayTracker_def setHoursZero_def
        testPlatform_tz onDay_samples streakLoop.simps)
  have d: "\<not> (\<exists>e\<in>set (entries threeDayTracker). \<exists>d. entryTime testPlatform e = Some d
              \<and> localDay testPlatform d = localDay testPlatform 1705487400000)"
    by (simp add: threeDayTracker_def sample_entry_times sample_times_more localDay_def
        testPlatform_tz)
  have z: "count (calculateStreak testPlatform 1705487400000 threeDayTracker) = 0"
    using streak_zero_iff_no_entry_today [of testPlatform 1705487400000 threeDayTracker] d
    by blast
  have n: "calculateStreak testPlatform 1705487400000 threeDayTracker
       = \<lparr>count = 0, type = ''No streak yet''\<rparr>"
    using z by (auto simp: calculateStreak_def Let_def split: if_splits)
  have p: "type (calculateStreak testPlatform 1705395600000 threeDayTracker)
       = ''day streak (including today)''"
    using streak_zero_iff_no_entry_today [of testPlatform 1705395600000 threeDayTracker] c
    by simp
  show ?thesis
    using c n p by (simp add: localDay_def testPlatform_tz)
qed

section \<open>Double precision\<close>

lemma scaleExp_eq:
  "q \<le> k \<Longrightarrow> k \<le> q + int fuel \<Longrightarrow> (k = q + int fuel \<or> a < 2 powi (k + 53))
   \<Longrightarrow> (k = q \<or> 2 powi (k + 52) \<le> a) \<Longrightarrow> scaleExp fuel a q = k"
proof (induction fuel arbitrary: q)
  case 0
  then show ?case by simp
next
  case (Suc fuel)
  show ?case
  proof (cases "k = q")
    case True
    with Suc.prems show ?thesis
      by auto
  next
    case False
    with Suc.prems have lt: "q < k" and ge: "2 powi (k + 52) \<le> a"
      by auto
    have "(2::real) powi (q + 53) \<le> 2 powi (k + 52)"
      using lt by (intro power_int_increasing) auto
    with ge have n: "\<not> a < 2 powi (q + 53)"
      by linarith
    have "scaleExp fuel a (q + 1) = k"
    proof (rule Suc.IH)
      show "q + 1 \<le> k" using lt by simp
      show "k \<le> q + 1 + int fuel" using Suc.prems(2) by simp
      show "k = q + 1 + int fuel \<or> a < 2 powi (k + 53)" using Suc.prems(3) by auto
      show "k = q + 1 \<or> 2 powi (k + 52) \<le> a" using ge by simp
    qed
    with n show ?thesis
      by simp
  qed
qed

lemma scaleExp_range: "q \<le> scaleExp fuel a q \<and> scaleExp fuel a q \<le> q + int fuel"
proof (induction fuel arbitrary: q)
  case 0
  then show ?case by simp
next
  case (Suc fuel)
  from Suc [of "q + 1"] show ?case
    by auto
qed

lemma scaleExp_spec:
  "(scaleExp fuel a q = q \<or> 2 powi (scaleExp fuel a q + 52) \<le> a)
   \<and> (scaleExp fuel a q = q + int fuel \<or> a < 2 powi (scaleExp fuel a q + 53))"
proof (induction fuel arbitrary: q)
  case 0
  then show ?case by simp
next
  case (Suc fuel)
  show ?case
  proof (cases "a < 2 powi (q + 53)")
    case True
    then show ?thesis by simp
  next
    case False
    let ?r = "scaleExp fuel a (q + 1)"
    have r: "scaleExp (Suc fuel) a q = ?r"
      using False by simp
    have ge: "2 powi (?r + 52) \<le> a"
    proof (cases "?r = q + 1")
      case True
      with False show ?thesis by (simp add: add.commute add.left_commute)
    next
      case False
      with Suc [of "q + 1"] show ?thesis by auto
    qed
    have "?r = q + 1 + int fuel \<or> a < 2 powi (?r + 53)"
      using Suc [of "q + 1"] by auto
    with ge show ?thesis
      unfolding r by auto
  qed
qed

declare scaleExp.simps [simp del]

lemma ulpExp_range: "- 1074 \<le> ulpExp x \<and> ulpExp x \<le> 971"
  using scaleExp_range [of "- 1074" 2045 "\<bar>x\<bar>"] by (simp add: ulpExp_def)

lemma ulpExp_eq:
  assumes "- 1074 \<le> k" "k \<le> 971" "k = 971 \<or> \<bar>x\<bar> < 2 powi (k + 53)"
    "k = - 1074 \<or> 2 powi (k + 52) \<le> \<bar>x\<bar>"
  shows "ulpExp x = k"
  unfolding ulpExp_def using assms by (intro scaleExp_eq) auto

lemma ulpExp_lower: "ulpExp x = - 1074 \<or> 2 powi (ulpExp x + 52) \<le> \<bar>x\<bar>"
  using scaleExp_spec [of 2045 "\<bar>x\<bar>" "- 1074"] by (simp add: ulpExp_def)

lemma ulpExp_upper: "ulpExp x = 971 \<or> \<bar>x\<bar> < 2 powi (ulpExp x + 53)"
  using scaleExp_spec [of 2045 "\<bar>x\<bar>" "- 1074"] by (simp add: ulpExp_def)

lemma ulpExp_le:
  assumes "- 1074 \<le> k" "\<bar>x\<bar> < 2 powi (k + 53)"
  shows "ulpExp x \<le> k"
proof (rule ccontr)
  assume "\<not> ulpExp x \<le> k"
  then have lt: "k < ulpExp x" by simp
  with assms(1) have "ulpExp x \<noteq> - 1074" by simp
  with ulpExp_lower [of x] have "2 powi (ulpExp x + 52) \<le> \<bar>x\<bar>" by simp
  moreover have "(2::real) powi (k + 53) \<le> 2 powi (ulpExp x + 52)"
    using lt by (intro power_int_increasing) auto
  ultimately show False
    using assms(2) by linarith
qed

lemma roundEven_bound: "\<bar>of_int (roundEven y) - y\<bar> \<le> 1 / 2"
  unfolding roundEven_def Let_def by (auto; linarith)

lemma roundEven_of_int [simp]: "roundEven (of_int n) = n"
  by (simp add: roundEven_def)


lemma roundDouble_eval:
  assumes "ulpExp x = q" "roundEven (x / 2 powi q) = m" "\<bar>of_int m * 2 powi q\<bar> < (2::real) ^ 1024"
  shows "roundDouble x = Fin (of_int m * 2 powi q)"
  using assms by (simp add: roundDouble_def Let_def)

lemma roundDouble_exact:
  assumes m: "\<bar>m\<bar> < 2 ^ 53" and e: "- 1074 \<le> e" and x: "x = of_int m * 2 powi e"
    and fin: "\<bar>x\<bar> < 2 ^ 1024"
  shows "roundDouble x = Fin x"
proof -
  let ?q = "ulpExp x"
  have "\<bar>x\<bar> = of_int \<bar>m\<bar> * 2 powi e"
    by (simp add: x abs_mult)
  also have "\<dots> < 2 ^ 53 * 2 powi e"
  proof (rule mult_strict_right_mono)
    from m have "real_of_int \<bar>m\<bar> < real_of_int (2 ^ 53)"
      by (simp only: of_int_less_iff)
    then show "real_of_int \<bar>m\<bar> < 2 ^ 53" by simp
    show "(0::real) < 2 powi e" by simp
  qed
  also have "\<dots> = 2 powi (e + 53)"
    by (simp add: power_int_add)
  finally have "?q \<le> e"
    using e by (intro ulpExp_le)
  then obtain d where d: "e = ?q + int d"
    by (metis zle_iff_zadd)
  define q where "q = ?q"
  have p: "(2::real) powi e = 2 powi q * 2 ^ d"
    using d by (simp add: q_def power_int_add)
  have "x / 2 powi q = of_int m * 2 ^ d"
    unfolding x p by simp
  also have "\<dots> = of_int (m * 2 ^ d)"
    by simp
  finally have i: "x / 2 powi q = of_int (m * 2 ^ d)" .
  have r: "of_int (roundEven (x / 2 powi q)) * 2 powi q = x"
    unfolding i roundEven_of_int unfolding x p by simp
  show ?thesis
    unfolding roundDouble_def Let_def q_def [symmetric] r using fin by simp
qed

lemma roundDouble_int:
  assumes "\<bar>n\<bar> < 2 ^ 53"
  shows "roundDouble (of_int n) = Fin (of_int n)"
proof (rule roundDouble_exact [of n 0])
  show "\<bar>n\<bar> < 2 ^ 53" by fact
  show "- 1074 \<le> (0::int)" by simp
  show "real_of_int n = real_of_int n * 2 powi 0" by simp
  have "\<bar>real_of_int n\<bar> = real_of_int \<bar>n\<bar>" by simp
  also have "\<dots> < real_of_int (2 ^ 53)"
    using assms by (simp only: of_int_less_iff)
  also have "\<dots> < 2 ^ 1024" by simp
  finally show "\<bar>real_of_int n\<bar> < 2 ^ 1024" .
qed


lemma roundDouble_zero: "roundDouble 0 = Fin 0"
  using roundDouble_int [of 0] by simp

lemma roundDouble_one: "roundDouble 1 = Fin 1"
  using roundDouble_int [of 1] by simp

lemma roundDouble_numeral:
  "numeral n < (2::int) ^ 53 \<Longrightarrow> roundDouble (numeral n) = Fin (numeral n)"
  using roundDouble_int [of "numeral n"] by simp

lemma roundDouble_neg_numeral:
  "numeral n < (2::int) ^ 53 \<Longrightarrow> roundDouble (- numeral n) = Fin (- numeral n)"
  using roundDouble_int [of "- numeral n"] by simp

text \<open>The doubles of the decimal literals in the examples, and the roundings that occur there.\<close>

lemma double_tenth: "roundDouble (1 / 10) = Fin (3602879701896397 / 36028797018963968)"
proof -
  have u: "ulpExp (1 / 10) = - 56"
    by (rule ulpExp_eq) simp_all
  have e: "roundEven ((1 / 10) / 2 powi (- 56)) = 7205759403792794"
    by (simp add: roundEven_def)
  show ?thesis
    using roundDouble_eval [OF u e] by simp
qed

lemma double_fifth: "roundDouble (1 / 5) = Fin (3602879701896397 / 18014398509481984)"
proof -
  have u: "ulpExp (1 / 5) = - 55"
    by (rule ulpExp_eq) simp_all
  have e: "roundEven ((1 / 5) / 2 powi (- 55)) = 7205759403792794"
    by (simp add: roundEven_def)
  show ?thesis
    using roundDouble_eval [OF u e] by simp
qed

lemma round_three_tenths: "roundDouble (10808639105689191 / 36028797018963968) = Fin (1351079888211149 / 4503599627370496)"
proof -
  have u: "ulpExp (10808639105689191 / 36028797018963968) = - 54"
    by (rule ulpExp_eq) simp_all
  have e: "roundEven ((10808639105689191 / 36028797018963968) / 2 powi (- 54)) = 5404319552844596"
    by (simp add: roundEven_def)
  show ?thesis
    using roundDouble_eval [OF u e] by simp
qed

lemma round_cost_window: "roundDouble (33776997205278725 / 9007199254740992) = Fin (8444249301319681 / 2251799813685248)"
proof -
  have u: "ulpExp (33776997205278725 / 9007199254740992) = - 51"
    by (rule ulpExp_eq) simp_all
  have e: "roundEven ((33776997205278725 / 9007199254740992) / 2 powi (- 51)) = 8444249301319681"
    by (simp add: roundEven_def)
  show ?thesis
    using roundDouble_eval [OF u e] by simp
qed

lemma round_cost_day: "roundDouble (90071992547409925 / 72057594037927936) = Fin (5 / 4)"
proof -
  have u: "ulpExp (90071992547409925 / 72057594037927936) = - 52"
    by (rule ulpExp_eq) simp_all
  have e: "roundEven ((90071992547409925 / 72057594037927936) / 2 powi (- 52)) = 5629499534213120"
    by (simp add: roundEven_def)
  show ?thesis
    using roundDouble_eval [OF u e] by simp
qed

lemma round_tenth: "roundDouble (3602879701896397 / 36028797018963968) = Fin (3602879701896397 / 36028797018963968)"
proof -
  have u: "ulpExp (3602879701896397 / 36028797018963968) = - 56"
    by (rule ulpExp_eq) simp_all
  have e: "roundEven ((3602879701896397 / 36028797018963968) / 2 powi (- 56)) = 7205759403792794"
    by (simp add: roundEven_def)
  show ?thesis
    using roundDouble_eval [OF u e] by simp
qed

lemma double_literals:
  "double 0.1 = (3602879701896397 / 36028797018963968)"
  "double (1 / 5) = (3602879701896397 / 18014398509481984)"
  by (simp_all add: double_def double_tenth double_fifth)

section \<open>Aggregates\<close>

lemma sumAmounts_jsSum: "sumAmounts es = jsSum (map amountOf es)"
  by (simp add: sumAmounts_def jsSum_def amountOf_def foldl_map)

lemma roundHalfUp_bound: "\<bar>of_int (roundHalfUp x) - x\<bar> \<le> 1 / 2"
  unfolding roundHalfUp_def by linarith

lemma roundHalfUp_nonneg: "0 \<le> x \<Longrightarrow> 0 \<le> roundHalfUp x"
  unfolding roundHalfUp_def by linarith


lemma showFixed_one: "showFixed 1 n = showNat (n div 10) @ [CHR ''.'', digit (n mod 10)]"
proof (cases "n < 10")
  case True
  then show ?thesis
    by (simp add: showFixed_def showNat_small digit_def)
next
  case False
  then have "showNat n = showNat (n div 10) @ [digit (n mod 10)]"
    by (simp add: showNat_large digit_def)
  moreover have "showNat (n div 10) \<noteq> []"
    by (rule showNat_not_Nil)
  ultimately show ?thesis
    by (simp add: showFixed_def Let_def)
qed

lemma showFixed_two:
  "showFixed 2 n = showNat (n div 100) @ [CHR ''.'', digit (n div 10 mod 10), digit (n mod 10)]"
proof -
  consider "n < 10" | "10 \<le> n" "n < 100" | "100 \<le> n" by linarith
  then show ?thesis
  proof cases
    case 1
    then show ?thesis
      by (simp add: showFixed_def showNat_small digit_def)
  next
    case 2
    then have "showNat n = [digit (n div 10), digit (n mod 10)]"
      by (simp add: showNat_large showNat_small digit_def)
    with 2 show ?thesis
      by (simp add: showFixed_def showNat_small digit_def)
  next
    case 3
    then have d: "\<not> n < 10" "\<not> n div 10 < 10"
      by simp_all
    have h: "n div 10 div 10 = n div 100"
      by (simp add: div_mult2_eq [symmetric])
    have "showNat n = showNat (n div 100) @ [digit (n div 10 mod 10), digit (n mod 10)]"
      using showNat_large [OF d(1)] showNat_large [OF d(2)]
      by (simp add: digit_def h)
    moreover have "showNat (n div 100) \<noteq> []"
      by (rule showNat_not_Nil)
    ultimately show ?thesis
      by (simp add: showFixed_def Let_def)
  qed
qed


lemma showFixed_Suc_0:
  "showFixed (Suc 0) n = showNat (n div 10) @ [CHR ''.'', digit (n mod 10)]"
  using showFixed_one [of n] by simp

lemma toFixed_two:
  assumes "0 \<le> r" "r < 10 ^ 21"
  shows "\<exists>cents. toFixed pf 2 (Fin r) = twoDecimals cents \<and> \<bar>real cents / 100 - r\<bar> \<le> 1 / 200"
proof -
  let ?n = "roundHalfUp (r * 10 ^ 2)"
  have n0: "0 \<le> ?n"
    using assms(1) by (intro roundHalfUp_nonneg) simp
  have "\<bar>of_int ?n - r * 10 ^ 2\<bar> \<le> 1 / 2"
    by (rule roundHalfUp_bound)
  then have b: "\<bar>real (nat ?n) / 100 - r\<bar> \<le> 1 / 200"
    using n0 by (simp add: field_simps)
  have "toFixed pf 2 (Fin r) = twoDecimals (nat ?n)"
    using assms by (simp add: showFixed_two twoDecimals_def not_le)
  with b show ?thesis
    by blast
qed

lemma toFixed_one:
  assumes "0 \<le> r" "r < 10 ^ 21"
  shows "\<exists>tenths. toFixed pf 1 (Fin r) = oneDecimal tenths \<and> \<bar>real tenths / 10 - r\<bar> \<le> 1 / 20"
proof -
  let ?n = "roundHalfUp (r * 10 ^ 1)"
  have n0: "0 \<le> ?n"
    using assms(1) by (intro roundHalfUp_nonneg) simp
  have "\<bar>of_int ?n - r * 10 ^ 1\<bar> \<le> 1 / 2"
    by (rule roundHalfUp_bound)
  then have b: "\<bar>real (nat ?n) / 10 - r\<bar> \<le> 1 / 20"
    using n0 by (simp add: field_simps)
  have "toFixed pf 1 (Fin r) = oneDecimal (nat ?n)"
    using assms by (simp add: showFixed_Suc_0 oneDecimal_def not_le)
  with b show ?thesis
    by blast
qed

lemma in_window_iff:
  "(\<lambda>entry. date_ge (entryTime pf entry) (Some (now - 86400000))
             \<and> date_le (entryTime pf entry) (Some now))
   = inLast24Hours pf now"
proof
  fix e
  show "(date_ge (entryTime pf e) (Some (now - 86400000)) \<and> date_le (entryTime pf e) (Some now))
        = inLast24Hours pf now e"
    by (cases "entryTime pf e") (simp_all add: inLast24Hours_def)
qed


lemma on_day_iff: "onDay pf (setHoursZero pf now) = onDayOf pf now"
proof
  fix e
  show "onDay pf (setHoursZero pf now) e = onDayOf pf now e"
    by (cases "entryTime pf e") (simp_all add: onDay_def onDayOf_def setHoursZero_localDay)
qed

lemma updateTodayStats_eq:
  "updateTodayStats pf now t =
     \<lparr>last24HoursCount = length (filter (inLast24Hours pf now) (entries t)),
      last24HoursAmount = jsSum (map amountOf (filter (inLast24Hours pf now) (entries t))),
      last24HoursCost =
        toFixed pf 2 (num_mul (jsSum (map amountOf (filter (inLast24Hours pf now) (entries t))))
                        (numberOf (field (settings t) ''pricePerGram'')))\<rparr>"
  by (simp add: updateTodayStats_def Let_def in_window_iff sumAmounts_jsSum)

lemma script_updateTodayStats_eq:
  "script_updateTodayStats pf now t =
     \<lparr>last24HoursCount = length (filter (onDayOf pf now) (entries t)),
      last24HoursAmount = jsSum (map amountOf (filter (onDayOf pf now) (entries t))),
      last24HoursCost =
        toFixed pf 2 (num_mul (jsSum (map amountOf (filter (onDayOf pf now) (entries t))))
                        (numberOf (field (settings t) ''pricePerGram'')))\<rparr>"
  by (simp add: script_updateTodayStats_def Let_def on_day_iff sumAmounts_jsSum)

text \<open>
  C2 (as amended). Where the amounts and the price are numbers:
  \<^item> In the current version the today aggregate counts exactly the entries whose time
    lies between \<open>now\<close> minus 24 hours and \<open>now\<close>, both ends included (not a calendar
    day); its sum is the sum of their amounts; and its cost is that sum times the price
    per gram, with two decimals: a product from 0 up to \<open>10^21\<close> is shown as the nearest
    number of cents.
  \<^item> In \<^verbatim>\<open>script.js\<close> the aggregate counts exactly the entries on the calendar day of
    \<open>now\<close>; sum and cost are formed from those entries in the same way.
\<close>

theorem today_aggregate:
  assumes "\<forall>e\<in>set (entries t). \<exists>a. field e ''amount'' = JNum a"
    and "field (settings t) ''pricePerGram'' = JNum price"
  shows "last24HoursCount (updateTodayStats pf now t)
           = length (filter (inLast24Hours pf now) (entries t))
         \<and> last24HoursAmount (updateTodayStats pf now t)
           = jsSum (map amountOf (filter (inLast24Hours pf now) (entries t)))
         \<and> last24HoursCost (updateTodayStats pf now t)
           = toFixed pf 2 (num_mul (last24HoursAmount (updateTodayStats pf now t)) price)
         \<and> (\<forall>r. num_mul (last24HoursAmount (updateTodayStats pf now t)) price = Fin r
                \<and> 0 \<le> r \<and> r < 10 ^ 21 \<longrightarrow>
              (\<exists>cents. last24HoursCost (updateTodayStats pf now t) = twoDecimals cents
                 \<and> \<bar>real cents / 100 - r\<bar> \<le> 1 / 200))
         \<and> last24HoursCount (script_updateTodayStats pf now t)
           = length (filter (onDayOf pf now) (entries t))
         \<and> last24HoursAmount (script_updateTodayStats pf now t)
           = jsSum (map amountOf (filter (onDayOf pf now) (entries t)))
         \<and> last24HoursCost (script_updateTodayStats pf now t)
           = toFixed pf 2 (num_mul (last24HoursAmount (script_updateTodayStats pf now t)) price)"
proof -
  have p: "numberOf (field (settings t) ''pricePerGram'') = price"
    using assms(2) by simp
  have c: "last24HoursCost (updateTodayStats pf now t)
           = toFixed pf 2 (num_mul (last24HoursAmount (updateTodayStats pf now t)) price)"
    by (simp add: updateTodayStats_eq p)
  have d: "\<exists>cents. last24HoursCost (updateTodayStats pf now t) = twoDecimals cents
                 \<and> \<bar>real cents / 100 - r\<bar> \<le> 1 / 200"
    if "num_mul (last24HoursAmount (updateTodayStats pf now t)) price = Fin r"
      "0 \<le> r" "r < 10 ^ 21" for r
    unfolding c that(1) using that(2,3) by (rule toFixed_two)
  have s: "last24HoursCost (script_updateTodayStats pf now t)
           = toFixed pf 2 (num_mul (last24HoursAmount (script_updateTodayStats pf now t)) price)"
    by (simp add: script_updateTodayStats_eq p)
  show ?thesis
    using c d s by (simp add: updateTodayStats_eq script_updateTodayStats_eq)
qed

lemma sampleEntry_fields:
  "field (sampleEntry i a m ts) ''amount'' = JNum (Fin a)"
  "amountOf (sampleEntry i a m ts) = Fin a"
  "entryTime testPlatform (sampleEntry i a m ts) = map_of sampleDates ts"
  by (simp_all add: sampleEntry_def field_JObj4 entryTime_def testPlatform_def testDate_def
      amountOf_def)

lemma windowTracker_fields:
  "\<forall>e\<in>set (entries windowTracker). \<exists>a. field e ''amount'' = JNum a"
  "field (settings windowTracker) ''pricePerGram'' = JNum (Fin (25 / 2))"
  by (simp_all add: windowTracker_def sampleEntry_fields field_JObj2)

lemma windowTracker_window:
  "filter (inLast24Hours testPlatform 1705401000000) (entries windowTracker)
   = [sampleEntry 3 (double 0.1) ''vape'' ''2024-01-16T08:00:00.000Z'',
      sampleEntry 2 (double 0.2) ''joint'' ''2024-01-15T10:30:00.000Z'']"
  "filter (onDayOf testPlatform 1705401000000) (entries windowTracker)
   = [sampleEntry 3 (double 0.1) ''vape'' ''2024-01-16T08:00:00.000Z'']"
  by (simp_all add: windowTracker_def inLast24Hours_def onDayOf_def sampleEntry_fields
      sampleDates_def localDay_def testPlatform_tz)

lemma windowTracker_sums:
  "jsSum [Fin (double (1 / 10)), Fin (double (1 / 5))] = Fin (1351079888211149 / 4503599627370496)"
  "jsSum [Fin (double (1 / 10))] = Fin (3602879701896397 / 36028797018963968)"
  by (simp_all add: jsSum_def double_literals round_tenth round_three_tenths)

theorem today_aggregate_witness:
  "entryTime testPlatform (sampleEntry 2 (double 0.2) ''joint'' ''2024-01-15T10:30:00.000Z'')
     = Some (1705401000000 - 86400000)
   \<and> updateTodayStats testPlatform 1705401000000 windowTracker
     = \<lparr>last24HoursCount = 2,
        last24HoursAmount = Fin (1351079888211149 / 4503599627370496),
        last24HoursCost = ''3.75''\<rparr>
   \<and> script_updateTodayStats testPlatform 1705401000000 windowTracker
     = \<lparr>last24HoursCount = 1,
        last24HoursAmount = Fin (3602879701896397 / 36028797018963968),
        last24HoursCost = ''1.25''\<rparr>"
proof -
  have eqI: "r = \<lparr>last24HoursCount = c, last24HoursAmount = a, last24HoursCost = x\<rparr>"
    if "last24HoursCount r = c" "last24HoursAmount r = a" "last24HoursCost r = x"
    for r :: todayStats and c a x
    using that by (cases r) simp
  note a = today_aggregate [OF windowTracker_fields, of testPlatform 1705401000000,
      unfolded windowTracker_window]
  have 1: "last24HoursCount (updateTodayStats testPlatform 1705401000000 windowTracker) = 2"
    using a by simp
  have 2: "last24HoursAmount (updateTodayStats testPlatform 1705401000000 windowTracker)
       = Fin (1351079888211149 / 4503599627370496)"
    using a by (simp add: sampleEntry_fields windowTracker_sums)
  have 3: "last24HoursCost (updateTodayStats testPlatform 1705401000000 windowTracker) = ''3.75''"
    using a unfolding 2
    by (simp add: round_cost_window roundHalfUp_def showFixed_def showNat.simps)
  have 4: "last24HoursCount (script_updateTodayStats testPlatform 1705401000000 windowTracker) = 1"
    using a by simp
  have 5: "last24HoursAmount (script_updateTodayStats testPlatform 1705401000000 windowTracker)
       = Fin (3602879701896397 / 36028797018963968)"
    using a by (simp add: sampleEntry_fields windowTracker_sums)
  have 6: "last24HoursCost (script_updateTodayStats testPlatform 1705401000000 windowTracker)
       = ''1.25''"
    using a unfolding 5
    by (simp add: round_cost_day roundHalfUp_def showFixed_def showNat.simps)
  have t: "entryTime testPlatform
      (sampleEntry 2 (double 0.2) ''joint'' ''2024-01-15T10:30:00.000Z'')
     = Some (1705401000000 - 86400000)"
    by (simp add: sampleEntry_fields sampleDates_def)
  show ?thesis
    using t eqI [OF 1 2 3] eqI [OF 4 5 6] by simp
qed

text \<open>
  C2 as stated fails for \<^verbatim>\<open>script.js\<close>: on 16 January at 10:30 the entry of 15 January at
  10:30 lies in the last 24 hours, so the window holds two entries, and \<^verbatim>\<open>script.js\<close>
  counts the one entry of 16 January.
\<close>

theorem today_aggregate_calendar_day_counterexample:
  "length (filter (inLast24Hours testPlatform 1705401000000) (entries windowTracker)) = 2
   \<and> last24HoursCount (script_updateTodayStats testPlatform 1705401000000 windowTracker) = 1"
  by (simp add: script_updateTodayStats_eq windowTracker_window)

section \<open>Stash progress\<close>

lemma since_start_iff:
  "(\<lambda>entry. date_ge (entryTime pf entry) (Some start)) = sinceStart pf start"
proof
  fix e
  show "date_ge (entryTime pf e) (Some start) = sinceStart pf start e"
    by (cases "entryTime pf e") (simp_all add: sinceStart_def)
qed

lemma stash_prompt:
  assumes "field (goals t) ''goalType'' = JStr ''stash''"
    and "js_le0 (field (goals t) ''stashAmount'')"
  shows "updateGoalProgress pf now t =
         \<lparr>goalProgress = Fin 0, goalText = ''Set a stash goal to track your weed supply''\<rparr>"
  using assms by (simp add: updateGoalProgress_def updateStashProgress_def)

lemma positive_number: "num_lt (Fin 0) n \<Longrightarrow> truthy (JNum n) \<and> \<not> js_le0 (JNum n)"
  by (cases n) (auto simp: num_le_def)

lemma stash_computed:
  assumes stash: "field (goals t) ''goalType'' = JStr ''stash''"
    and amount: "field (goals t) ''stashAmount'' = JNum s" "num_lt (Fin 0) s"
    and start: "field (goals t) ''stashStartDate'' = JNull \<and> start = now
                \<or> truthy (field (goals t) ''stashStartDate'')
                  \<and> newDate pf (field (goals t) ''stashStartDate'') = Inr (Some start)"
    and total: "totalUsed = jsSum (map amountOf (filter (sinceStart pf start) (entries t)))"
    and left: "remaining = num_sub s totalUsed"
  shows "goalProgress (updateGoalProgress pf now t)
           = num_min (num_mul (num_div totalUsed s) (Fin 100)) (Fin 100)
         \<and> goalText (updateGoalProgress pf now t) =
             (if num_lt (Fin 0) remaining then toFixed pf 1 remaining @ ''g left in stash''
              else ''Stash depleted by '' @ toFixed pf 1 (num_abs remaining) @ ''g'')"
proof -
  have g: "truthy (field (goals t) ''stashAmount'')" "\<not> js_le0 (field (goals t) ''stashAmount'')"
    using positive_number [OF amount(2)] by (simp_all add: amount(1))
  have st: "(if truthy (field (goals t) ''stashStartDate'')
             then (case newDate pf (field (goals t) ''stashStartDate'') of
                     Inl e \<Rightarrow> None | Inr date \<Rightarrow> date)
             else Some now) = Some start"
    using start by auto
  have u: "updateGoalProgress pf now t = updateStashProgress pf now t"
    using stash by (simp add: updateGoalProgress_def)
  show ?thesis
    unfolding u updateStashProgress_def Let_def
    using g by (simp add: st since_start_iff sumAmounts_jsSum amount(1) total left)
qed

lemma stash_digits:
  assumes "goalText p =
             (if num_lt (Fin 0) (Fin r) then toFixed pf 1 (Fin r) @ ''g left in stash''
              else ''Stash depleted by '' @ toFixed pf 1 (num_abs (Fin r)) @ ''g'')"
    and "\<bar>r\<bar> < 10 ^ 21"
  shows "\<exists>tenths. \<bar>real tenths / 10 - \<bar>r\<bar>\<bar> \<le> 1 / 20
           \<and> goalText p =
               (if 0 < r then oneDecimal tenths @ ''g left in stash''
                else ''Stash depleted by '' @ oneDecimal tenths @ ''g'')"
proof -
  obtain tenths where t: "toFixed pf 1 (Fin \<bar>r\<bar>) = oneDecimal tenths"
      "\<bar>real tenths / 10 - \<bar>r\<bar>\<bar> \<le> 1 / 20"
    using toFixed_one [of "\<bar>r\<bar>" pf] assms(2) by auto
  show ?thesis
  proof (cases "0 < r")
    case True
    then have "goalText p = oneDecimal tenths @ ''g left in stash''"
      using assms(1) t(1) by simp
    with True t(2) show ?thesis
      by auto
  next
    case False
    then have "goalText p = ''Stash depleted by '' @ oneDecimal tenths @ ''g''"
      using assms(1) t(1) by simp
    with False t(2) show ?thesis
      by auto
  qed
qed

text \<open>
  C6. With a goal of type stash: when the stash amount is a number at most 0, the
  progress is 0 and the text asks to set a stash goal. When it is a number above 0 and
  the amounts are numbers, the total used is the sum of the amounts of the entries whose
  time is at or after the start of the stash (the time of \<^verbatim>\<open>stashStartDate\<close>, or \<open>now\<close>
  when that is null), what remains is the stash amount minus the total used, the progress
  is the smaller of total used / stash amount * 100 and 100, and the text is what remains
  followed by "g left in stash" when more than 0 remains, and otherwise "Stash depleted
  by", the absolute value of what remains and "g". The number in the text has one
  decimal: below \<open>10^21\<close> it is the nearest number of tenths.
\<close>

theorem stash_progress:
  assumes "field (goals t) ''goalType'' = JStr ''stash''"
  shows "(js_le0 (field (goals t) ''stashAmount'') \<longrightarrow>
            updateGoalProgress pf now t =
              \<lparr>goalProgress = Fin 0,
               goalText = ''Set a stash goal to track your weed supply''\<rparr>)
         \<and> (field (goals t) ''stashAmount'' = JNum s \<and> num_lt (Fin 0) s
            \<and> (\<forall>e\<in>set (entries t). \<exists>a. field e ''amount'' = JNum a)
            \<and> (field (goals t) ''stashStartDate'' = JNull \<and> start = now
                \<or> truthy (field (goals t) ''stashStartDate'')
                  \<and> newDate pf (field (goals t) ''stashStartDate'') = Inr (Some start))
            \<and> totalUsed = jsSum (map amountOf (filter (sinceStart pf start) (entries t)))
            \<and> remaining = num_sub s totalUsed
            \<longrightarrow>
            goalProgress (updateGoalProgress pf now t)
              = num_min (num_mul (num_div totalUsed s) (Fin 100)) (Fin 100)
            \<and> goalText (updateGoalProgress pf now t) =
                (if num_lt (Fin 0) remaining then toFixed pf 1 remaining @ ''g left in stash''
                 else ''Stash depleted by '' @ toFixed pf 1 (num_abs remaining) @ ''g'')
            \<and> (\<forall>r. remaining = Fin r \<and> \<bar>r\<bar> < 10 ^ 21 \<longrightarrow>
                 (\<exists>tenths. \<bar>real tenths / 10 - \<bar>r\<bar>\<bar> \<le> 1 / 20
                    \<and> goalText (updateGoalProgress pf now t) =
                        (if 0 < r then oneDecimal tenths @ ''g left in stash''
                         else ''Stash depleted by '' @ oneDecimal tenths @ ''g''))))"
proof (intro conjI impI)
  assume "js_le0 (field (goals t) ''stashAmount'')"
  with assms show "updateGoalProgress pf now t =
              \<lparr>goalProgress = Fin 0,
               goalText = ''Set a stash goal to track your weed supply''\<rparr>"
    by (rule stash_prompt)
next
  assume a: "field (goals t) ''stashAmount'' = JNum s \<and> num_lt (Fin 0) s
            \<and> (\<forall>e\<in>set (entries t). \<exists>a. field e ''amount'' = JNum a)
            \<and> (field (goals t) ''stashStartDate'' = JNull \<and> start = now
                \<or> truthy (field (goals t) ''stashStartDate'')
                  \<and> newDate pf (field (goals t) ''stashStartDate'') = Inr (Some start))
            \<and> totalUsed = jsSum (map amountOf (filter (sinceStart pf start) (entries t)))
            \<and> remaining = num_sub s totalUsed"
  then have c: "goalProgress (updateGoalProgress pf now t)
           = num_min (num_mul (num_div totalUsed s) (Fin 100)) (Fin 100)
         \<and> goalText (updateGoalProgress pf now t) =
             (if num_lt (Fin 0) remaining then toFixed pf 1 remaining @ ''g left in stash''
              else ''Stash depleted by '' @ toFixed pf 1 (num_abs remaining) @ ''g'')"
    by (intro stash_computed [OF assms]) simp_all
  from c show "goalProgress (updateGoalProgress pf now t)
              = num_min (num_mul (num_div totalUsed s) (Fin 100)) (Fin 100)"
    by simp
  from c show "goalText (updateGoalProgress pf now t) =
                (if num_lt (Fin 0) remaining then toFixed pf 1 remaining @ ''g left in stash''
                 else ''Stash depleted by '' @ toFixed pf 1 (num_abs remaining) @ ''g'')"
    by simp
  show "\<forall>r. remaining = Fin r \<and> \<bar>r\<bar> < 10 ^ 21 \<longrightarrow>
                 (\<exists>tenths. \<bar>real tenths / 10 - \<bar>r\<bar>\<bar> \<le> 1 / 20
                    \<and> goalText (updateGoalProgress pf now t) =
                        (if 0 < r then oneDecimal tenths @ ''g left in stash''
                         else ''Stash depleted by '' @ oneDecimal tenths @ ''g''))"
  proof (intro allI impI)
    fix r
    assume r: "remaining = Fin r \<and> \<bar>r\<bar> < 10 ^ 21"
    with c have "goalText (updateGoalProgress pf now t) =
             (if num_lt (Fin 0) (Fin r) then toFixed pf 1 (Fin r) @ ''g left in stash''
              else ''Stash depleted by '' @ toFixed pf 1 (num_abs (Fin r)) @ ''g'')"
      by simp
    then show "\<exists>tenths. \<bar>real tenths / 10 - \<bar>r\<bar>\<bar> \<le> 1 / 20
                    \<and> goalText (updateGoalProgress pf now t) =
                        (if 0 < r then oneDecimal tenths @ ''g left in stash''
                         else ''Stash depleted by '' @ oneDecimal tenths @ ''g'')"
      using r by (intro stash_digits) simp_all
  qed
qed

text \<open>The roundings that occur in the examples.\<close>

lemma round_tenth_literal: "roundDouble (1 / 10) = Fin (3602879701896397 / 36028797018963968)"
proof -
  have u: "ulpExp (1 / 10) = - 56"
    by (rule ulpExp_eq) simp_all
  have e: "roundEven ((1 / 10) / 2 powi (- 56)) = 7205759403792794"
    by (simp add: roundEven_def)
  show ?thesis
    using roundDouble_eval [OF u e] by simp
qed

lemma round_three_tenths_literal: "roundDouble (3 / 10) = Fin (5404319552844595 / 18014398509481984)"
proof -
  have u: "ulpExp (3 / 10) = - 54"
    by (rule ulpExp_eq) simp_all
  have e: "roundEven ((3 / 10) / 2 powi (- 54)) = 5404319552844595"
    by (simp add: roundEven_def)
  show ?thesis
    using roundDouble_eval [OF u e] by simp
qed

lemma round_two_fifths_literal: "roundDouble (2 / 5) = Fin (3602879701896397 / 9007199254740992)"
proof -
  have u: "ulpExp (2 / 5) = - 54"
    by (rule ulpExp_eq) simp_all
  have e: "roundEven ((2 / 5) / 2 powi (- 54)) = 7205759403792794"
    by (simp add: roundEven_def)
  show ?thesis
    using roundDouble_eval [OF u e] by simp
qed

lemma round_whole_ratio: "roundDouble (6 / 5) = Fin (5404319552844595 / 4503599627370496)"
proof -
  have u: "ulpExp (6 / 5) = - 52"
    by (rule ulpExp_eq) simp_all
  have e: "roundEven ((6 / 5) / 2 powi (- 52)) = 5404319552844595"
    by (simp add: roundEven_def)
  show ?thesis
    using roundDouble_eval [OF u e] by simp
qed

lemma round_whole_percent: "roundDouble (135107988821114875 / 1125899906842624) = Fin 120"
proof -
  have u: "ulpExp (135107988821114875 / 1125899906842624) = - 46"
    by (rule ulpExp_eq) simp_all
  have e: "roundEven ((135107988821114875 / 1125899906842624) / 2 powi (- 46)) = 8444249301319680"
    by (simp add: roundEven_def)
  show ?thesis
    using roundDouble_eval [OF u e] by simp
qed

lemma round_twenty_ratio: "roundDouble (3 / 5) = Fin (5404319552844595 / 9007199254740992)"
proof -
  have u: "ulpExp (3 / 5) = - 53"
    by (rule ulpExp_eq) simp_all
  have e: "roundEven ((3 / 5) / 2 powi (- 53)) = 5404319552844595"
    by (simp add: roundEven_def)
  show ?thesis
    using roundDouble_eval [OF u e] by simp
qed

lemma round_twenty_percent: "roundDouble (135107988821114875 / 2251799813685248) = Fin 60"
proof -
  have u: "ulpExp (135107988821114875 / 2251799813685248) = - 47"
    by (rule ulpExp_eq) simp_all
  have e: "roundEven ((135107988821114875 / 2251799813685248) / 2 powi (- 47)) = 8444249301319680"
    by (simp add: roundEven_def)
  show ?thesis
    using roundDouble_eval [OF u e] by simp
qed

lemma round_seven_ratio: "roundDouble (7 / 10) = Fin (3152519739159347 / 4503599627370496)"
proof -
  have u: "ulpExp (7 / 10) = - 53"
    by (rule ulpExp_eq) simp_all
  have e: "roundEven ((7 / 10) / 2 powi (- 53)) = 6305039478318694"
    by (simp add: roundEven_def)
  show ?thesis
    using roundDouble_eval [OF u e] by simp
qed

lemma round_seven_percent: "roundDouble (78812993478983675 / 1125899906842624) = Fin 70"
proof -
  have u: "ulpExp (78812993478983675 / 1125899906842624) = - 46"
    by (rule ulpExp_eq) simp_all
  have e: "roundEven ((78812993478983675 / 1125899906842624) / 2 powi (- 46)) = 4925812092436480"
    by (simp add: roundEven_def)
  show ?thesis
    using roundDouble_eval [OF u e] by simp
qed

lemma round_tenths_sum0: "roundDouble (5404319552844595 / 18014398509481984) = Fin (5404319552844595 / 18014398509481984)"
proof -
  have u: "ulpExp (5404319552844595 / 18014398509481984) = - 54"
    by (rule ulpExp_eq) simp_all
  have e: "roundEven ((5404319552844595 / 18014398509481984) / 2 powi (- 54)) = 5404319552844595"
    by (simp add: roundEven_def)
  show ?thesis
    using roundDouble_eval [OF u e] by simp
qed

lemma round_tenths_sum1: "roundDouble (14411518807585587 / 36028797018963968) = Fin (3602879701896397 / 9007199254740992)"
proof -
  have u: "ulpExp (14411518807585587 / 36028797018963968) = - 54"
    by (rule ulpExp_eq) simp_all
  have e: "roundEven ((14411518807585587 / 36028797018963968) / 2 powi (- 54)) = 7205759403792794"
    by (simp add: roundEven_def)
  show ?thesis
    using roundDouble_eval [OF u e] by simp
qed

lemma round_mixed_sum1: "roundDouble (14411518807585587 / 18014398509481984) = Fin (3602879701896397 / 4503599627370496)"
proof -
  have u: "ulpExp (14411518807585587 / 18014398509481984) = - 53"
    by (rule ulpExp_eq) simp_all
  have e: "roundEven ((14411518807585587 / 18014398509481984) / 2 powi (- 53)) = 7205759403792794"
    by (simp add: roundEven_def)
  show ?thesis
    using roundDouble_eval [OF u e] by simp
qed

lemma round_mixed_left: "roundDouble (41433116571808563 / 4503599627370496) = Fin (2589569785738035 / 281474976710656)"
proof -
  have u: "ulpExp (41433116571808563 / 4503599627370496) = - 49"
    by (rule ulpExp_eq) simp_all
  have e: "roundEven ((41433116571808563 / 4503599627370496) / 2 powi (- 49)) = 5179139571476070"
    by (simp add: roundEven_def)
  show ?thesis
    using roundDouble_eval [OF u e] by simp
qed

lemma round_mixed_ratio: "roundDouble (3602879701896397 / 45035996273704960) = Fin (5764607523034235 / 72057594037927936)"
proof -
  have u: "ulpExp (3602879701896397 / 45035996273704960) = - 56"
    by (rule ulpExp_eq) simp_all
  have e: "roundEven ((3602879701896397 / 45035996273704960) / 2 powi (- 56)) = 5764607523034235"
    by (simp add: roundEven_def)
  show ?thesis
    using roundDouble_eval [OF u e] by simp
qed

lemma round_mixed_percent: "roundDouble (144115188075855875 / 18014398509481984) = Fin 8"
proof -
  have u: "ulpExp (144115188075855875 / 18014398509481984) = - 49"
    by (rule ulpExp_eq) simp_all
  have e: "roundEven ((144115188075855875 / 18014398509481984) / 2 powi (- 49)) = 4503599627370496"
    by (simp add: roundEven_def)
  show ?thesis
    using roundDouble_eval [OF u e] by simp
qed

lemma round_quarter_sum0: "roundDouble (3 / 4) = Fin (3 / 4)"
proof -
  have u: "ulpExp (3 / 4) = - 53"
    by (rule ulpExp_eq) simp_all
  have e: "roundEven ((3 / 4) / 2 powi (- 53)) = 6755399441055744"
    by (simp add: roundEven_def)
  show ?thesis
    using roundDouble_eval [OF u e] by simp
qed

lemma round_quarter_left: "roundDouble (1 / 4) = Fin (1 / 4)"
proof -
  have u: "ulpExp (1 / 4) = - 54"
    by (rule ulpExp_eq) simp_all
  have e: "roundEven ((1 / 4) / 2 powi (- 54)) = 4503599627370496"
    by (simp add: roundEven_def)
  show ?thesis
    using roundDouble_eval [OF u e] by simp
qed

lemmas rounds = round_tenth_literal round_three_tenths_literal round_two_fifths_literal round_whole_ratio round_whole_percent round_twenty_ratio round_twenty_percent round_seven_ratio round_seven_percent round_tenths_sum0 round_tenths_sum1 round_mixed_sum1 round_mixed_left round_mixed_ratio round_mixed_percent round_quarter_sum0 round_quarter_left

lemma more_double_literals:
  "double (3 / 10) = 5404319552844595 / 18014398509481984"
  "double (2 / 5) = 3602879701896397 / 9007199254740992"
  by (simp_all add: double_def rounds)

lemma stashTracker_fields:
  "field (goals (stashTracker es amount st)) ''goalType'' = JStr ''stash''"
  "field (goals (stashTracker es amount st)) ''stashAmount'' = JNum amount"
  "field (goals (stashTracker es amount st)) ''stashStartDate'' = st"
  "entries (stashTracker es amount st) = es"
  by (simp_all add: stashTracker_def stashGoals_def field_JObj5)

lemma entryInfiniteAmount_fields:
  "field entryInfiniteAmount ''amount'' = JNum PosInf"
  "amountOf entryInfiniteAmount = PosInf"
  "entryTime testPlatform entryInfiniteAmount = Some 1705314600000"
  by (simp_all add: entryInfiniteAmount_def field_JObj4 amountOf_def entryTime_def
      testPlatform_def testDate_def sampleDates_def)

lemma stash_numbers:
  "\<forall>e\<in>set stashEntries. \<exists>a. field e ''amount'' = JNum a"
  "\<forall>e\<in>set tenthsEntries. \<exists>a. field e ''amount'' = JNum a"
  "\<forall>e\<in>set mixedEntries. \<exists>a. field e ''amount'' = JNum a"
  "\<forall>e\<in>set quarterEntries. \<exists>a. field e ''amount'' = JNum a"
  "\<forall>e\<in>set infiniteEntries. \<exists>a. field e ''amount'' = JNum a"
  by (simp_all add: stashEntries_def tenthsEntries_def mixedEntries_def quarterEntries_def
      infiniteEntries_def sampleEntry_fields entryInfiniteAmount_fields)

lemma stash_since:
  "map amountOf (filter (sinceStart testPlatform 1705222800000) stashEntries) = [Fin 7, Fin 5]"
  "map amountOf (filter (sinceStart testPlatform 1705300000000) stashEntries) = [Fin 7]"
  "map amountOf (filter (sinceStart testPlatform 1705222800000) tenthsEntries)
     = [Fin (5404319552844595 / 18014398509481984), Fin (3602879701896397 / 36028797018963968)]"
  "map amountOf (filter (sinceStart testPlatform 1705222800000) mixedEntries)
     = [Fin (5404319552844595 / 18014398509481984), Fin (1 / 2)]"
  "map amountOf (filter (sinceStart testPlatform 1705222800000) quarterEntries) = [Fin (3 / 4)]"
  "map amountOf (filter (sinceStart testPlatform 1705222800000) infiniteEntries) = [PosInf]"
  by (simp_all add: stashEntries_def tenthsEntries_def mixedEntries_def quarterEntries_def
      infiniteEntries_def sinceStart_def sampleEntry_fields entryInfiniteAmount_fields sampleDates_def
      double_literals more_double_literals)

lemma stash_sums:
  "jsSum [Fin 7, Fin 5] = Fin 12"
  "jsSum [Fin 7] = Fin 7"
  "jsSum [Fin (5404319552844595 / 18014398509481984), Fin (3602879701896397 / 36028797018963968)]
     = Fin (3602879701896397 / 9007199254740992)"
  "jsSum [Fin (5404319552844595 / 18014398509481984), Fin (1 / 2)]
     = Fin (3602879701896397 / 4503599627370496)"
  "jsSum [Fin (3 / 4)] = Fin (3 / 4)"
  "jsSum [PosInf] = PosInf"
  by (simp_all add: jsSum_def rounds roundDouble_numeral)

theorem stash_progress_witness:
  "updateGoalProgress testPlatform 1705487400000
      (stashTracker stashEntries (Fin 10) (JStr ''2024-01-14T09:00:00.000Z''))
     = \<lparr>goalProgress = Fin 100, goalText = ''Stash depleted by 2.0g''\<rparr>
   \<and> updateGoalProgress testPlatform 1705487400000
      (stashTracker stashEntries (Fin 20) (JStr ''2024-01-14T09:00:00.000Z''))
     = \<lparr>goalProgress = Fin 60, goalText = ''8.0g left in stash''\<rparr>
   \<and> updateGoalProgress testPlatform 1705300000000
      (stashTracker stashEntries (Fin 10) JNull)
     = \<lparr>goalProgress = Fin 70, goalText = ''3.0g left in stash''\<rparr>
   \<and> updateGoalProgress testPlatform 1705487400000 (stashTracker stashEntries (Fin 0) JNull)
     = \<lparr>goalProgress = Fin 0, goalText = ''Set a stash goal to track your weed supply''\<rparr>
   \<and> updateGoalProgress testPlatform 1705487400000
      (stashTracker tenthsEntries (Fin (double 0.4)) (JStr ''2024-01-14T09:00:00.000Z''))
     = \<lparr>goalProgress = Fin 100, goalText = ''Stash depleted by 0.0g''\<rparr>
   \<and> updateGoalProgress testPlatform 1705487400000
      (stashTracker mixedEntries (Fin 10) (JStr ''2024-01-14T09:00:00.000Z''))
     = \<lparr>goalProgress = Fin 8, goalText = ''9.2g left in stash''\<rparr>
   \<and> updateGoalProgress testPlatform 1705487400000
      (stashTracker quarterEntries (Fin 1) (JStr ''2024-01-14T09:00:00.000Z''))
     = \<lparr>goalProgress = Fin 75, goalText = ''0.3g left in stash''\<rparr>
   \<and> updateGoalProgress testPlatform 1705487400000
      (stashTracker infiniteEntries (Fin 10) (JStr ''2024-01-14T09:00:00.000Z''))
     = \<lparr>goalProgress = Fin 100, goalText = ''Stash depleted by Infinityg''\<rparr>"
proof -
  have d: "newDate testPlatform (JStr ''2024-01-14T09:00:00.000Z'') = Inr (Some 1705222800000)"
    by (simp add: testPlatform_def testDate_def sampleDates_def)
  have eqI: "r = \<lparr>goalProgress = p, goalText = x\<rparr>" if "goalProgress r = p \<and> goalText r = x"
    for r :: progress and p x
    using that by (cases r) simp
  have c1: "updateGoalProgress testPlatform 1705487400000
        (stashTracker stashEntries (Fin 10) (JStr ''2024-01-14T09:00:00.000Z''))
       = \<lparr>goalProgress = Fin 100, goalText = ''Stash depleted by 2.0g''\<rparr>"
  proof -
    have h: "field (goals (stashTracker stashEntries (Fin 10) (JStr ''2024-01-14T09:00:00.000Z''))) ''stashAmount'' = JNum (Fin 10) \<and> num_lt (Fin 0) (Fin 10)
        \<and> (\<forall>e\<in>set (entries (stashTracker stashEntries (Fin 10) (JStr ''2024-01-14T09:00:00.000Z''))). \<exists>a. field e ''amount'' = JNum a)
        \<and> (field (goals (stashTracker stashEntries (Fin 10) (JStr ''2024-01-14T09:00:00.000Z''))) ''stashStartDate'' = JNull \<and> 1705222800000 = 1705487400000
            \<or> truthy (field (goals (stashTracker stashEntries (Fin 10) (JStr ''2024-01-14T09:00:00.000Z''))) ''stashStartDate'')
              \<and> newDate testPlatform (field (goals (stashTracker stashEntries (Fin 10) (JStr ''2024-01-14T09:00:00.000Z''))) ''stashStartDate'')
                  = Inr (Some 1705222800000))
        \<and> Fin 12 = jsSum (map amountOf (filter (sinceStart testPlatform 1705222800000) (entries (stashTracker stashEntries (Fin 10) (JStr ''2024-01-14T09:00:00.000Z'')))))
        \<and> Fin (- 2) = num_sub (Fin 10) (Fin 12)"
      by (simp add: stashTracker_fields stash_numbers stash_since stash_sums d num_sub_def
          double_literals more_double_literals rounds roundDouble_numeral roundDouble_neg_numeral
          roundDouble_zero roundDouble_one)
    note r = stash_progress [where t = "stashTracker stashEntries (Fin 10) (JStr ''2024-01-14T09:00:00.000Z'')"
        and s = "Fin 10" and start = 1705222800000 and now = 1705487400000 and pf = testPlatform
        and totalUsed = "Fin 12" and remaining = "Fin (- 2)",
        OF stashTracker_fields(1), THEN conjunct2, THEN mp, OF h]
    show ?thesis
      using r
      by (intro eqI)
         (simp add: num_min_def num_signed_inf_def rounds roundDouble_numeral
            roundDouble_neg_numeral roundDouble_zero roundDouble_one roundHalfUp_def
            showFixed_def showNat.simps)
  qed
  have c2: "updateGoalProgress testPlatform 1705487400000
        (stashTracker stashEntries (Fin 20) (JStr ''2024-01-14T09:00:00.000Z''))
       = \<lparr>goalProgress = Fin 60, goalText = ''8.0g left in stash''\<rparr>"
  proof -
    have h: "field (goals (stashTracker stashEntries (Fin 20) (JStr ''2024-01-14T09:00:00.000Z''))) ''stashAmount'' = JNum (Fin 20) \<and> num_lt (Fin 0) (Fin 20)
        \<and> (\<forall>e\<in>set (entries (stashTracker stashEntries (Fin 20) (JStr ''2024-01-14T09:00:00.000Z''))). \<exists>a. field e ''amount'' = JNum a)
        \<and> (field (goals (stashTracker stashEntries (Fin 20) (JStr ''2024-01-14T09:00:00.000Z''))) ''stashStartDate'' = JNull \<and> 1705222800000 = 1705487400000
            \<or> truthy (field (goals (stashTracker stashEntries (Fin 20) (JStr ''2024-01-14T09:00:00.000Z''))) ''stashStartDate'')
              \<and> newDate testPlatform (field (goals (stashTracker stashEntries (Fin 20) (JStr ''2024-01-14T09:00:00.000Z''))) ''stashStartDate'')
                  = Inr (Some 1705222800000))
        \<and> Fin 12 = jsSum (map amountOf (filter (sinceStart testPlatform 1705222800000) (entries (stashTracker stashEntries (Fin 20) (JStr ''2024-01-14T09:00:00.000Z'')))))
        \<and> Fin 8 = num_sub (Fin 20) (Fin 12)"
      by (simp add: stashTracker_fields stash_numbers stash_since stash_sums d num_sub_def
          double_literals more_double_literals rounds roundDouble_numeral roundDouble_neg_numeral
          roundDouble_zero roundDouble_one)
    note r = stash_progress [where t = "stashTracker stashEntries (Fin 20) (JStr ''2024-01-14T09:00:00.000Z'')"
        and s = "Fin 20" and start = 1705222800000 and now = 1705487400000 and pf = testPlatform
        and totalUsed = "Fin 12" and remaining = "Fin 8",
        OF stashTracker_fields(1), THEN conjunct2, THEN mp, OF h]
    show ?thesis
      using r
      by (intro eqI)
         (simp add: num_min_def num_signed_inf_def rounds roundDouble_numeral
            roundDouble_neg_numeral roundDouble_zero roundDouble_one roundHalfUp_def
            showFixed_def showNat.simps)
  qed
  have c3: "updateGoalProgress testPlatform 1705300000000
        (stashTracker stashEntries (Fin 10) JNull)
       = \<lparr>goalProgress = Fin 70, goalText = ''3.0g left in stash''\<rparr>"
  proof -
    have h: "field (goals (stashTracker stashEntries (Fin 10) JNull)) ''stashAmount'' = JNum (Fin 10) \<and> num_lt (Fin 0) (Fin 10)
        \<and> (\<forall>e\<in>set (entries (stashTracker stashEntries (Fin 10) JNull)). \<exists>a. field e ''amount'' = JNum a)
        \<and> (field (goals (stashTracker stashEntries (Fin 10) JNull)) ''stashStartDate'' = JNull \<and> 1705300000000 = 1705300000000
            \<or> truthy (field (goals (stashTracker stashEntries (Fin 10) JNull)) ''stashStartDate'')
              \<and> newDate testPlatform (field (goals (stashTracker stashEntries (Fin 10) JNull)) ''stashStartDate'')
                  = Inr (Some 1705300000000))
        \<and> Fin 7 = jsSum (map amountOf (filter (sinceStart testPlatform 1705300000000) (entries (stashTracker stashEntries (Fin 10) JNull))))
        \<and> Fin 3 = num_sub (Fin 10) (Fin 7)"
      by (simp add: stashTracker_fields stash_numbers stash_since stash_sums d num_sub_def
          double_literals more_double_literals rounds roundDouble_numeral roundDouble_neg_numeral
          roundDouble_zero roundDouble_one)
    note r = stash_progress [where t = "stashTracker stashEntries (Fin 10) JNull"
        and s = "Fin 10" and start = 1705300000000 and now = 1705300000000 and pf = testPlatform
        and totalUsed = "Fin 7" and remaining = "Fin 3",
        OF stashTracker_fields(1), THEN conjunct2, THEN mp, OF h]
    show ?thesis
      using r
      by (intro eqI)
         (simp add: num_min_def num_signed_inf_def rounds roundDouble_numeral
            roundDouble_neg_numeral roundDouble_zero roundDouble_one roundHalfUp_def
            showFixed_def showNat.simps)
  qed
  have c5: "updateGoalProgress testPlatform 1705487400000
        (stashTracker tenthsEntries (Fin (double 0.4)) (JStr ''2024-01-14T09:00:00.000Z''))
       = \<lparr>goalProgress = Fin 100, goalText = ''Stash depleted by 0.0g''\<rparr>"
  proof -
    have h: "field (goals (stashTracker tenthsEntries (Fin (double 0.4)) (JStr ''2024-01-14T09:00:00.000Z''))) ''stashAmount'' = JNum (Fin (3602879701896397 / 9007199254740992)) \<and> num_lt (Fin 0) (Fin (3602879701896397 / 9007199254740992))
        \<and> (\<forall>e\<in>set (entries (stashTracker tenthsEntries (Fin (double 0.4)) (JStr ''2024-01-14T09:00:00.000Z''))). \<exists>a. field e ''amount'' = JNum a)
        \<and> (field (goals (stashTracker tenthsEntries (Fin (double 0.4)) (JStr ''2024-01-14T09:00:00.000Z''))) ''stashStartDate'' = JNull \<and> 1705222800000 = 1705487400000
            \<or> truthy (field (goals (stashTracker tenthsEntries (Fin (double 0.4)) (JStr ''2024-01-14T09:00:00.000Z''))) ''stashStartDate'')
              \<and> newDate testPlatform (field (goals (stashTracker tenthsEntries (Fin (double 0.4)) (JStr ''2024-01-14T09:00:00.000Z''))) ''stashStartDate'')
                  = Inr (Some 1705222800000))
        \<and> Fin (3602879701896397 / 9007199254740992) = jsSum (map amountOf (filter (sinceStart testPlatform 1705222800000) (entries (stashTracker tenthsEntries (Fin (double 0.4)) (JStr ''2024-01-14T09:00:00.000Z'')))))
        \<and> Fin 0 = num_sub (Fin (3602879701896397 / 9007199254740992)) (Fin (3602879701896397 / 9007199254740992))"
      by (simp add: stashTracker_fields stash_numbers stash_since stash_sums d num_sub_def
          double_literals more_double_literals rounds roundDouble_numeral roundDouble_neg_numeral
          roundDouble_zero roundDouble_one)
    note r = stash_progress [where t = "stashTracker tenthsEntries (Fin (double 0.4)) (JStr ''2024-01-14T09:00:00.000Z'')"
        and s = "Fin (3602879701896397 / 9007199254740992)" and start = 1705222800000 and now = 1705487400000 and pf = testPlatform
        and totalUsed = "Fin (3602879701896397 / 9007199254740992)" and remaining = "Fin 0",
        OF stashTracker_fields(1), THEN conjunct2, THEN mp, OF h]
    show ?thesis
      using r
      by (intro eqI)
         (simp add: num_min_def num_signed_inf_def rounds roundDouble_numeral
            roundDouble_neg_numeral roundDouble_zero roundDouble_one roundHalfUp_def
            showFixed_def showNat.simps)
  qed
  have c6: "updateGoalProgress testPlatform 1705487400000
        (stashTracker mixedEntries (Fin 10) (JStr ''2024-01-14T09:00:00.000Z''))
       = \<lparr>goalProgress = Fin 8, goalText = ''9.2g left in stash''\<rparr>"
  proof -
    have h: "field (goals (stashTracker mixedEntries (Fin 10) (JStr ''2024-01-14T09:00:00.000Z''))) ''stashAmount'' = JNum (Fin 10) \<and> num_lt (Fin 0) (Fin 10)
        \<and> (\<forall>e\<in>set (entries (stashTracker mixedEntries (Fin 10) (JStr ''2024-01-14T09:00:00.000Z''))). \<exists>a. field e ''amount'' = JNum a)
        \<and> (field (goals (stashTracker mixedEntries (Fin 10) (JStr ''2024-01-14T09:00:00.000Z''))) ''stashStartDate'' = JNull \<and> 1705222800000 = 1705487400000
            \<or> truthy (field (goals (stashTracker mixedEntries (Fin 10) (JStr ''2024-01-14T09:00:00.000Z''))) ''stashStartDate'')
              \<and> newDate testPlatform (field (goals (stashTracker mixedEntries (Fin 10) (JStr ''2024-01-14T09:00:00.000Z''))) ''stashStartDate'')
                  = Inr (Some 1705222800000))
        \<and> Fin (3602879701896397 / 4503599627370496) = jsSum (map amountOf (filter (sinceStart testPlatform 1705222800000) (entries (stashTracker mixedEntries (Fin 10) (JStr ''2024-01-14T09:00:00.000Z'')))))
        \<and> Fin (2589569785738035 / 281474976710656) = num_sub (Fin 10) (Fin (3602879701896397 / 4503599627370496))"
      by (simp add: stashTracker_fields stash_numbers stash_since stash_sums d num_sub_def
          double_literals more_double_literals rounds roundDouble_numeral roundDouble_neg_numeral
          roundDouble_zero roundDouble_one)
    note r = stash_progress [where t = "stashTracker mixedEntries (Fin 10) (JStr ''2024-01-14T09:00:00.000Z'')"
        and s = "Fin 10" and start = 1705222800000 and now = 1705487400000 and pf = testPlatform
        and totalUsed = "Fin (3602879701896397 / 4503599627370496)" and remaining = "Fin (2589569785738035 / 281474976710656)",
        OF stashTracker_fields(1), THEN conjunct2, THEN mp, OF h]
    show ?thesis
      using r
      by (intro eqI)
         (simp add: num_min_def num_signed_inf_def rounds roundDouble_numeral
            roundDouble_neg_numeral roundDouble_zero roundDouble_one roundHalfUp_def
            showFixed_def showNat.simps)
  qed
  have c7: "updateGoalProgress testPlatform 1705487400000
        (stashTracker quarterEntries (Fin 1) (JStr ''2024-01-14T09:00:00.000Z''))
       = \<lparr>goalProgress = Fin 75, goalText = ''0.3g left in stash''\<rparr>"
  proof -
    have h: "field (goals (stashTracker quarterEntries (Fin 1) (JStr ''2024-01-14T09:00:00.000Z''))) ''stashAmount'' = JNum (Fin 1) \<and> num_lt (Fin 0) (Fin 1)
        \<and> (\<forall>e\<in>set (entries (stashTracker quarterEntries (Fin 1) (JStr ''2024-01-14T09:00:00.000Z''))). \<exists>a. field e ''amount'' = JNum a)
        \<and> (field (goals (stashTracker quarterEntries (Fin 1) (JStr ''2024-01-14T09:00:00.000Z''))) ''stashStartDate'' = JNull \<and> 1705222800000 = 1705487400000
            \<or> truthy (field (goals (stashTracker quarterEntries (Fin 1) (JStr ''2024-01-14T09:00:00.000Z''))) ''stashStartDate'')
              \<and> newDate testPlatform (field (goals (stashTracker quarterEntries (Fin 1) (JStr ''2024-01-14T09:00:00.000Z''))) ''stashStartDate'')
                  = Inr (Some 1705222800000))
        \<and> Fin (3 / 4) = jsSum (map amountOf (filter (sinceStart testPlatform 1705222800000) (entries (stashTracker quarterEntries (Fin 1) (JStr ''2024-01-14T09:00:00.000Z'')))))
        \<and> Fin (1 / 4) = num_sub (Fin 1) (Fin (3 / 4))"
      by (simp add: stashTracker_fields stash_numbers stash_since stash_sums d num_sub_def
          double_literals more_double_literals rounds roundDouble_numeral roundDouble_neg_numeral
          roundDouble_zero roundDouble_one)
    note r = stash_progress [where t = "stashTracker quarterEntries (Fin 1) (JStr ''2024-01-14T09:00:00.000Z'')"
        and s = "Fin 1" and start = 1705222800000 and now = 1705487400000 and pf = testPlatform
        and totalUsed = "Fin (3 / 4)" and remaining = "Fin (1 / 4)",
        OF stashTracker_fields(1), THEN conjunct2, THEN mp, OF h]
    show ?thesis
      using r
      by (intro eqI)
         (simp add: num_min_def num_signed_inf_def rounds roundDouble_numeral
            roundDouble_neg_numeral roundDouble_zero roundDouble_one roundHalfUp_def
            showFixed_def showNat.simps)
  qed
  have c8: "updateGoalProgress testPlatform 1705487400000
        (stashTracker infiniteEntries (Fin 10) (JStr ''2024-01-14T09:00:00.000Z''))
       = \<lparr>goalProgress = Fin 100, goalText = ''Stash depleted by Infinityg''\<rparr>"
  proof -
    have h: "field (goals (stashTracker infiniteEntries (Fin 10) (JStr ''2024-01-14T09:00:00.000Z''))) ''stashAmount'' = JNum (Fin 10) \<and> num_lt (Fin 0) (Fin 10)
        \<and> (\<forall>e\<in>set (entries (stashTracker infiniteEntries (Fin 10) (JStr ''2024-01-14T09:00:00.000Z''))). \<exists>a. field e ''amount'' = JNum a)
        \<and> (field (goals (stashTracker infiniteEntries (Fin 10) (JStr ''2024-01-14T09:00:00.000Z''))) ''stashStartDate'' = JNull \<and> 1705222800000 = 1705487400000
            \<or> truthy (field (goals (stashTracker infiniteEntries (Fin 10) (JStr ''2024-01-14T09:00:00.000Z''))) ''stashStartDate'')
              \<and> newDate testPlatform (field (goals (stashTracker infiniteEntries (Fin 10) (JStr ''2024-01-14T09:00:00.000Z''))) ''stashStartDate'')
                  = Inr (Some 1705222800000))
        \<and> PosInf = jsSum (map amountOf (filter (sinceStart testPlatform 1705222800000) (entries (stashTracker infiniteEntries (Fin 10) (JStr ''2024-01-14T09:00:00.000Z'')))))
        \<and> NegInf = num_sub (Fin 10) (PosInf)"
      by (simp add: stashTracker_fields stash_numbers stash_since stash_sums d num_sub_def
          double_literals more_double_literals rounds roundDouble_numeral roundDouble_neg_numeral
          roundDouble_zero roundDouble_one)
    note r = stash_progress [where t = "stashTracker infiniteEntries (Fin 10) (JStr ''2024-01-14T09:00:00.000Z'')"
        and s = "Fin 10" and start = 1705222800000 and now = 1705487400000 and pf = testPlatform
        and totalUsed = "PosInf" and remaining = "NegInf",
        OF stashTracker_fields(1), THEN conjunct2, THEN mp, OF h]
    show ?thesis
      using r
      by (intro eqI)
         (simp add: num_min_def num_signed_inf_def rounds roundDouble_numeral
            roundDouble_neg_numeral roundDouble_zero roundDouble_one roundHalfUp_def
            showFixed_def showNat.simps)
  qed
  have c4: "updateGoalProgress testPlatform 1705487400000 (stashTracker stashEntries (Fin 0) JNull)
       = \<lparr>goalProgress = Fin 0, goalText = ''Set a stash goal to track your weed supply''\<rparr>"
    using stash_progress [where t = "stashTracker stashEntries (Fin 0) JNull" and pf = testPlatform
        and now = 1705487400000]
    by (simp add: stashTracker_fields num_le_def)
  show ?thesis
    using c1 c2 c3 c4 c5 c6 c7 c8 by simp
qed

section \<open>Time since the last entry\<close>

lemma scanMostRecent_max:
  assumes "\<forall>e\<in>set es. entryTime pf e \<noteq> None" "entryTime pf m = Some mt"
  shows "\<exists>e t. scanMostRecent pf m (Some mt) es = (e, Some t)
           \<and> entryTime pf e = Some t
           \<and> (e = m \<or> e \<in> set es)
           \<and> mt \<le> t
           \<and> (\<forall>x\<in>set es. \<forall>tx. entryTime pf x = Some tx \<longrightarrow> tx \<le> t)"
  using assms
proof (induction es arbitrary: m mt)
  case Nil
  then show ?case by simp
next
  case (Cons x xs)
  from Cons.prems obtain tx where tx: "entryTime pf x = Some tx"
    by auto
  show ?case
  proof (cases "tx > mt")
    case True
    from Cons.IH [of x tx] Cons.prems tx
    obtain e t where r: "scanMostRecent pf x (Some tx) xs = (e, Some t)"
        "entryTime pf e = Some t" "e = x \<or> e \<in> set xs" "tx \<le> t"
        "\<forall>y\<in>set xs. \<forall>ty. entryTime pf y = Some ty \<longrightarrow> ty \<le> t"
      by auto
    with True tx show ?thesis
      by auto
  next
    case False
    from Cons.IH [of m mt] Cons.prems
    obtain e t where r: "scanMostRecent pf m (Some mt) xs = (e, Some t)"
        "entryTime pf e = Some t" "e = m \<or> e \<in> set xs" "mt \<le> t"
        "\<forall>y\<in>set xs. \<forall>ty. entryTime pf y = Some ty \<longrightarrow> ty \<le> t"
      by auto
    with False tx show ?thesis
      by auto
  qed
qed

lemma timeSince_nonempty:
  assumes "entries t \<noteq> []" "\<forall>e\<in>set (entries t). entryTime pf e \<noteq> None"
  shows "\<exists>e latest. e \<in> set (entries t) \<and> entryTime pf e = Some latest
           \<and> (\<forall>x\<in>set (entries t). \<forall>tx. entryTime pf x = Some tx \<longrightarrow> tx \<le> latest)
           \<and> scanMostRecent pf (hd (entries t)) (entryTime pf (hd (entries t))) (entries t)
               = (e, Some latest)"
proof -
  from assms(1) obtain first others where fo: "entries t = first # others"
    by (cases "entries t") auto
  with assms(2) obtain ft where ft: "entryTime pf first = Some ft"
    by auto
  from scanMostRecent_max [OF assms(2) ft]
  obtain e latest where r: "scanMostRecent pf first (Some ft) (entries t) = (e, Some latest)"
      "entryTime pf e = Some latest" "e = first \<or> e \<in> set (entries t)"
      "\<forall>x\<in>set (entries t). \<forall>tx. entryTime pf x = Some tx \<longrightarrow> tx \<le> latest"
    by blast
  then have "e \<in> set (entries t)"
    using fo by auto
  with r fo ft show ?thesis
    by auto
qed


lemma getMethodLabel_inherited:
  "getMethodLabel testPlatform (JStr ''joint'') = ''Joint''"
  "getMethodLabel testPlatform (JStr ''dab'') = ''dab''"
  "getMethodLabel testPlatform (JStr ''constructor'') = ''function Object() { [native code] }''"
  by (simp_all add: getMethodLabel_def methodMap_def testPlatform_def objectPrototype_def)

lemma round_days_per_month: "roundDouble (761 / 25) = Fin (8568098291072369 / 281474976710656)"
proof -
  have u: "ulpExp (761 / 25) = - 48"
    by (rule ulpExp_eq) simp_all
  have e: "roundEven ((761 / 25) / 2 powi (- 48)) = 8568098291072369"
    by (simp add: roundEven_def)
  show ?thesis
    using roundDouble_eval [OF u e] by simp
qed

lemma round_future_years: "roundDouble (- (8 / 1461)) = Fin (- (6313054097778765 / 1152921504606846976))"
proof -
  have u: "ulpExp (- (8 / 1461)) = - 60"
    by (rule ulpExp_eq) simp_all
  have e: "roundEven ((- (8 / 1461)) / 2 powi (- 60)) = - 6313054097778765"
    by (simp add: roundEven_def)
  show ?thesis
    using roundDouble_eval [OF u e] by simp
qed

lemma round_future_months: "roundDouble (- (562949953421312 / 8568098291072369)) = Fin (- (4734401710770561 / 72057594037927936))"
proof -
  have u: "ulpExp (- (562949953421312 / 8568098291072369)) = - 56"
    by (rule ulpExp_eq) simp_all
  have e: "roundEven ((- (562949953421312 / 8568098291072369)) / 2 powi (- 56)) = - 4734401710770561"
    by (simp add: roundEven_def)
  show ?thesis
    using roundDouble_eval [OF u e] by simp
qed

lemma daysPerMonth_literal: "daysPerMonth = double 30.44"
  by (simp add: daysPerMonth_def double_def round_days_per_month)

lemma addEntry_future:
  "entries (addEntry testPlatform futureForm 1705314600000 emptyTracker) = entries futureTracker"
  by (simp add: addEntry_def Let_def futureForm_def emptyTracker_def futureEntry_def
      futureTracker_def validateEntry_iff field_def isValidDate_def testPlatform_def testDate_def
      testISO_def sampleDates_def methods_def moods_def sanitizeInput_def trim_def num_le_def
      performImport_fields sortWith_def)

lemma futureEntry_time: "entryTime testPlatform futureEntry = Some 1705487400000"
  by (simp add: futureEntry_def entryTime_def field_def testPlatform_def testDate_def
      sampleDates_def)

text \<open>
  C7. An entry dated after the current time (\<^verbatim>\<open>addEntry\<close> accepts the form of an entry two
  days ahead, see \<open>addEntry_future\<close>): every whole count is negative, so none of the tests
  for a count above 0 holds and the last branch shows minus 2880 minutes. No unit has a
  positive count, and the value has four digits.
\<close>

theorem time_since_future_entry:
  "entries futureTracker = [futureEntry]
   \<and> entryTime testPlatform futureEntry = Some (1705314600000 + 2 * 86400000)
   \<and> sinceUnit (calculateTimeSinceLastJoint testPlatform 1705314600000 futureTracker)
       = ''minutes''
   \<and> sinceValue (calculateTimeSinceLastJoint testPlatform 1705314600000 futureTracker)
       = Fin (- 2880)"
proof -
  have e: "entries futureTracker = [futureEntry]"
    by (simp add: futureTracker_def)
  have "sinceUnit (calculateTimeSinceLastJoint testPlatform 1705314600000 futureTracker)
          = ''minutes''
        \<and> sinceValue (calculateTimeSinceLastJoint testPlatform 1705314600000 futureTracker)
          = Fin (- 2880)"
    unfolding calculateTimeSinceLastJoint_def e
    by (simp add: Let_def futureEntry_time getTime_def num_sub_def num_min_def daysPerMonth_def
        roundDouble_numeral roundDouble_neg_numeral round_future_years round_future_months)
  then show ?thesis
    using e futureEntry_time by simp
qed

text \<open>
  Ordinary inputs, for comparison: no entry; three entries that are not sorted, the
  latest of them two and a half hours old; and the same entries two hundred years later.
\<close>

lemma round_five_halves: "roundDouble (5 / 2) = Fin (5 / 2)"
proof -
  have u: "ulpExp (5 / 2) = - 51"
    by (rule ulpExp_eq) simp_all
  have e: "roundEven ((5 / 2) / 2 powi (- 51)) = 5629499534213120"
    by (simp add: roundEven_def)
  show ?thesis
    using roundDouble_eval [OF u e] by simp
qed

lemma round_days_fraction: "roundDouble (5 / 48) = Fin (7505999378950827 / 72057594037927936)"
proof -
  have u: "ulpExp (5 / 48) = - 56"
    by (rule ulpExp_eq) simp_all
  have e: "roundEven ((5 / 48) / 2 powi (- 56)) = 7505999378950827"
    by (simp add: roundEven_def)
  show ?thesis
    using roundDouble_eval [OF u e] by simp
qed

lemma time_since_examples:
  "calculateTimeSinceLastJoint testPlatform 1705401000000 emptyTracker
     = \<lparr>sinceValue = Fin 0, sinceUnit = ''hours'', sinceText = ''No usage yet''\<rparr>"
  "sinceUnit (calculateTimeSinceLastJoint testPlatform 1705401000000 unsortedTracker) = ''hours''"
  "sinceValue (calculateTimeSinceLastJoint testPlatform 1705401000000 unsortedTracker) = Fin 2"
  "sinceUnit (calculateTimeSinceLastJoint testPlatform 8016912000000 unsortedTracker) = ''years''"
  "sinceValue (calculateTimeSinceLastJoint testPlatform 8016912000000 unsortedTracker) = Fin 99"
  by (simp_all add: calculateTimeSinceLastJoint_def emptyTracker_def unsortedTracker_def Let_def
      sample_entry_times sample_times_more getTime_def num_sub_def num_min_def daysPerMonth_def
      roundDouble_numeral roundDouble_neg_numeral roundDouble_zero round_five_halves
      round_days_fraction)

end
